theory Spec2Isabelle
  imports Main "HOL-Library.Word" "HOL-Library.Signed_Division"
begin

section \<open>The App selector store of the appgroup credential backend\<close>

text \<open>
  The App part of the backend registers named Apps, each with a set of options, and
  hands out UserIDs against them. Every handler of the source is a function from the
  request (operation and storage view) and the request's field data to the pair of
  the handler's Go result \<open>(*logical.Response, error)\<close> and the storage afterwards.
\<close>

subsection \<open>Machine integers and durations\<close>

text \<open>
  Go's \<open>int\<close> (on 64-bit platforms) and \<open>time.Duration\<close> (an \<open>int64\<close> of nanoseconds)
  are 64-bit two's complement integers: arithmetic wraps, comparisons are signed.
\<close>

type_synonym int64 = "64 word"

definition Second :: int64 where
  "Second = 1000000000"

subsection \<open>Data model\<close>

text \<open>\<open>appStorageEntry\<close>: the options set on an App. A Go slice is a list, the nil slice
  the empty list.\<close>

record appStorageEntry =
  Policies :: "string list"
  NumUses :: int64
  UserIDTTL :: int64
  TokenTTL :: int64
  TokenMaxTTL :: int64
  WrapTTL :: int64

text \<open>The zero value \<open>appStorageEntry{}\<close>.\<close>

definition zeroAppStorageEntry :: appStorageEntry where
  "zeroAppStorageEntry =
     \<lparr>Policies = [], NumUses = 0, UserIDTTL = 0, TokenTTL = 0, TokenMaxTTL = 0, WrapTTL = 0\<rparr>"

text \<open>\<open>userIDStorageEntry\<close>, with the two fields the App handlers set.\<close>

record userIDStorageEntry =
  uidNumUses :: int64
  uidUserIDTTL :: int64

text \<open>Modelled from the spec: the selector kinds (\<open>selectorTypeApp\<close> is declared in a
  file that is not among the sources; the spec names the kinds App, Group and Generic).\<close>

datatype selectorType = selectorTypeApp | selectorTypeGroup | selectorTypeGeneric

text \<open>Modelled from the spec: what the UserID registry keeps for one UserID (section 3,
  UserIDEntry): the back-reference to the owning selector, the options copied at
  issuance and the expiration instant (\<open>None\<close>: never expires).\<close>

record registeredUserID =
  selectorKind :: selectorType
  selectorName :: string
  issued :: userIDStorageEntry
  expirationTime :: "int64 option"

text \<open>A Go \<open>error\<close> value, by its message.\<close>

datatype error = Error string

fun errorString :: "error \<Rightarrow> string" where
  "errorString (Error m) = m"

text \<open>
  \<open>logical.Storage\<close>: the durable key-value store behind a request. App entries live
  under the keys \<open>app/<name>\<close>; they are kept decoded, since only \<open>setAppEntry\<close> writes
  them (JSON encoding of an \<open>appStorageEntry\<close> and decoding of what was encoded do not
  fail). UserID entries live in a namespace of their own, keyed by the salted hash.
  The store is an external collaborator that may fail: \<open>getErr\<close>, \<open>putErr\<close> and
  \<open>deleteErr\<close> are the errors its \<open>Get\<close>, \<open>Put\<close> and \<open>Delete\<close> return (\<open>None\<close>:
  the call succeeds).
\<close>

record Storage =
  apps :: "string \<rightharpoonup> appStorageEntry"
  userids :: "string \<rightharpoonup> registeredUserID"
  getErr :: "error option"
  putErr :: "error option"
  deleteErr :: "error option"

datatype Operation =
  CreateOperation | UpdateOperation | ReadOperation | DeleteOperation | ListOperation

text \<open>\<open>logical.Request\<close>, with the two fields the handlers read.\<close>

record Request =
  Operation :: Operation
  Storage :: Storage

text \<open>
  \<open>framework.FieldData\<close>: the raw fields of the request, already typed by the field
  schema. A field that was not supplied is \<open>None\<close>. \<open>data.GetOk(k)\<close> is the field itself
  (the value and whether it was supplied); \<open>data.Get(k)\<close> is the supplied value or the
  default of the schema, which is the type's zero value where the schema gives none.
\<close>

record FieldData =
  app_name :: "string option"
  policies :: "string option"
  num_uses :: "int64 option"
  userid_ttl :: "int64 option"
  token_ttl :: "int64 option"
  token_max_ttl :: "int64 option"
  wrap_ttl :: "int64 option"
  user_id :: "string option"

definition Get :: "'a option \<Rightarrow> 'a \<Rightarrow> 'a" where
  "Get raw dflt = (case raw of Some v \<Rightarrow> v | None \<Rightarrow> dflt)"

text \<open>The one non-zero default of the field schemas of \<open>appPaths\<close>: \<open>policies\<close> on
  \<open>app/<app_name>\<close>.\<close>

definition policiesDefault :: string where
  "policiesDefault = ''default''"

text \<open>\<open>logical.Response\<close>: an error response carrying its message, or a response with
  a data map (field name to value).\<close>

datatype val = VStrings "string list" | VInt int64 | VDuration int64 | VString string

datatype Response = ErrorResponse string | DataResponse "(string \<times> val) list"

fun IsError :: "Response option \<Rightarrow> bool" where
  "IsError (Some (ErrorResponse m)) = True"
| "IsError _ = False"

type_synonym result = "(error + Response option) \<times> Storage"

text \<open>
  The collaborators of the backend that are not part of it: the policy parser
  \<open>policyutil.ParsePolicies\<close>, the result of \<open>uuid.GenerateUUID()\<close>, the salted hasher
  \<open>b.salt\<close> and the clock.
\<close>

record backend =
  ParsePolicies :: "string \<Rightarrow> string list"
  GenerateUUID :: "error + string"
  saltID :: "string \<Rightarrow> string"
  now :: int64

subsection \<open>Names\<close>

text \<open>\<open>strings.ToLower\<close> on the names the routes accept: \<open>framework.GenericNameRegex\<close>
  matches ASCII word characters, dots and dashes only, and on ASCII the function maps
  \<open>A\<close>..\<open>Z\<close> to \<open>a\<close>..\<open>z\<close> and keeps every other character.\<close>

definition isUpper :: "char \<Rightarrow> bool" where
  "isUpper c = (65 \<le> (of_char c :: nat) \<and> (of_char c :: nat) \<le> 90)"

definition toLowerChar :: "char \<Rightarrow> char" where
  "toLowerChar c = (if isUpper c then char_of ((of_char c :: nat) + 32) else c)"

definition ToLower :: "string \<Rightarrow> string" where
  "ToLower s = map toLowerChar s"

subsection \<open>Reading and writing an App entry\<close>

text \<open>\<open>setAppEntry\<close> stores the options of an App under the lower-cased name.\<close>

definition setAppEntry :: "Storage \<Rightarrow> string \<Rightarrow> appStorageEntry \<Rightarrow> error option \<times> Storage" where
  "setAppEntry s appName app =
     (case putErr s of
        Some e \<Rightarrow> (Some e, s)
      | None \<Rightarrow> (None, s\<lparr>apps := (apps s)(''app/'' @ ToLower appName \<mapsto> app)\<rparr>))"

text \<open>\<open>appEntry\<close> fetches the options of an App: an error, no entry (\<open>nil\<close>), or the
  entry.\<close>

definition appEntry :: "Storage \<Rightarrow> string \<Rightarrow> error + appStorageEntry option" where
  "appEntry s appName =
     (if appName = [] then Inl (Error ''missing app_name'')
      else case getErr s of
             Some e \<Rightarrow> Inl e
           | None \<Rightarrow> Inr (apps s (''app/'' @ ToLower appName)))"

text \<open>The result of \<open>return nil, b.setAppEntry(...)\<close>.\<close>

definition storeEntry :: "Storage \<Rightarrow> string \<Rightarrow> appStorageEntry \<Rightarrow> result" where
  "storeEntry s appName app =
     (case setAppEntry s appName app of
        (Some e, s') \<Rightarrow> (Inl e, s')
      | (None, s') \<Rightarrow> (Inr None, s'))"

subsection \<open>Whole-record handlers\<close>

text \<open>Go's division of one duration by another: signed, truncating towards zero.\<close>

definition divDuration :: "int64 \<Rightarrow> int64 \<Rightarrow> int64" where
  "divDuration a b = word_of_int (sint a sdiv sint b)"

text \<open>
  The field assignments of \<open>pathAppCreateUpdate\<close>, one definition for each block of the
  source: a supplied field is taken from the request; a field that is not supplied is
  set to the schema's default on a create operation and left as it is otherwise.
  \<open>wrap_ttl\<close> is written only if it is supplied.
\<close>

definition setPolicies :: "backend \<Rightarrow> Request \<Rightarrow> FieldData \<Rightarrow> appStorageEntry \<Rightarrow> appStorageEntry" where
  "setPolicies b req data app =
     (case policies data of
        Some policiesRaw \<Rightarrow> app\<lparr>Policies := ParsePolicies b policiesRaw\<rparr>
      | None \<Rightarrow>
          if Operation req = CreateOperation
          then app\<lparr>Policies := ParsePolicies b (Get (policies data) policiesDefault)\<rparr>
          else app)"

definition setNumUses :: "Request \<Rightarrow> FieldData \<Rightarrow> appStorageEntry \<Rightarrow> appStorageEntry" where
  "setNumUses req data app =
     (case num_uses data of
        Some numUsesRaw \<Rightarrow> app\<lparr>NumUses := numUsesRaw\<rparr>
      | None \<Rightarrow>
          if Operation req = CreateOperation
          then app\<lparr>NumUses := Get (num_uses data) 0\<rparr>
          else app)"

definition setUserIDTTL :: "Request \<Rightarrow> FieldData \<Rightarrow> appStorageEntry \<Rightarrow> appStorageEntry" where
  "setUserIDTTL req data app =
     (case userid_ttl data of
        Some userIDTTLRaw \<Rightarrow> app\<lparr>UserIDTTL := Second * userIDTTLRaw\<rparr>
      | None \<Rightarrow>
          if Operation req = CreateOperation
          then app\<lparr>UserIDTTL := Second * Get (userid_ttl data) 0\<rparr>
          else app)"

definition setTokenTTL :: "Request \<Rightarrow> FieldData \<Rightarrow> appStorageEntry \<Rightarrow> appStorageEntry" where
  "setTokenTTL req data app =
     (case token_ttl data of
        Some tokenTTLRaw \<Rightarrow> app\<lparr>TokenTTL := Second * tokenTTLRaw\<rparr>
      | None \<Rightarrow>
          if Operation req = CreateOperation
          then app\<lparr>TokenTTL := Second * Get (token_ttl data) 0\<rparr>
          else app)"

definition setTokenMaxTTL :: "Request \<Rightarrow> FieldData \<Rightarrow> appStorageEntry \<Rightarrow> appStorageEntry" where
  "setTokenMaxTTL req data app =
     (case token_max_ttl data of
        Some tokenMaxTTLRaw \<Rightarrow> app\<lparr>TokenMaxTTL := Second * tokenMaxTTLRaw\<rparr>
      | None \<Rightarrow>
          if Operation req = CreateOperation
          then app\<lparr>TokenMaxTTL := Second * Get (token_max_ttl data) 0\<rparr>
          else app)"

definition setWrapTTL :: "FieldData \<Rightarrow> appStorageEntry \<Rightarrow> appStorageEntry" where
  "setWrapTTL data app =
     (case wrap_ttl data of
        Some wrapTTLRaw \<Rightarrow> app\<lparr>WrapTTL := wrapTTLRaw * Second\<rparr>
      | None \<Rightarrow> app)"

text \<open>\<open>pathAppCreateUpdate\<close> registers a new App or updates the options of an existing
  one. The entry it starts from is the stored one, or the zero entry if there is none.\<close>

definition pathAppCreateUpdate :: "backend \<Rightarrow> Request \<Rightarrow> FieldData \<Rightarrow> result" where
  "pathAppCreateUpdate b req data =
     (let appName = Get (app_name data) '''' in
      if appName = '''' then (Inr (Some (ErrorResponse ''missing app_name'')), Storage req)
      else case appEntry (Storage req) appName of
             Inl err \<Rightarrow> (Inl err, Storage req)
           | Inr found \<Rightarrow>
               (let app0 = (case found of None \<Rightarrow> zeroAppStorageEntry | Some e \<Rightarrow> e);
                    app1 = setPolicies b req data app0;
                    app2 = setNumUses req data app1
                in if NumUses app2 <s 0
                   then (Inr (Some (ErrorResponse ''num_uses cannot be negative'')), Storage req)
                   else
                     (let app3 = setUserIDTTL req data app2;
                          app4 = setTokenTTL req data app3;
                          app5 = setTokenMaxTTL req data app4
                      in if 0 <s TokenMaxTTL app5 \<and> TokenMaxTTL app5 <s TokenTTL app5
                         then (Inr (Some (ErrorResponse
                                 ''token_ttl should not be greater than token_max_ttl'')), Storage req)
                         else storeEntry (Storage req) appName (setWrapTTL data app5))))"

text \<open>\<open>pathAppRead\<close> reads the options of an App; the durations are returned in
  seconds.\<close>

definition pathAppRead :: "backend \<Rightarrow> Request \<Rightarrow> FieldData \<Rightarrow> result" where
  "pathAppRead b req data =
     (let appName = Get (app_name data) '''' in
      if appName = '''' then (Inr (Some (ErrorResponse ''missing app_name'')), Storage req)
      else case appEntry (Storage req) (ToLower appName) of
             Inl err \<Rightarrow> (Inl err, Storage req)
           | Inr None \<Rightarrow> (Inr None, Storage req)
           | Inr (Some app) \<Rightarrow>
               (Inr (Some (DataResponse
                  [(''policies'', VStrings (Policies app)),
                   (''num_uses'', VInt (NumUses app)),
                   (''userid_ttl'', VDuration (divDuration (UserIDTTL app) Second)),
                   (''token_ttl'', VDuration (divDuration (TokenTTL app) Second)),
                   (''token_max_ttl'', VDuration (divDuration (TokenMaxTTL app) Second)),
                   (''wrap_ttl'', VDuration (divDuration (WrapTTL app) Second))])), Storage req))"

text \<open>\<open>pathAppDelete\<close> removes the App from the storage.\<close>

definition pathAppDelete :: "backend \<Rightarrow> Request \<Rightarrow> FieldData \<Rightarrow> result" where
  "pathAppDelete b req data =
     (let appName = Get (app_name data) '''' in
      if appName = '''' then (Inr (Some (ErrorResponse ''missing app_name'')), Storage req)
      else case deleteErr (Storage req) of
             Some err \<Rightarrow> (Inl err, Storage req)
           | None \<Rightarrow>
               (Inr None,
                (Storage req)\<lparr>apps := (apps (Storage req))(''app/'' @ ToLower appName := None)\<rparr>))"

subsection \<open>Per-field handlers\<close>

text \<open>Every per-field handler fetches the entry under the lower-cased name first and
  returns \<open>nil, nil\<close> if there is none. Deleting a field resets it to the value it has
  in \<open>appStorageEntry{}\<close>.\<close>

definition pathAppPoliciesUpdate :: "backend \<Rightarrow> Request \<Rightarrow> FieldData \<Rightarrow> result" where
  "pathAppPoliciesUpdate b req data =
     (let appName = Get (app_name data) '''' in
      if appName = '''' then (Inr (Some (ErrorResponse ''missing app_name'')), Storage req)
      else case appEntry (Storage req) (ToLower appName) of
             Inl err \<Rightarrow> (Inl err, Storage req)
           | Inr None \<Rightarrow> (Inr None, Storage req)
           | Inr (Some app) \<Rightarrow>
               (case policies data of
                  Some raw \<Rightarrow>
                    storeEntry (Storage req) appName (app\<lparr>Policies := ParsePolicies b raw\<rparr>)
                | None \<Rightarrow> (Inr (Some (ErrorResponse ''missing policies'')), Storage req)))"

definition pathAppPoliciesRead :: "backend \<Rightarrow> Request \<Rightarrow> FieldData \<Rightarrow> result" where
  "pathAppPoliciesRead b req data =
     (let appName = Get (app_name data) '''' in
      if appName = '''' then (Inr (Some (ErrorResponse ''missing app_name'')), Storage req)
      else case appEntry (Storage req) (ToLower appName) of
             Inl err \<Rightarrow> (Inl err, Storage req)
           | Inr None \<Rightarrow> (Inr None, Storage req)
           | Inr (Some app) \<Rightarrow>
               (Inr (Some (DataResponse [(''policies'', VStrings (Policies app))])), Storage req))"

definition pathAppPoliciesDelete :: "backend \<Rightarrow> Request \<Rightarrow> FieldData \<Rightarrow> result" where
  "pathAppPoliciesDelete b req data =
     (let appName = Get (app_name data) '''' in
      if appName = '''' then (Inr (Some (ErrorResponse ''missing app_name'')), Storage req)
      else case appEntry (Storage req) (ToLower appName) of
             Inl err \<Rightarrow> (Inl err, Storage req)
           | Inr None \<Rightarrow> (Inr None, Storage req)
           | Inr (Some app) \<Rightarrow>
               storeEntry (Storage req) appName (app\<lparr>Policies := Policies zeroAppStorageEntry\<rparr>))"

definition pathAppNumUsesUpdate :: "backend \<Rightarrow> Request \<Rightarrow> FieldData \<Rightarrow> result" where
  "pathAppNumUsesUpdate b req data =
     (let appName = Get (app_name data) '''' in
      if appName = '''' then (Inr (Some (ErrorResponse ''missing app_name'')), Storage req)
      else case appEntry (Storage req) (ToLower appName) of
             Inl err \<Rightarrow> (Inl err, Storage req)
           | Inr None \<Rightarrow> (Inr None, Storage req)
           | Inr (Some app) \<Rightarrow>
               (case num_uses data of
                  Some raw \<Rightarrow>
                    (let app' = app\<lparr>NumUses := raw\<rparr>
                     in if NumUses app' <s 0
                        then (Inr (Some (ErrorResponse ''num_uses cannot be negative'')), Storage req)
                        else storeEntry (Storage req) appName app')
                | None \<Rightarrow> (Inr (Some (ErrorResponse ''missing num_uses'')), Storage req)))"

definition pathAppNumUsesRead :: "backend \<Rightarrow> Request \<Rightarrow> FieldData \<Rightarrow> result" where
  "pathAppNumUsesRead b req data =
     (let appName = Get (app_name data) '''' in
      if appName = '''' then (Inr (Some (ErrorResponse ''missing app_name'')), Storage req)
      else case appEntry (Storage req) (ToLower appName) of
             Inl err \<Rightarrow> (Inl err, Storage req)
           | Inr None \<Rightarrow> (Inr None, Storage req)
           | Inr (Some app) \<Rightarrow>
               (Inr (Some (DataResponse [(''num_uses'', VInt (NumUses app))])), Storage req))"

definition pathAppNumUsesDelete :: "backend \<Rightarrow> Request \<Rightarrow> FieldData \<Rightarrow> result" where
  "pathAppNumUsesDelete b req data =
     (let appName = Get (app_name data) '''' in
      if appName = '''' then (Inr (Some (ErrorResponse ''missing app_name'')), Storage req)
      else case appEntry (Storage req) (ToLower appName) of
             Inl err \<Rightarrow> (Inl err, Storage req)
           | Inr None \<Rightarrow> (Inr None, Storage req)
           | Inr (Some app) \<Rightarrow>
               storeEntry (Storage req) appName (app\<lparr>NumUses := NumUses zeroAppStorageEntry\<rparr>))"

definition pathAppUserIDTTLUpdate :: "backend \<Rightarrow> Request \<Rightarrow> FieldData \<Rightarrow> result" where
  "pathAppUserIDTTLUpdate b req data =
     (let appName = Get (app_name data) '''' in
      if appName = '''' then (Inr (Some (ErrorResponse ''missing app_name'')), Storage req)
      else case appEntry (Storage req) (ToLower appName) of
             Inl err \<Rightarrow> (Inl err, Storage req)
           | Inr None \<Rightarrow> (Inr None, Storage req)
           | Inr (Some app) \<Rightarrow>
               (case userid_ttl data of
                  Some raw \<Rightarrow>
                    storeEntry (Storage req) appName (app\<lparr>UserIDTTL := Second * raw\<rparr>)
                | None \<Rightarrow> (Inr (Some (ErrorResponse ''missing userid_ttl'')), Storage req)))"

definition pathAppUserIDTTLRead :: "backend \<Rightarrow> Request \<Rightarrow> FieldData \<Rightarrow> result" where
  "pathAppUserIDTTLRead b req data =
     (let appName = Get (app_name data) '''' in
      if appName = '''' then (Inr (Some (ErrorResponse ''missing app_name'')), Storage req)
      else case appEntry (Storage req) (ToLower appName) of
             Inl err \<Rightarrow> (Inl err, Storage req)
           | Inr None \<Rightarrow> (Inr None, Storage req)
           | Inr (Some app) \<Rightarrow>
               (Inr (Some (DataResponse [(''userid_ttl'', VDuration (divDuration (UserIDTTL app) Second))])), Storage req))"

definition pathAppUserIDTTLDelete :: "backend \<Rightarrow> Request \<Rightarrow> FieldData \<Rightarrow> result" where
  "pathAppUserIDTTLDelete b req data =
     (let appName = Get (app_name data) '''' in
      if appName = '''' then (Inr (Some (ErrorResponse ''missing app_name'')), Storage req)
      else case appEntry (Storage req) (ToLower appName) of
             Inl err \<Rightarrow> (Inl err, Storage req)
           | Inr None \<Rightarrow> (Inr None, Storage req)
           | Inr (Some app) \<Rightarrow>
               storeEntry (Storage req) appName (app\<lparr>UserIDTTL := UserIDTTL zeroAppStorageEntry\<rparr>))"

definition pathAppTokenTTLUpdate :: "backend \<Rightarrow> Request \<Rightarrow> FieldData \<Rightarrow> result" where
  "pathAppTokenTTLUpdate b req data =
     (let appName = Get (app_name data) '''' in
      if appName = '''' then (Inr (Some (ErrorResponse ''missing app_name'')), Storage req)
      else case appEntry (Storage req) (ToLower appName) of
             Inl err \<Rightarrow> (Inl err, Storage req)
           | Inr None \<Rightarrow> (Inr None, Storage req)
           | Inr (Some app) \<Rightarrow>
               (case token_ttl data of
                  Some raw \<Rightarrow>
                    (let app' = app\<lparr>TokenTTL := Second * raw\<rparr>
                     in if 0 <s TokenMaxTTL app' \<and> TokenMaxTTL app' <s TokenTTL app'
                        then (Inr (Some (ErrorResponse
                                ''token_ttl should not be greater than token_max_ttl'')), Storage req)
                        else storeEntry (Storage req) appName app')
                | None \<Rightarrow> (Inr (Some (ErrorResponse ''missing token_ttl'')), Storage req)))"

definition pathAppTokenTTLRead :: "backend \<Rightarrow> Request \<Rightarrow> FieldData \<Rightarrow> result" where
  "pathAppTokenTTLRead b req data =
     (let appName = Get (app_name data) '''' in
      if appName = '''' then (Inr (Some (ErrorResponse ''missing app_name'')), Storage req)
      else case appEntry (Storage req) (ToLower appName) of
             Inl err \<Rightarrow> (Inl err, Storage req)
           | Inr None \<Rightarrow> (Inr None, Storage req)
           | Inr (Some app) \<Rightarrow>
               (Inr (Some (DataResponse [(''token_ttl'', VDuration (divDuration (TokenTTL app) Second))])), Storage req))"

definition pathAppTokenTTLDelete :: "backend \<Rightarrow> Request \<Rightarrow> FieldData \<Rightarrow> result" where
  "pathAppTokenTTLDelete b req data =
     (let appName = Get (app_name data) '''' in
      if appName = '''' then (Inr (Some (ErrorResponse ''missing app_name'')), Storage req)
      else case appEntry (Storage req) (ToLower appName) of
             Inl err \<Rightarrow> (Inl err, Storage req)
           | Inr None \<Rightarrow> (Inr None, Storage req)
           | Inr (Some app) \<Rightarrow>
               storeEntry (Storage req) appName (app\<lparr>TokenTTL := TokenTTL zeroAppStorageEntry\<rparr>))"

definition pathAppTokenMaxTTLUpdate :: "backend \<Rightarrow> Request \<Rightarrow> FieldData \<Rightarrow> result" where
  "pathAppTokenMaxTTLUpdate b req data =
     (let appName = Get (app_name data) '''' in
      if appName = '''' then (Inr (Some (ErrorResponse ''missing app_name'')), Storage req)
      else case appEntry (Storage req) (ToLower appName) of
             Inl err \<Rightarrow> (Inl err, Storage req)
           | Inr None \<Rightarrow> (Inr None, Storage req)
           | Inr (Some app) \<Rightarrow>
               (case token_max_ttl data of
                  Some raw \<Rightarrow>
                    (let app' = app\<lparr>TokenMaxTTL := Second * raw\<rparr>
                     in if 0 <s TokenMaxTTL app' \<and> TokenMaxTTL app' <s TokenTTL app'
                        then (Inr (Some (ErrorResponse
                                ''token_max_ttl should be greater than or equal to token_ttl'')), Storage req)
                        else storeEntry (Storage req) appName app')
                | None \<Rightarrow> (Inr (Some (ErrorResponse ''missing token_max_ttl'')), Storage req)))"

definition pathAppTokenMaxTTLRead :: "backend \<Rightarrow> Request \<Rightarrow> FieldData \<Rightarrow> result" where
  "pathAppTokenMaxTTLRead b req data =
     (let appName = Get (app_name data) '''' in
      if appName = '''' then (Inr (Some (ErrorResponse ''missing app_name'')), Storage req)
      else case appEntry (Storage req) (ToLower appName) of
             Inl err \<Rightarrow> (Inl err, Storage req)
           | Inr None \<Rightarrow> (Inr None, Storage req)
           | Inr (Some app) \<Rightarrow>
               (Inr (Some (DataResponse [(''token_max_ttl'', VDuration (divDuration (TokenMaxTTL app) Second))])), Storage req))"

definition pathAppTokenMaxTTLDelete :: "backend \<Rightarrow> Request \<Rightarrow> FieldData \<Rightarrow> result" where
  "pathAppTokenMaxTTLDelete b req data =
     (let appName = Get (app_name data) '''' in
      if appName = '''' then (Inr (Some (ErrorResponse ''missing app_name'')), Storage req)
      else case appEntry (Storage req) (ToLower appName) of
             Inl err \<Rightarrow> (Inl err, Storage req)
           | Inr None \<Rightarrow> (Inr None, Storage req)
           | Inr (Some app) \<Rightarrow>
               storeEntry (Storage req) appName (app\<lparr>TokenMaxTTL := TokenMaxTTL zeroAppStorageEntry\<rparr>))"

definition pathAppWrapTTLUpdate :: "backend \<Rightarrow> Request \<Rightarrow> FieldData \<Rightarrow> result" where
  "pathAppWrapTTLUpdate b req data =
     (let appName = Get (app_name data) '''' in
      if appName = '''' then (Inr (Some (ErrorResponse ''missing app_name'')), Storage req)
      else case appEntry (Storage req) (ToLower appName) of
             Inl err \<Rightarrow> (Inl err, Storage req)
           | Inr None \<Rightarrow> (Inr None, Storage req)
           | Inr (Some app) \<Rightarrow>
               (case wrap_ttl data of
                  Some raw \<Rightarrow>
                    storeEntry (Storage req) appName (app\<lparr>WrapTTL := raw * Second\<rparr>)
                | None \<Rightarrow> (Inr (Some (ErrorResponse ''missing wrap_ttl'')), Storage req)))"

definition pathAppWrapTTLRead :: "backend \<Rightarrow> Request \<Rightarrow> FieldData \<Rightarrow> result" where
  "pathAppWrapTTLRead b req data =
     (let appName = Get (app_name data) '''' in
      if appName = '''' then (Inr (Some (ErrorResponse ''missing app_name'')), Storage req)
      else case appEntry (Storage req) (ToLower appName) of
             Inl err \<Rightarrow> (Inl err, Storage req)
           | Inr None \<Rightarrow> (Inr None, Storage req)
           | Inr (Some app) \<Rightarrow>
               (Inr (Some (DataResponse [(''wrap_ttl'', VDuration (divDuration (WrapTTL app) Second))])), Storage req))"

definition pathAppWrapTTLDelete :: "backend \<Rightarrow> Request \<Rightarrow> FieldData \<Rightarrow> result" where
  "pathAppWrapTTLDelete b req data =
     (let appName = Get (app_name data) '''' in
      if appName = '''' then (Inr (Some (ErrorResponse ''missing app_name'')), Storage req)
      else case appEntry (Storage req) (ToLower appName) of
             Inl err \<Rightarrow> (Inl err, Storage req)
           | Inr None \<Rightarrow> (Inr None, Storage req)
           | Inr (Some app) \<Rightarrow>
               storeEntry (Storage req) appName (app\<lparr>WrapTTL := WrapTTL zeroAppStorageEntry\<rparr>))"

subsection \<open>Issuing UserIDs\<close>

text \<open>Modelled from the spec: whether a registered UserID is live, that is, not past its
  expiration instant (section 3: entries past this instant are treated as absent).\<close>

definition live :: "int64 \<Rightarrow> registeredUserID \<Rightarrow> bool" where
  "live t e = (case expirationTime e of None \<Rightarrow> True | Some x \<Rightarrow> \<not> x <s t)"

text \<open>Modelled from the spec: \<open>registerUserIDEntry\<close> is defined in a file of the
  repository that is not among the sources. Section 4.2 (Issue): registration fails with
  a conflict if a live entry with the same hash exists; otherwise it writes an entry,
  keyed by the salted hash of the UserID, that refers to the selector and carries the
  options handed in, with \<open>expirationTime = now + userIDTTL\<close> (a zero TTL never
  expires).\<close>

definition registerUserIDEntry ::
  "backend \<Rightarrow> Storage \<Rightarrow> selectorType \<Rightarrow> string \<Rightarrow> string \<Rightarrow> userIDStorageEntry
     \<Rightarrow> error option \<times> Storage" where
  "registerUserIDEntry b s kind name userID entry =
     (case getErr s of
        Some e \<Rightarrow> (Some e, s)
      | None \<Rightarrow>
          if (case userids s (saltID b userID) of None \<Rightarrow> False | Some old \<Rightarrow> live (now b) old)
          then (Some (Error ''ConflictError''), s)
          else
            (case putErr s of
               Some e \<Rightarrow> (Some e, s)
             | None \<Rightarrow>
                 (let expires = (if uidUserIDTTL entry = 0 then None
                                 else Some (now b + uidUserIDTTL entry));
                      registered = \<lparr>selectorKind = kind, selectorName = name,
                                    issued = entry, expirationTime = expires\<rparr>
                  in (None, s\<lparr>userids := (userids s)(saltID b userID \<mapsto> registered)\<rparr>))))"

text \<open>\<open>handleAppCredsCommon\<close> registers the UserID of the request against the App, with
  the App's \<open>NumUses\<close> and \<open>UserIDTTL\<close>, and returns the UserID unless it was specified
  by the client.\<close>

definition handleAppCredsCommon :: "backend \<Rightarrow> Request \<Rightarrow> FieldData \<Rightarrow> bool \<Rightarrow> result" where
  "handleAppCredsCommon b req data specified =
     (let appName = Get (app_name data) '''' in
      if appName = '''' then (Inr (Some (ErrorResponse ''missing app_name'')), Storage req)
      else
        (let userID = Get (user_id data) '''' in
         if userID = '''' then (Inr (Some (ErrorResponse ''missing user_id'')), Storage req)
         else case appEntry (Storage req) (ToLower appName) of
                Inl err \<Rightarrow> (Inl err, Storage req)
              | Inr None \<Rightarrow>
                  (Inr (Some (ErrorResponse (''app '' @ appName @ '' does not exist''))),
                   Storage req)
              | Inr (Some app) \<Rightarrow>
                  (case registerUserIDEntry b (Storage req) selectorTypeApp appName userID
                          \<lparr>uidNumUses = NumUses app, uidUserIDTTL = UserIDTTL app\<rparr> of
                     (Some err, s') \<Rightarrow>
                       (Inl (Error (''failed to store user ID: '' @ errorString err)), s')
                   | (None, s') \<Rightarrow>
                       if specified then (Inr None, s')
                       else (Inr (Some (DataResponse [(''user_id'', VString userID)])), s'))))"

definition pathAppCredsRead :: "backend \<Rightarrow> Request \<Rightarrow> FieldData \<Rightarrow> result" where
  "pathAppCredsRead b req data =
     (case GenerateUUID b of
        Inl err \<Rightarrow>
          (Inl (Error (''failed to generate UserID:'' @ errorString err)), Storage req)
      | Inr userID \<Rightarrow> handleAppCredsCommon b req (data\<lparr>user_id := Some userID\<rparr>) False)"

definition pathAppCredsSpecificUpdate :: "backend \<Rightarrow> Request \<Rightarrow> FieldData \<Rightarrow> result" where
  "pathAppCredsSpecificUpdate b req data = handleAppCredsCommon b req data True"

subsection \<open>Routes\<close>

text \<open>The routes of \<open>appPaths\<close> below \<open>app/<app_name>\<close> and the callback each of them
  registers for an operation. (The listing route \<open>app/\<close> has no App name and writes
  nothing; it is left out.)\<close>

datatype Path =
  PathApp | PathPolicies | PathNumUses | PathUserIDTTL | PathTokenTTL | PathTokenMaxTTL
  | PathWrapTTL | PathCreds | PathCredsSpecific

fun appPaths :: "backend \<Rightarrow> Path \<Rightarrow> Operation \<Rightarrow> (Request \<Rightarrow> FieldData \<Rightarrow> result) option" where
  "appPaths b PathApp CreateOperation = Some (pathAppCreateUpdate b)"
| "appPaths b PathApp UpdateOperation = Some (pathAppCreateUpdate b)"
| "appPaths b PathApp ReadOperation = Some (pathAppRead b)"
| "appPaths b PathApp DeleteOperation = Some (pathAppDelete b)"
| "appPaths b PathPolicies UpdateOperation = Some (pathAppPoliciesUpdate b)"
| "appPaths b PathPolicies ReadOperation = Some (pathAppPoliciesRead b)"
| "appPaths b PathPolicies DeleteOperation = Some (pathAppPoliciesDelete b)"
| "appPaths b PathNumUses UpdateOperation = Some (pathAppNumUsesUpdate b)"
| "appPaths b PathNumUses ReadOperation = Some (pathAppNumUsesRead b)"
| "appPaths b PathNumUses DeleteOperation = Some (pathAppNumUsesDelete b)"
| "appPaths b PathUserIDTTL UpdateOperation = Some (pathAppUserIDTTLUpdate b)"
| "appPaths b PathUserIDTTL ReadOperation = Some (pathAppUserIDTTLRead b)"
| "appPaths b PathUserIDTTL DeleteOperation = Some (pathAppUserIDTTLDelete b)"
| "appPaths b PathTokenTTL UpdateOperation = Some (pathAppTokenTTLUpdate b)"
| "appPaths b PathTokenTTL ReadOperation = Some (pathAppTokenTTLRead b)"
| "appPaths b PathTokenTTL DeleteOperation = Some (pathAppTokenTTLDelete b)"
| "appPaths b PathTokenMaxTTL UpdateOperation = Some (pathAppTokenMaxTTLUpdate b)"
| "appPaths b PathTokenMaxTTL ReadOperation = Some (pathAppTokenMaxTTLRead b)"
| "appPaths b PathTokenMaxTTL DeleteOperation = Some (pathAppTokenMaxTTLDelete b)"
| "appPaths b PathWrapTTL UpdateOperation = Some (pathAppWrapTTLUpdate b)"
| "appPaths b PathWrapTTL ReadOperation = Some (pathAppWrapTTLRead b)"
| "appPaths b PathWrapTTL DeleteOperation = Some (pathAppWrapTTLDelete b)"
| "appPaths b PathCreds ReadOperation = Some (pathAppCredsRead b)"
| "appPaths b PathCredsSpecific UpdateOperation = Some (pathAppCredsSpecificUpdate b)"
| "appPaths b _ _ = None"

text \<open>A request on a route runs the callback registered for its operation; an operation
  for which the route registers none is refused and changes nothing.\<close>

definition HandleRequest :: "backend \<Rightarrow> Path \<Rightarrow> Request \<Rightarrow> FieldData \<Rightarrow> result" where
  "HandleRequest b p req data =
     (case appPaths b p (Operation req) of
        None \<Rightarrow> (Inl (Error ''unsupported operation''), Storage req)
      | Some h \<Rightarrow> h req data)"

subsection \<open>Concurrent requests\<close>

text \<open>
  The handlers run concurrently, one invocation for each request. The backend's
  \<open>appLock\<close> is taken in two places of the per-field update handlers: \<open>appEntry\<close>
  holds the read lock around the storage \<open>Get\<close> and releases it when it returns, and
  \<open>setAppEntry\<close> holds the write lock around the storage \<open>Put\<close> and releases it when
  it returns. Between the two calls the handler holds no lock. A per-field update is
  therefore two sections that other handlers cannot split: the first runs the handler
  up to the point where it is about to call \<open>setAppEntry\<close> (or returns without a
  write), the second is the call of \<open>setAppEntry\<close>. Sections of different handlers
  interleave in any order.

  \<open>pending\<close> is what a handler has after its first section: its result, if it returns
  without a write, or the name and the entry it is about to hand to \<open>setAppEntry\<close>.
  The first section of each per-field update handler follows, with the handler's
  source up to that point.
\<close>

datatype pending =
  Done "error + Response option" | Put string appStorageEntry

definition pathAppPoliciesUpdate_read :: "backend \<Rightarrow> FieldData \<Rightarrow> Storage \<Rightarrow> pending" where
  "pathAppPoliciesUpdate_read b data s =
     (let appName = Get (app_name data) '''' in
      if appName = '''' then Done (Inr (Some (ErrorResponse ''missing app_name'')))
      else case appEntry s (ToLower appName) of
             Inl err \<Rightarrow> Done (Inl err)
           | Inr None \<Rightarrow> Done (Inr None)
           | Inr (Some app) \<Rightarrow>
               (case policies data of
                  Some raw \<Rightarrow>
                    Put appName (app\<lparr>Policies := ParsePolicies b raw\<rparr>)
                | None \<Rightarrow> Done (Inr (Some (ErrorResponse ''missing policies'')))))"

definition pathAppNumUsesUpdate_read :: "backend \<Rightarrow> FieldData \<Rightarrow> Storage \<Rightarrow> pending" where
  "pathAppNumUsesUpdate_read b data s =
     (let appName = Get (app_name data) '''' in
      if appName = '''' then Done (Inr (Some (ErrorResponse ''missing app_name'')))
      else case appEntry s (ToLower appName) of
             Inl err \<Rightarrow> Done (Inl err)
           | Inr None \<Rightarrow> Done (Inr None)
           | Inr (Some app) \<Rightarrow>
               (case num_uses data of
                  Some raw \<Rightarrow>
                    (let app' = app\<lparr>NumUses := raw\<rparr>
                     in if NumUses app' <s 0
                        then Done (Inr (Some (ErrorResponse ''num_uses cannot be negative'')))
                        else Put appName app')
                | None \<Rightarrow> Done (Inr (Some (ErrorResponse ''missing num_uses'')))))"

definition pathAppUserIDTTLUpdate_read :: "backend \<Rightarrow> FieldData \<Rightarrow> Storage \<Rightarrow> pending" where
  "pathAppUserIDTTLUpdate_read b data s =
     (let appName = Get (app_name data) '''' in
      if appName = '''' then Done (Inr (Some (ErrorResponse ''missing app_name'')))
      else case appEntry s (ToLower appName) of
             Inl err \<Rightarrow> Done (Inl err)
           | Inr None \<Rightarrow> Done (Inr None)
           | Inr (Some app) \<Rightarrow>
               (case userid_ttl data of
                  Some raw \<Rightarrow>
                    Put appName (app\<lparr>UserIDTTL := Second * raw\<rparr>)
                | None \<Rightarrow> Done (Inr (Some (ErrorResponse ''missing userid_ttl'')))))"

definition pathAppTokenTTLUpdate_read :: "backend \<Rightarrow> FieldData \<Rightarrow> Storage \<Rightarrow> pending" where
  "pathAppTokenTTLUpdate_read b data s =
     (let appName = Get (app_name data) '''' in
      if appName = '''' then Done (Inr (Some (ErrorResponse ''missing app_name'')))
      else case appEntry s (ToLower appName) of
             Inl err \<Rightarrow> Done (Inl err)
           | Inr None \<Rightarrow> Done (Inr None)
           | Inr (Some app) \<Rightarrow>
               (case token_ttl data of
                  Some raw \<Rightarrow>
                    (let app' = app\<lparr>TokenTTL := Second * raw\<rparr>
                     in if 0 <s TokenMaxTTL app' \<and> TokenMaxTTL app' <s TokenTTL app'
                        then Done (Inr (Some (ErrorResponse
                                ''token_ttl should not be greater than token_max_ttl'')))
                        else Put appName app')
                | None \<Rightarrow> Done (Inr (Some (ErrorResponse ''missing token_ttl'')))))"

definition pathAppTokenMaxTTLUpdate_read :: "backend \<Rightarrow> FieldData \<Rightarrow> Storage \<Rightarrow> pending" where
  "pathAppTokenMaxTTLUpdate_read b data s =
     (let appName = Get (app_name data) '''' in
      if appName = '''' then Done (Inr (Some (ErrorResponse ''missing app_name'')))
      else case appEntry s (ToLower appName) of
             Inl err \<Rightarrow> Done (Inl err)
           | Inr None \<Rightarrow> Done (Inr None)
           | Inr (Some app) \<Rightarrow>
               (case token_max_ttl data of
                  Some raw \<Rightarrow>
                    (let app' = app\<lparr>TokenMaxTTL := Second * raw\<rparr>
                     in if 0 <s TokenMaxTTL app' \<and> TokenMaxTTL app' <s TokenTTL app'
                        then Done (Inr (Some (ErrorResponse
                                ''token_max_ttl should be greater than or equal to token_ttl'')))
                        else Put appName app')
                | None \<Rightarrow> Done (Inr (Some (ErrorResponse ''missing token_max_ttl'')))))"

definition pathAppWrapTTLUpdate_read :: "backend \<Rightarrow> FieldData \<Rightarrow> Storage \<Rightarrow> pending" where
  "pathAppWrapTTLUpdate_read b data s =
     (let appName = Get (app_name data) '''' in
      if appName = '''' then Done (Inr (Some (ErrorResponse ''missing app_name'')))
      else case appEntry s (ToLower appName) of
             Inl err \<Rightarrow> Done (Inl err)
           | Inr None \<Rightarrow> Done (Inr None)
           | Inr (Some app) \<Rightarrow>
               (case wrap_ttl data of
                  Some raw \<Rightarrow>
                    Put appName (app\<lparr>WrapTTL := raw * Second\<rparr>)
                | None \<Rightarrow> Done (Inr (Some (ErrorResponse ''missing wrap_ttl'')))))"

text \<open>The first section of the update handler of each per-field route.\<close>

fun updateSection :: "backend \<Rightarrow> Path \<Rightarrow> (FieldData \<Rightarrow> Storage \<Rightarrow> pending) option" where
  "updateSection b PathPolicies = Some (pathAppPoliciesUpdate_read b)"
| "updateSection b PathNumUses = Some (pathAppNumUsesUpdate_read b)"
| "updateSection b PathUserIDTTL = Some (pathAppUserIDTTLUpdate_read b)"
| "updateSection b PathTokenTTL = Some (pathAppTokenTTLUpdate_read b)"
| "updateSection b PathTokenMaxTTL = Some (pathAppTokenMaxTTLUpdate_read b)"
| "updateSection b PathWrapTTL = Some (pathAppWrapTTLUpdate_read b)"
| "updateSection b _ = None"

text \<open>
  A handler in flight has not run its first section yet (\<open>Ready\<close>, with the section),
  has run it and is about to call \<open>setAppEntry\<close> (\<open>Writing\<close>), or has returned
  (\<open>Finished\<close>, with its Go result). \<open>stepThread\<close> runs the next section of a handler
  on the storage as it is at that moment.
\<close>

datatype thread =
  Ready "Storage \<Rightarrow> pending" | Writing string appStorageEntry
  | Finished "error + Response option"

fun stepThread :: "thread \<Rightarrow> Storage \<Rightarrow> thread \<times> Storage" where
  "stepThread (Ready section) s =
     (case section s of
        Done r \<Rightarrow> (Finished r, s)
      | Put appName app \<Rightarrow> (Writing appName app, s))"
| "stepThread (Writing appName app) s =
     (case setAppEntry s appName app of
        (Some e, s') \<Rightarrow> (Finished (Inl e), s')
      | (None, s') \<Rightarrow> (Finished (Inr None), s'))"
| "stepThread (Finished r) s = (Finished r, s)"

text \<open>Two handlers in flight on one storage, and a schedule that says whose section
  runs next.\<close>

datatype turn = TurnA | TurnB

fun interleave :: "turn list \<Rightarrow> thread \<Rightarrow> thread \<Rightarrow> Storage \<Rightarrow> thread \<times> thread \<times> Storage" where
  "interleave [] a b s = (a, b, s)"
| "interleave (TurnA # rest) a b s =
     (case stepThread a s of (a', s') \<Rightarrow> interleave rest a' b s')"
| "interleave (TurnB # rest) a b s =
     (case stepThread b s of (b', s') \<Rightarrow> interleave rest a b' s')"

subsection \<open>Properties of entries, stores and names\<close>

text \<open>The ordering of the token TTLs: if \<open>tokenMaxTTL > 0\<close> then
  \<open>tokenTTL \<le> tokenMaxTTL\<close>.\<close>

definition ttlOrdered :: "appStorageEntry \<Rightarrow> bool" where
  "ttlOrdered app = (0 <s TokenMaxTTL app \<longrightarrow> TokenTTL app \<le>s TokenMaxTTL app)"

definition storeOrdered :: "Storage \<Rightarrow> bool" where
  "storeOrdered s = (\<forall>k app. apps s k = Some app \<longrightarrow> ttlOrdered app)"

text \<open>The entry \<open>pathAppCreateUpdate\<close> is about to store for a request, from the entry it
  starts from: its field assignments in the order of the source.\<close>

definition mergedEntry :: "backend \<Rightarrow> Request \<Rightarrow> FieldData \<Rightarrow> appStorageEntry \<Rightarrow> appStorageEntry" where
  "mergedEntry b req data app =
     setWrapTTL data (setTokenMaxTTL req data (setTokenTTL req data
       (setUserIDTTL req data (setNumUses req data (setPolicies b req data app)))))"

text \<open>Two names that differ only in letter case: they have the same length, and at each
  position the same character or the upper-case and the lower-case form of one letter.\<close>

definition sameLetter :: "char \<Rightarrow> char \<Rightarrow> bool" where
  "sameLetter c d =
     (c = d \<or> (isUpper c \<and> (of_char d :: nat) = of_char c + 32)
            \<or> (isUpper d \<and> (of_char c :: nat) = of_char d + 32))"

definition differOnlyInCase :: "string \<Rightarrow> string \<Rightarrow> bool" where
  "differOnlyInCase m n = list_all2 sameLetter m n"

text \<open>The routes that manage the options of an App (all but the two that issue
  UserIDs), and a run of requests on them, each on the storage the one before left.\<close>

definition configPath :: "Path \<Rightarrow> bool" where
  "configPath p = (p \<noteq> PathCreds \<and> p \<noteq> PathCredsSpecific)"

fun applyAll :: "backend \<Rightarrow> Storage \<Rightarrow> (Path \<times> Operation \<times> FieldData) list \<Rightarrow> Storage" where
  "applyAll b s [] = s"
| "applyAll b s ((p, op, data) # rest) =
     applyAll b (snd (HandleRequest b p \<lparr>Operation = op, Storage = s\<rparr> data)) rest"

subsection \<open>Concrete inputs\<close>

text \<open>A backend whose policy parser returns the one policy it is given, an App \<open>a\<close>
  with a token TTL of 3 seconds below a maximum of 5 seconds, a working storage that
  holds it, and the field data of requests on it.\<close>

definition exampleBackend :: backend where
  "exampleBackend =
     \<lparr>ParsePolicies = (\<lambda>raw. [raw]), GenerateUUID = Inr ''generated-id'',
      saltID = (\<lambda>u. ''salted:'' @ u), now = 1000\<rparr>"

definition exampleEntry :: appStorageEntry where
  "exampleEntry =
     \<lparr>Policies = [''p1''], NumUses = 3, UserIDTTL = 60 * Second, TokenTTL = 3 * Second,
      TokenMaxTTL = 5 * Second, WrapTTL = 7 * Second\<rparr>"

definition exampleStorage :: Storage where
  "exampleStorage =
     \<lparr>apps = [''app/a'' \<mapsto> exampleEntry], userids = Map.empty,
      getErr = None, putErr = None, deleteErr = None\<rparr>"

definition noFields :: FieldData where
  "noFields =
     \<lparr>app_name = None, policies = None, num_uses = None, userid_ttl = None,
      token_ttl = None, token_max_ttl = None, wrap_ttl = None, user_id = None\<rparr>"

section \<open>Auxiliary facts\<close>

lemma of_char_lower: "isUpper c \<Longrightarrow> (of_char (char_of ((of_char c :: nat) + 32) :: char) :: nat) = of_char c + 32"
  by (simp add: isUpper_def)

lemma lower_not_upper: "isUpper c \<Longrightarrow> \<not> isUpper (char_of ((of_char c :: nat) + 32))"
proof
  assume u: "isUpper c" and l: "isUpper (char_of ((of_char c :: nat) + 32))"
  from l have "(of_char (char_of ((of_char c :: nat) + 32) :: char) :: nat) \<le> 90"
    unfolding isUpper_def by blast
  with of_char_lower [OF u] u show False by (simp add: isUpper_def)
qed

lemma toLowerChar_idem: "toLowerChar (toLowerChar c) = toLowerChar c"
  by (simp add: toLowerChar_def lower_not_upper)

lemma ToLower_idem: "ToLower (ToLower s) = ToLower s"
  by (simp add: ToLower_def toLowerChar_idem)

lemma ToLower_Nil_iff: "ToLower s = [] \<longleftrightarrow> s = []"
  by (simp add: ToLower_def)

lemma appEntry_ordered:
  "storeOrdered s \<Longrightarrow> appEntry s n = Inr (Some app) \<Longrightarrow> ttlOrdered app"
  by (auto simp: storeOrdered_def appEntry_def split: if_splits option.splits)

lemma storeEntry_ordered:
  "storeOrdered s \<Longrightarrow> ttlOrdered app \<Longrightarrow> storeOrdered (snd (storeEntry s n app))"
  by (auto simp: storeOrdered_def storeEntry_def setAppEntry_def split: option.splits)

lemma checked_ordered:
  "\<not> (0 <s TokenMaxTTL app \<and> TokenMaxTTL app <s TokenTTL app) \<Longrightarrow> ttlOrdered app"
  by (auto simp: ttlOrdered_def)

lemma setWrapTTL_ordered: "ttlOrdered (setWrapTTL data app) = ttlOrdered app"
  by (simp add: setWrapTTL_def ttlOrdered_def split: option.splits)

lemma registerUserIDEntry_apps:
  "apps (snd (registerUserIDEntry b s kind name userID entry)) = apps s"
  by (simp add: registerUserIDEntry_def Let_def split: option.splits)

lemma storeOrdered_apps: "apps s' = apps s \<Longrightarrow> storeOrdered s' = storeOrdered s"
  by (simp add: storeOrdered_def)

lemma registerUserIDEntry_appsD:
  "registerUserIDEntry b s kind name userID entry = (r, s') \<Longrightarrow> apps s' = apps s"
  using registerUserIDEntry_apps [of b s kind name userID entry] by simp

lemma handleAppCredsCommon_apps:
  "apps (snd (handleAppCredsCommon b req data specified)) = apps (Storage req)"
  by (auto simp: handleAppCredsCommon_def Let_def split: sum.splits option.splits prod.splits
           dest: registerUserIDEntry_appsD)

lemma pathAppCreateUpdate_ordered:
  "storeOrdered (Storage req) \<Longrightarrow> storeOrdered (snd (pathAppCreateUpdate b req data))"
  by (auto simp: pathAppCreateUpdate_def Let_def storeEntry_ordered checked_ordered setWrapTTL_ordered
           split: sum.splits)

lemma pathAppDelete_ordered:
  "storeOrdered (Storage req) \<Longrightarrow> storeOrdered (snd (pathAppDelete b req data))"
  by (auto simp: pathAppDelete_def Let_def storeOrdered_def split: option.splits if_splits)

lemma pathAppRead_ordered:
  "storeOrdered (Storage req) \<Longrightarrow> storeOrdered (snd (pathAppRead b req data))"
  by (auto simp: pathAppRead_def Let_def ttlOrdered_def zeroAppStorageEntry_def
           split: sum.splits option.splits intro!: storeEntry_ordered dest: appEntry_ordered)

lemma pathAppPoliciesUpdate_ordered:
  "storeOrdered (Storage req) \<Longrightarrow> storeOrdered (snd (pathAppPoliciesUpdate b req data))"
  by (auto simp: pathAppPoliciesUpdate_def Let_def ttlOrdered_def zeroAppStorageEntry_def
           split: sum.splits option.splits intro!: storeEntry_ordered dest: appEntry_ordered)

lemma pathAppPoliciesRead_ordered:
  "storeOrdered (Storage req) \<Longrightarrow> storeOrdered (snd (pathAppPoliciesRead b req data))"
  by (auto simp: pathAppPoliciesRead_def Let_def ttlOrdered_def zeroAppStorageEntry_def
           split: sum.splits option.splits intro!: storeEntry_ordered dest: appEntry_ordered)

lemma pathAppPoliciesDelete_ordered:
  "storeOrdered (Storage req) \<Longrightarrow> storeOrdered (snd (pathAppPoliciesDelete b req data))"
  by (auto simp: pathAppPoliciesDelete_def Let_def ttlOrdered_def zeroAppStorageEntry_def
           split: sum.splits option.splits intro!: storeEntry_ordered dest: appEntry_ordered)

lemma pathAppNumUsesUpdate_ordered:
  "storeOrdered (Storage req) \<Longrightarrow> storeOrdered (snd (pathAppNumUsesUpdate b req data))"
  by (auto simp: pathAppNumUsesUpdate_def Let_def ttlOrdered_def zeroAppStorageEntry_def
           split: sum.splits option.splits intro!: storeEntry_ordered dest: appEntry_ordered)

lemma pathAppNumUsesRead_ordered:
  "storeOrdered (Storage req) \<Longrightarrow> storeOrdered (snd (pathAppNumUsesRead b req data))"
  by (auto simp: pathAppNumUsesRead_def Let_def ttlOrdered_def zeroAppStorageEntry_def
           split: sum.splits option.splits intro!: storeEntry_ordered dest: appEntry_ordered)

lemma pathAppNumUsesDelete_ordered:
  "storeOrdered (Storage req) \<Longrightarrow> storeOrdered (snd (pathAppNumUsesDelete b req data))"
  by (auto simp: pathAppNumUsesDelete_def Let_def ttlOrdered_def zeroAppStorageEntry_def
           split: sum.splits option.splits intro!: storeEntry_ordered dest: appEntry_ordered)

lemma pathAppUserIDTTLUpdate_ordered:
  "storeOrdered (Storage req) \<Longrightarrow> storeOrdered (snd (pathAppUserIDTTLUpdate b req data))"
  by (auto simp: pathAppUserIDTTLUpdate_def Let_def ttlOrdered_def zeroAppStorageEntry_def
           split: sum.splits option.splits intro!: storeEntry_ordered dest: appEntry_ordered)

lemma pathAppUserIDTTLRead_ordered:
  "storeOrdered (Storage req) \<Longrightarrow> storeOrdered (snd (pathAppUserIDTTLRead b req data))"
  by (auto simp: pathAppUserIDTTLRead_def Let_def ttlOrdered_def zeroAppStorageEntry_def
           split: sum.splits option.splits intro!: storeEntry_ordered dest: appEntry_ordered)

lemma pathAppUserIDTTLDelete_ordered:
  "storeOrdered (Storage req) \<Longrightarrow> storeOrdered (snd (pathAppUserIDTTLDelete b req data))"
  by (auto simp: pathAppUserIDTTLDelete_def Let_def ttlOrdered_def zeroAppStorageEntry_def
           split: sum.splits option.splits intro!: storeEntry_ordered dest: appEntry_ordered)

lemma pathAppTokenTTLUpdate_ordered:
  "storeOrdered (Storage req) \<Longrightarrow> storeOrdered (snd (pathAppTokenTTLUpdate b req data))"
  by (auto simp: pathAppTokenTTLUpdate_def Let_def ttlOrdered_def zeroAppStorageEntry_def
           split: sum.splits option.splits intro!: storeEntry_ordered dest: appEntry_ordered)

lemma pathAppTokenTTLRead_ordered:
  "storeOrdered (Storage req) \<Longrightarrow> storeOrdered (snd (pathAppTokenTTLRead b req data))"
  by (auto simp: pathAppTokenTTLRead_def Let_def ttlOrdered_def zeroAppStorageEntry_def
           split: sum.splits option.splits intro!: storeEntry_ordered dest: appEntry_ordered)

lemma pathAppTokenTTLDelete_ordered:
  "storeOrdered (Storage req) \<Longrightarrow> storeOrdered (snd (pathAppTokenTTLDelete b req data))"
  by (auto simp: pathAppTokenTTLDelete_def Let_def ttlOrdered_def zeroAppStorageEntry_def
           split: sum.splits option.splits intro!: storeEntry_ordered dest: appEntry_ordered)

lemma pathAppTokenMaxTTLUpdate_ordered:
  "storeOrdered (Storage req) \<Longrightarrow> storeOrdered (snd (pathAppTokenMaxTTLUpdate b req data))"
  by (auto simp: pathAppTokenMaxTTLUpdate_def Let_def ttlOrdered_def zeroAppStorageEntry_def
           split: sum.splits option.splits intro!: storeEntry_ordered dest: appEntry_ordered)

lemma pathAppTokenMaxTTLRead_ordered:
  "storeOrdered (Storage req) \<Longrightarrow> storeOrdered (snd (pathAppTokenMaxTTLRead b req data))"
  by (auto simp: pathAppTokenMaxTTLRead_def Let_def ttlOrdered_def zeroAppStorageEntry_def
           split: sum.splits option.splits intro!: storeEntry_ordered dest: appEntry_ordered)

lemma pathAppTokenMaxTTLDelete_ordered:
  "storeOrdered (Storage req) \<Longrightarrow> storeOrdered (snd (pathAppTokenMaxTTLDelete b req data))"
  by (auto simp: pathAppTokenMaxTTLDelete_def Let_def ttlOrdered_def zeroAppStorageEntry_def
           split: sum.splits option.splits intro!: storeEntry_ordered dest: appEntry_ordered)

lemma pathAppWrapTTLUpdate_ordered:
  "storeOrdered (Storage req) \<Longrightarrow> storeOrdered (snd (pathAppWrapTTLUpdate b req data))"
  by (auto simp: pathAppWrapTTLUpdate_def Let_def ttlOrdered_def zeroAppStorageEntry_def
           split: sum.splits option.splits intro!: storeEntry_ordered dest: appEntry_ordered)

lemma pathAppWrapTTLRead_ordered:
  "storeOrdered (Storage req) \<Longrightarrow> storeOrdered (snd (pathAppWrapTTLRead b req data))"
  by (auto simp: pathAppWrapTTLRead_def Let_def ttlOrdered_def zeroAppStorageEntry_def
           split: sum.splits option.splits intro!: storeEntry_ordered dest: appEntry_ordered)

lemma pathAppWrapTTLDelete_ordered:
  "storeOrdered (Storage req) \<Longrightarrow> storeOrdered (snd (pathAppWrapTTLDelete b req data))"
  by (auto simp: pathAppWrapTTLDelete_def Let_def ttlOrdered_def zeroAppStorageEntry_def
           split: sum.splits option.splits intro!: storeEntry_ordered dest: appEntry_ordered)

lemma pathAppCredsRead_ordered:
  "storeOrdered (Storage req) \<Longrightarrow> storeOrdered (snd (pathAppCredsRead b req data))"
  by (auto simp: pathAppCredsRead_def storeOrdered_apps [OF handleAppCredsCommon_apps] split: sum.splits)

lemma pathAppCredsSpecificUpdate_ordered:
  "storeOrdered (Storage req) \<Longrightarrow> storeOrdered (snd (pathAppCredsSpecificUpdate b req data))"
  by (simp add: pathAppCredsSpecificUpdate_def storeOrdered_apps [OF handleAppCredsCommon_apps])

lemmas handlers_ordered =
  pathAppCreateUpdate_ordered pathAppDelete_ordered pathAppCredsRead_ordered
  pathAppCredsSpecificUpdate_ordered
  pathAppRead_ordered
  pathAppPoliciesUpdate_ordered
  pathAppPoliciesRead_ordered
  pathAppPoliciesDelete_ordered
  pathAppNumUsesUpdate_ordered
  pathAppNumUsesRead_ordered
  pathAppNumUsesDelete_ordered
  pathAppUserIDTTLUpdate_ordered
  pathAppUserIDTTLRead_ordered
  pathAppUserIDTTLDelete_ordered
  pathAppTokenTTLUpdate_ordered
  pathAppTokenTTLRead_ordered
  pathAppTokenTTLDelete_ordered
  pathAppTokenMaxTTLUpdate_ordered
  pathAppTokenMaxTTLRead_ordered
  pathAppTokenMaxTTLDelete_ordered
  pathAppWrapTTLUpdate_ordered
  pathAppWrapTTLRead_ordered
  pathAppWrapTTLDelete_ordered

lemma HandleRequest_ordered:
  "storeOrdered (Storage req) \<Longrightarrow> storeOrdered (snd (HandleRequest b p req data))"
  by (cases p; cases "Operation req") (simp_all add: HandleRequest_def handlers_ordered)

lemma mergedEntry_TTL:
  "TokenTTL (mergedEntry b req data app) = TokenTTL (setTokenTTL req data app)"
  "TokenMaxTTL (mergedEntry b req data app) = TokenMaxTTL (setTokenMaxTTL req data app)"
  "NumUses (mergedEntry b req data app) = NumUses (setNumUses req data app)"
  by (simp_all add: mergedEntry_def setWrapTTL_def setTokenMaxTTL_def setTokenTTL_def
        setUserIDTTL_def setNumUses_def setPolicies_def split: option.splits)

lemma written_ordered:
  "(p = PathApp \<and> (Operation req = CreateOperation \<or> Operation req = UpdateOperation)
      \<or> (p = PathTokenTTL \<or> p = PathTokenMaxTTL)
          \<and> (Operation req = UpdateOperation \<or> Operation req = DeleteOperation))
    \<and> fst (HandleRequest b p req data) = Inr None
    \<and> apps (snd (HandleRequest b p req data)) (''app/'' @ ToLower (Get (app_name data) '''')) = Some e
   \<Longrightarrow> ttlOrdered e"
  apply (cases p; cases "Operation req"; simp add: HandleRequest_def)
       apply (auto simp: pathAppCreateUpdate_def pathAppTokenTTLUpdate_def pathAppTokenMaxTTLUpdate_def
      pathAppTokenTTLDelete_def pathAppTokenMaxTTLDelete_def Let_def storeEntry_def setAppEntry_def
      appEntry_def ToLower_idem ToLower_Nil_iff zeroAppStorageEntry_def
      setWrapTTL_ordered checked_ordered
      split: sum.splits option.splits if_splits)
  apply (auto simp: ttlOrdered_def)
  done

lemma ToLower_a: "ToLower ''a'' = ''a''"
  by code_simp

section \<open>The ordering of the token TTLs\<close>

text \<open>
  Claim C1. The stored App records keep the ordering of the token TTLs (if
  \<open>tokenMaxTTL > 0\<close> then \<open>tokenTTL \<le> tokenMaxTTL\<close>, on the stored durations, as signed
  64-bit values): a request on any route, for any operation, leaves every stored
  record ordered if every stored record was ordered before. Whatever was stored before,
  the record that a successful whole-record create or update, \<open>token_ttl\<close> or
  \<open>token_max_ttl\<close> update, or \<open>token_ttl\<close> or \<open>token_max_ttl\<close> delete leaves under the
  name is ordered. A whole-record create or update whose merged entry is not ordered,
  and a \<open>token_ttl\<close> or \<open>token_max_ttl\<close> update that would make the stored entry
  unordered, is answered with an error response and writes nothing.
\<close>

theorem app_ttl_ordering_invariant:
  "(storeOrdered (Storage req) \<longrightarrow> storeOrdered (snd (HandleRequest b p req data)))
   \<and> ((p = PathApp \<and> (Operation req = CreateOperation \<or> Operation req = UpdateOperation)
          \<or> (p = PathTokenTTL \<or> p = PathTokenMaxTTL)
              \<and> (Operation req = UpdateOperation \<or> Operation req = DeleteOperation))
        \<and> fst (HandleRequest b p req data) = Inr None
        \<and> apps (snd (HandleRequest b p req data))
             (''app/'' @ ToLower (Get (app_name data) '''')) = Some e
      \<longrightarrow> ttlOrdered e)
   \<and> (Get (app_name dt) '''' \<noteq> ''''
        \<and> appEntry (Storage rq) (Get (app_name dt) '''') = Inr found
        \<and> \<not> ttlOrdered (mergedEntry b rq dt
              (case found of None \<Rightarrow> zeroAppStorageEntry | Some old \<Rightarrow> old))
      \<longrightarrow> snd (pathAppCreateUpdate b rq dt) = Storage rq
          \<and> (fst (pathAppCreateUpdate b rq dt) =
                Inr (Some (ErrorResponse ''num_uses cannot be negative''))
             \<or> fst (pathAppCreateUpdate b rq dt) =
                Inr (Some (ErrorResponse ''token_ttl should not be greater than token_max_ttl''))))
   \<and> (Get (app_name dt) '''' \<noteq> ''''
        \<and> appEntry (Storage rq) (ToLower (Get (app_name dt) '''')) = Inr (Some app)
        \<and> token_ttl dt = Some ttl
        \<and> \<not> ttlOrdered (app\<lparr>TokenTTL := Second * ttl\<rparr>)
      \<longrightarrow> pathAppTokenTTLUpdate b rq dt =
            (Inr (Some (ErrorResponse ''token_ttl should not be greater than token_max_ttl'')),
             Storage rq))
   \<and> (Get (app_name dt) '''' \<noteq> ''''
        \<and> appEntry (Storage rq) (ToLower (Get (app_name dt) '''')) = Inr (Some app)
        \<and> token_max_ttl dt = Some maxTTL
        \<and> \<not> ttlOrdered (app\<lparr>TokenMaxTTL := Second * maxTTL\<rparr>)
      \<longrightarrow> pathAppTokenMaxTTLUpdate b rq dt =
            (Inr (Some (ErrorResponse
               ''token_max_ttl should be greater than or equal to token_ttl'')),
             Storage rq))"
proof (intro conjI impI)
  assume "storeOrdered (Storage req)"
  then show "storeOrdered (snd (HandleRequest b p req data))"
    by (rule HandleRequest_ordered)
next
  assume "(p = PathApp \<and> (Operation req = CreateOperation \<or> Operation req = UpdateOperation)
          \<or> (p = PathTokenTTL \<or> p = PathTokenMaxTTL)
              \<and> (Operation req = UpdateOperation \<or> Operation req = DeleteOperation))
        \<and> fst (HandleRequest b p req data) = Inr None
        \<and> apps (snd (HandleRequest b p req data))
             (''app/'' @ ToLower (Get (app_name data) '''')) = Some e"
  then show "ttlOrdered e"
    by (rule written_ordered)
next
  assume h: "Get (app_name dt) '''' \<noteq> ''''
        \<and> appEntry (Storage rq) (Get (app_name dt) '''') = Inr found
        \<and> \<not> ttlOrdered (mergedEntry b rq dt
              (case found of None \<Rightarrow> zeroAppStorageEntry | Some old \<Rightarrow> old))"
  then show "snd (pathAppCreateUpdate b rq dt) = Storage rq"
    by (auto simp: pathAppCreateUpdate_def Let_def ttlOrdered_def mergedEntry_def
          setWrapTTL_def split: option.splits)
  from h show "fst (pathAppCreateUpdate b rq dt) =
                Inr (Some (ErrorResponse ''num_uses cannot be negative''))
             \<or> fst (pathAppCreateUpdate b rq dt) =
                Inr (Some (ErrorResponse ''token_ttl should not be greater than token_max_ttl''))"
    by (auto simp: pathAppCreateUpdate_def Let_def ttlOrdered_def mergedEntry_def
          setWrapTTL_def split: option.splits)
next
  assume "Get (app_name dt) '''' \<noteq> ''''
        \<and> appEntry (Storage rq) (ToLower (Get (app_name dt) '''')) = Inr (Some app)
        \<and> token_ttl dt = Some ttl
        \<and> \<not> ttlOrdered (app\<lparr>TokenTTL := Second * ttl\<rparr>)"
  then show "pathAppTokenTTLUpdate b rq dt =
            (Inr (Some (ErrorResponse ''token_ttl should not be greater than token_max_ttl'')),
             Storage rq)"
    by (auto simp: pathAppTokenTTLUpdate_def Let_def ttlOrdered_def)
next
  assume "Get (app_name dt) '''' \<noteq> ''''
        \<and> appEntry (Storage rq) (ToLower (Get (app_name dt) '''')) = Inr (Some app)
        \<and> token_max_ttl dt = Some maxTTL
        \<and> \<not> ttlOrdered (app\<lparr>TokenMaxTTL := Second * maxTTL\<rparr>)"
  then show "pathAppTokenMaxTTLUpdate b rq dt =
            (Inr (Some (ErrorResponse
               ''token_max_ttl should be greater than or equal to token_ttl'')),
             Storage rq)"
    by (auto simp: pathAppTokenMaxTTLUpdate_def Let_def ttlOrdered_def)
qed

text \<open>On the App \<open>a\<close> (token TTL 3 s, maximum 5 s): setting the token TTL to 4 s is
  stored and ordered; a request with a token TTL of 10 s, or with a maximum of 2 s, is
  rejected on each of the three routes that check.\<close>

theorem app_ttl_ordering_invariant_witness:
  "storeOrdered exampleStorage
   \<and> storeOrdered (snd (HandleRequest exampleBackend PathTokenTTL
        \<lparr>Operation = UpdateOperation, Storage = exampleStorage\<rparr>
        (noFields\<lparr>app_name := Some ''a'', token_ttl := Some 4\<rparr>)))
   \<and> fst (HandleRequest exampleBackend PathTokenTTL
        \<lparr>Operation = UpdateOperation, Storage = exampleStorage\<rparr>
        (noFields\<lparr>app_name := Some ''a'', token_ttl := Some 4\<rparr>)) = Inr None
   \<and> ttlOrdered (exampleEntry\<lparr>TokenTTL := Second * 4\<rparr>)
   \<and> fst (pathAppCreateUpdate exampleBackend
        \<lparr>Operation = UpdateOperation, Storage = exampleStorage\<rparr>
        (noFields\<lparr>app_name := Some ''a'', token_ttl := Some 10, token_max_ttl := Some 2\<rparr>)) =
          Inr (Some (ErrorResponse ''token_ttl should not be greater than token_max_ttl''))
   \<and> pathAppTokenTTLUpdate exampleBackend
        \<lparr>Operation = UpdateOperation, Storage = exampleStorage\<rparr>
        (noFields\<lparr>app_name := Some ''a'', token_ttl := Some 10, token_max_ttl := Some 2\<rparr>) =
            (Inr (Some (ErrorResponse ''token_ttl should not be greater than token_max_ttl'')),
             exampleStorage)
   \<and> pathAppTokenMaxTTLUpdate exampleBackend
        \<lparr>Operation = UpdateOperation, Storage = exampleStorage\<rparr>
        (noFields\<lparr>app_name := Some ''a'', token_ttl := Some 10, token_max_ttl := Some 2\<rparr>) =
            (Inr (Some (ErrorResponse
               ''token_max_ttl should be greater than or equal to token_ttl'')),
             exampleStorage)"
proof -
  let ?req = "\<lparr>Operation = UpdateOperation, Storage = exampleStorage\<rparr>"
  let ?ok = "noFields\<lparr>app_name := Some ''a'', token_ttl := Some 4\<rparr>"
  let ?bad = "noFields\<lparr>app_name := Some ''a'', token_ttl := Some 10, token_max_ttl := Some 2\<rparr>"
  have h1: "storeOrdered exampleStorage"
    by (simp add: storeOrdered_def exampleStorage_def exampleEntry_def ttlOrdered_def
        Second_def word_sless_alt word_sle_eq)
  have run: "HandleRequest exampleBackend PathTokenTTL ?req ?ok =
      (Inr None, exampleStorage\<lparr>apps := (apps exampleStorage)
         (''app/a'' \<mapsto> exampleEntry\<lparr>TokenTTL := Second * 4\<rparr>)\<rparr>)"
    by (simp add: HandleRequest_def pathAppTokenTTLUpdate_def Get_def noFields_def appEntry_def
        ToLower_a exampleStorage_def storeEntry_def setAppEntry_def exampleEntry_def
        Second_def word_sless_alt)
  have h2: "appEntry (Storage ?req) (Get (app_name ?bad) '''') = Inr (Some exampleEntry)"
    by (simp add: appEntry_def Get_def exampleStorage_def ToLower_a)
  have h3: "appEntry (Storage ?req) (ToLower (Get (app_name ?bad) '''')) = Inr (Some exampleEntry)"
    by (simp add: appEntry_def Get_def exampleStorage_def ToLower_a)
  have h4: "\<not> ttlOrdered (mergedEntry exampleBackend ?req ?bad
              (case Some exampleEntry of None \<Rightarrow> zeroAppStorageEntry | Some old \<Rightarrow> old))"
    by (simp add: ttlOrdered_def mergedEntry_TTL setTokenTTL_def setTokenMaxTTL_def noFields_def
        exampleEntry_def Second_def word_sless_alt word_sle_eq)
  have h5: "\<not> ttlOrdered (exampleEntry\<lparr>TokenTTL := Second * 10\<rparr>)"
    by (simp add: ttlOrdered_def exampleEntry_def Second_def word_sless_alt word_sle_eq)
  have h6: "\<not> ttlOrdered (exampleEntry\<lparr>TokenMaxTTL := Second * 2\<rparr>)"
    by (simp add: ttlOrdered_def exampleEntry_def Second_def word_sless_alt word_sle_eq)
  have n: "Get (app_name ?bad) '''' \<noteq> ''''" "token_ttl ?bad = Some 10"
    "token_max_ttl ?bad = Some 2" "Get (app_name ?ok) '''' = ''a''"
    by (simp_all add: Get_def)
  have num: "fst (pathAppCreateUpdate exampleBackend ?req ?bad) \<noteq>
      Inr (Some (ErrorResponse ''num_uses cannot be negative''))"
    by (simp add: pathAppCreateUpdate_def Get_def noFields_def appEntry_def ToLower_a
        exampleStorage_def exampleEntry_def setNumUses_def setPolicies_def setUserIDTTL_def
        setTokenTTL_def setTokenMaxTTL_def Let_def Second_def word_sless_alt)
  show ?thesis
    using app_ttl_ordering_invariant [of ?req exampleBackend PathTokenTTL ?ok
        "exampleEntry\<lparr>TokenTTL := Second * 4\<rparr>" ?bad ?req "Some exampleEntry"
        exampleEntry 10 2] h1 h2 h3 h4 h5 h6 n num
    by (simp add: run ToLower_a)
qed

section \<open>Requests that fail validation\<close>

lemma failed_writes_nothing:
  "fst (pathAppCreateUpdate b req data) \<noteq> Inr None
     \<Longrightarrow> snd (pathAppCreateUpdate b req data) = Storage req"
  "fst (pathAppNumUsesUpdate b req data) \<noteq> Inr None
     \<Longrightarrow> snd (pathAppNumUsesUpdate b req data) = Storage req"
  "fst (pathAppTokenTTLUpdate b req data) \<noteq> Inr None
     \<Longrightarrow> snd (pathAppTokenTTLUpdate b req data) = Storage req"
  "fst (pathAppTokenMaxTTLUpdate b req data) \<noteq> Inr None
     \<Longrightarrow> snd (pathAppTokenMaxTTLUpdate b req data) = Storage req"
  by (auto simp: pathAppCreateUpdate_def pathAppNumUsesUpdate_def pathAppTokenTTLUpdate_def
        pathAppTokenMaxTTLUpdate_def Let_def storeEntry_def setAppEntry_def
        split: sum.splits option.splits if_splits)

text \<open>
  Claim C2. A create or update request that fails validation is answered with an error
  response and the storage is left as it was. For the whole-record handler: a merged
  \<open>num_uses\<close> below zero, or a merged \<open>tokenTTL\<close> above a positive merged
  \<open>tokenMaxTTL\<close>. For the \<open>num_uses\<close>, \<open>token_ttl\<close> and \<open>token_max_ttl\<close> handlers of
  an existing record: the same checks on the record with the supplied field set. More
  generally, each of these four handlers leaves the storage as it was whenever its
  result is not the plain success \<open>nil, nil\<close>.
\<close>

theorem validation_failure_writes_nothing:
  "(Get (app_name data) '''' \<noteq> ''''
      \<and> appEntry (Storage req) (Get (app_name data) '''') = Inr found
      \<and> NumUses (mergedEntry b req data
            (case found of None \<Rightarrow> zeroAppStorageEntry | Some old \<Rightarrow> old)) <s 0
    \<longrightarrow> pathAppCreateUpdate b req data =
          (Inr (Some (ErrorResponse ''num_uses cannot be negative'')), Storage req))
   \<and> (Get (app_name dt) '''' \<noteq> ''''
      \<and> appEntry (Storage rq) (Get (app_name dt) '''') = Inr fnd
      \<and> \<not> NumUses (mergedEntry b rq dt
            (case fnd of None \<Rightarrow> zeroAppStorageEntry | Some old \<Rightarrow> old)) <s 0
      \<and> 0 <s TokenMaxTTL (mergedEntry b rq dt
            (case fnd of None \<Rightarrow> zeroAppStorageEntry | Some old \<Rightarrow> old))
      \<and> TokenMaxTTL (mergedEntry b rq dt
            (case fnd of None \<Rightarrow> zeroAppStorageEntry | Some old \<Rightarrow> old))
          <s TokenTTL (mergedEntry b rq dt
            (case fnd of None \<Rightarrow> zeroAppStorageEntry | Some old \<Rightarrow> old))
    \<longrightarrow> pathAppCreateUpdate b rq dt =
          (Inr (Some (ErrorResponse ''token_ttl should not be greater than token_max_ttl'')),
           Storage rq))
   \<and> (Get (app_name data) '''' \<noteq> ''''
      \<and> appEntry (Storage req) (ToLower (Get (app_name data) '''')) = Inr (Some app)
      \<and> num_uses data = Some n \<and> n <s 0
    \<longrightarrow> pathAppNumUsesUpdate b req data =
          (Inr (Some (ErrorResponse ''num_uses cannot be negative'')), Storage req))
   \<and> (Get (app_name dt) '''' \<noteq> ''''
      \<and> appEntry (Storage rq) (ToLower (Get (app_name dt) '''')) = Inr (Some app)
      \<and> token_ttl dt = Some ttl
      \<and> 0 <s TokenMaxTTL app \<and> TokenMaxTTL app <s Second * ttl
    \<longrightarrow> pathAppTokenTTLUpdate b rq dt =
          (Inr (Some (ErrorResponse ''token_ttl should not be greater than token_max_ttl'')),
           Storage rq))
   \<and> (Get (app_name dt) '''' \<noteq> ''''
      \<and> appEntry (Storage rq) (ToLower (Get (app_name dt) '''')) = Inr (Some app)
      \<and> token_max_ttl dt = Some maxTTL
      \<and> 0 <s Second * maxTTL \<and> Second * maxTTL <s TokenTTL app
    \<longrightarrow> pathAppTokenMaxTTLUpdate b rq dt =
          (Inr (Some (ErrorResponse
             ''token_max_ttl should be greater than or equal to token_ttl'')),
           Storage rq))
   \<and> (fst (pathAppCreateUpdate b req data) \<noteq> Inr None
        \<longrightarrow> snd (pathAppCreateUpdate b req data) = Storage req)
   \<and> (fst (pathAppNumUsesUpdate b req data) \<noteq> Inr None
        \<longrightarrow> snd (pathAppNumUsesUpdate b req data) = Storage req)
   \<and> (fst (pathAppTokenTTLUpdate b req data) \<noteq> Inr None
        \<longrightarrow> snd (pathAppTokenTTLUpdate b req data) = Storage req)
   \<and> (fst (pathAppTokenMaxTTLUpdate b req data) \<noteq> Inr None
        \<longrightarrow> snd (pathAppTokenMaxTTLUpdate b req data) = Storage req)"
proof -
  have create_num: "Get (app_name data) '''' \<noteq> ''''
      \<and> appEntry (Storage req) (Get (app_name data) '''') = Inr found
      \<and> NumUses (mergedEntry b req data
            (case found of None \<Rightarrow> zeroAppStorageEntry | Some old \<Rightarrow> old)) <s 0
    \<longrightarrow> pathAppCreateUpdate b req data =
          (Inr (Some (ErrorResponse ''num_uses cannot be negative'')), Storage req)"
    by (auto simp: pathAppCreateUpdate_def Let_def mergedEntry_def setWrapTTL_def
          setTokenMaxTTL_def setTokenTTL_def setUserIDTTL_def setNumUses_def setPolicies_def
          split: option.splits)
  have create_ttl: "Get (app_name dt) '''' \<noteq> ''''
      \<and> appEntry (Storage rq) (Get (app_name dt) '''') = Inr fnd
      \<and> \<not> NumUses (mergedEntry b rq dt
            (case fnd of None \<Rightarrow> zeroAppStorageEntry | Some old \<Rightarrow> old)) <s 0
      \<and> 0 <s TokenMaxTTL (mergedEntry b rq dt
            (case fnd of None \<Rightarrow> zeroAppStorageEntry | Some old \<Rightarrow> old))
      \<and> TokenMaxTTL (mergedEntry b rq dt
            (case fnd of None \<Rightarrow> zeroAppStorageEntry | Some old \<Rightarrow> old))
          <s TokenTTL (mergedEntry b rq dt
            (case fnd of None \<Rightarrow> zeroAppStorageEntry | Some old \<Rightarrow> old))
    \<longrightarrow> pathAppCreateUpdate b rq dt =
          (Inr (Some (ErrorResponse ''token_ttl should not be greater than token_max_ttl'')),
           Storage rq)"
    by (auto simp: pathAppCreateUpdate_def Let_def mergedEntry_def setWrapTTL_def
          setTokenMaxTTL_def setTokenTTL_def setUserIDTTL_def
          split: option.splits)
  have num: "Get (app_name data) '''' \<noteq> ''''
      \<and> appEntry (Storage req) (ToLower (Get (app_name data) '''')) = Inr (Some app)
      \<and> num_uses data = Some n \<and> n <s 0
    \<longrightarrow> pathAppNumUsesUpdate b req data =
          (Inr (Some (ErrorResponse ''num_uses cannot be negative'')), Storage req)"
    by (simp add: pathAppNumUsesUpdate_def Let_def)
  have ttl: "Get (app_name dt) '''' \<noteq> ''''
      \<and> appEntry (Storage rq) (ToLower (Get (app_name dt) '''')) = Inr (Some app)
      \<and> token_ttl dt = Some ttl
      \<and> 0 <s TokenMaxTTL app \<and> TokenMaxTTL app <s Second * ttl
    \<longrightarrow> pathAppTokenTTLUpdate b rq dt =
          (Inr (Some (ErrorResponse ''token_ttl should not be greater than token_max_ttl'')),
           Storage rq)"
    by (simp add: pathAppTokenTTLUpdate_def Let_def)
  have maxttl: "Get (app_name dt) '''' \<noteq> ''''
      \<and> appEntry (Storage rq) (ToLower (Get (app_name dt) '''')) = Inr (Some app)
      \<and> token_max_ttl dt = Some maxTTL
      \<and> 0 <s Second * maxTTL \<and> Second * maxTTL <s TokenTTL app
    \<longrightarrow> pathAppTokenMaxTTLUpdate b rq dt =
          (Inr (Some (ErrorResponse
             ''token_max_ttl should be greater than or equal to token_ttl'')),
           Storage rq)"
    by (simp add: pathAppTokenMaxTTLUpdate_def Let_def)
  from create_num create_ttl num ttl maxttl failed_writes_nothing [of b req data]
  show ?thesis by blast
qed

text \<open>On the App \<open>a\<close> (3 uses, token TTL 3 s, maximum 5 s): a request with
  \<open>num_uses = -1\<close>, and one with a token TTL of 10 s and a maximum of 2 s.\<close>

theorem validation_failure_writes_nothing_witness:
  "(-1 :: int64) <s 0
   \<and> pathAppCreateUpdate exampleBackend
        \<lparr>Operation = UpdateOperation, Storage = exampleStorage\<rparr>
        (noFields\<lparr>app_name := Some ''a'', num_uses := Some (- 1), token_ttl := Some 10,
                  token_max_ttl := Some 2\<rparr>) =
          (Inr (Some (ErrorResponse ''num_uses cannot be negative'')), exampleStorage)
   \<and> pathAppNumUsesUpdate exampleBackend
        \<lparr>Operation = UpdateOperation, Storage = exampleStorage\<rparr>
        (noFields\<lparr>app_name := Some ''a'', num_uses := Some (- 1), token_ttl := Some 10,
                  token_max_ttl := Some 2\<rparr>) =
          (Inr (Some (ErrorResponse ''num_uses cannot be negative'')), exampleStorage)
   \<and> pathAppCreateUpdate exampleBackend
        \<lparr>Operation = UpdateOperation, Storage = exampleStorage\<rparr>
        (noFields\<lparr>app_name := Some ''a'', token_ttl := Some 10, token_max_ttl := Some 2\<rparr>) =
          (Inr (Some (ErrorResponse ''token_ttl should not be greater than token_max_ttl'')),
           exampleStorage)
   \<and> pathAppTokenTTLUpdate exampleBackend
        \<lparr>Operation = UpdateOperation, Storage = exampleStorage\<rparr>
        (noFields\<lparr>app_name := Some ''a'', token_ttl := Some 10, token_max_ttl := Some 2\<rparr>) =
          (Inr (Some (ErrorResponse ''token_ttl should not be greater than token_max_ttl'')),
           exampleStorage)
   \<and> pathAppTokenMaxTTLUpdate exampleBackend
        \<lparr>Operation = UpdateOperation, Storage = exampleStorage\<rparr>
        (noFields\<lparr>app_name := Some ''a'', token_ttl := Some 10, token_max_ttl := Some 2\<rparr>) =
          (Inr (Some (ErrorResponse
             ''token_max_ttl should be greater than or equal to token_ttl'')),
           exampleStorage)
   \<and> snd (pathAppTokenTTLUpdate exampleBackend
        \<lparr>Operation = UpdateOperation, Storage = exampleStorage\<rparr>
        (noFields\<lparr>app_name := Some ''a'', num_uses := Some (- 1), token_ttl := Some 10,
                  token_max_ttl := Some 2\<rparr>)) = exampleStorage
   \<and> snd (pathAppTokenMaxTTLUpdate exampleBackend
        \<lparr>Operation = UpdateOperation, Storage = exampleStorage\<rparr>
        (noFields\<lparr>app_name := Some ''a'', num_uses := Some (- 1), token_ttl := Some 10,
                  token_max_ttl := Some 2\<rparr>)) = exampleStorage"
proof -
  let ?req = "\<lparr>Operation = UpdateOperation, Storage = exampleStorage\<rparr>"
  let ?neg = "noFields\<lparr>app_name := Some ''a'', num_uses := Some (- 1), token_ttl := Some 10,
                  token_max_ttl := Some 2\<rparr>"
  let ?bad = "noFields\<lparr>app_name := Some ''a'', token_ttl := Some 10, token_max_ttl := Some 2\<rparr>"
  have names: "Get (app_name ?neg) '''' = ''a''" "Get (app_name ?bad) '''' = ''a''"
    by (simp_all add: Get_def)
  have found: "appEntry exampleStorage ''a'' = Inr (Some exampleEntry)"
    by (simp add: appEntry_def exampleStorage_def ToLower_a)
  have neg: "(- 1 :: int64) <s 0"
    by (simp add: word_sless_alt)
  have m1: "NumUses (mergedEntry exampleBackend ?req ?neg exampleEntry) <s 0"
    by (simp add: mergedEntry_TTL setNumUses_def noFields_def word_sless_alt)
  have m2: "\<not> NumUses (mergedEntry exampleBackend ?req ?bad exampleEntry) <s 0"
    "0 <s TokenMaxTTL (mergedEntry exampleBackend ?req ?bad exampleEntry)"
    "TokenMaxTTL (mergedEntry exampleBackend ?req ?bad exampleEntry)
       <s TokenTTL (mergedEntry exampleBackend ?req ?bad exampleEntry)"
    by (simp_all add: mergedEntry_TTL setNumUses_def setTokenTTL_def setTokenMaxTTL_def
        noFields_def exampleEntry_def Second_def word_sless_alt)
  have cmp: "0 <s TokenMaxTTL exampleEntry" "TokenMaxTTL exampleEntry <s Second * 10"
    "(0 :: int64) <s Second * 2" "Second * 2 <s TokenTTL exampleEntry"
    by (simp_all add: exampleEntry_def Second_def word_sless_alt)
  have fields: "num_uses ?neg = Some (- 1)" "token_ttl ?bad = Some 10"
    "token_max_ttl ?bad = Some 2"
    by simp_all
  have t1: "fst (pathAppTokenTTLUpdate exampleBackend ?req ?neg) \<noteq> Inr None"
    by (simp add: pathAppTokenTTLUpdate_def Get_def noFields_def appEntry_def ToLower_a
        exampleStorage_def exampleEntry_def Second_def word_sless_alt Let_def)
  have t2: "fst (pathAppTokenMaxTTLUpdate exampleBackend ?req ?neg) \<noteq> Inr None"
    by (simp add: pathAppTokenMaxTTLUpdate_def Get_def noFields_def appEntry_def ToLower_a
        exampleStorage_def exampleEntry_def Second_def word_sless_alt Let_def)
  show ?thesis
    using validation_failure_writes_nothing [where b = exampleBackend and req = ?req
        and data = ?neg and found = "Some exampleEntry" and rq = ?req and dt = ?bad
        and fnd = "Some exampleEntry" and app = exampleEntry and n = "- 1" and ttl = 10
        and maxTTL = 2]
      names found neg m1 m2 cmp fields t1 t2
    by (simp add: ToLower_a)
qed

section \<open>Fields that a request does not supply\<close>

lemma mergedEntry_fields:
  "Policies (mergedEntry b req data app) =
     (case policies data of
        Some raw \<Rightarrow> ParsePolicies b raw
      | None \<Rightarrow> if Operation req = CreateOperation then ParsePolicies b policiesDefault
                else Policies app)"
  "NumUses (mergedEntry b req data app) =
     (case num_uses data of
        Some raw \<Rightarrow> raw
      | None \<Rightarrow> if Operation req = CreateOperation then 0 else NumUses app)"
  "UserIDTTL (mergedEntry b req data app) =
     (case userid_ttl data of
        Some raw \<Rightarrow> Second * raw
      | None \<Rightarrow> if Operation req = CreateOperation then 0 else UserIDTTL app)"
  "TokenTTL (mergedEntry b req data app) =
     (case token_ttl data of
        Some raw \<Rightarrow> Second * raw
      | None \<Rightarrow> if Operation req = CreateOperation then 0 else TokenTTL app)"
  "TokenMaxTTL (mergedEntry b req data app) =
     (case token_max_ttl data of
        Some raw \<Rightarrow> Second * raw
      | None \<Rightarrow> if Operation req = CreateOperation then 0 else TokenMaxTTL app)"
  "WrapTTL (mergedEntry b req data app) =
     (case wrap_ttl data of Some raw \<Rightarrow> raw * Second | None \<Rightarrow> WrapTTL app)"
  by (simp_all add: mergedEntry_def setWrapTTL_def setTokenMaxTTL_def setTokenTTL_def
        setUserIDTTL_def setNumUses_def setPolicies_def Get_def split: option.splits)

lemma mergedEntry_checks:
  "NumUses (setNumUses req data (setPolicies b req data app)) = NumUses (mergedEntry b req data app)"
  "TokenTTL (setTokenMaxTTL req data (setTokenTTL req data (setUserIDTTL req data
      (setNumUses req data (setPolicies b req data app))))) = TokenTTL (mergedEntry b req data app)"
  "TokenMaxTTL (setTokenMaxTTL req data (setTokenTTL req data (setUserIDTTL req data
      (setNumUses req data (setPolicies b req data app))))) = TokenMaxTTL (mergedEntry b req data app)"
  by (simp_all add: mergedEntry_def setWrapTTL_def setTokenMaxTTL_def setTokenTTL_def
        setUserIDTTL_def setNumUses_def setPolicies_def split: option.splits)

lemma pathAppCreateUpdate_found:
  assumes "Get (app_name data) '''' \<noteq> ''''"
    and "appEntry (Storage req) (Get (app_name data) '''') = Inr found"
  shows "pathAppCreateUpdate b req data =
     (if NumUses (mergedEntry b req data
            (case found of None \<Rightarrow> zeroAppStorageEntry | Some old \<Rightarrow> old)) <s 0
      then (Inr (Some (ErrorResponse ''num_uses cannot be negative'')), Storage req)
      else if 0 <s TokenMaxTTL (mergedEntry b req data
                (case found of None \<Rightarrow> zeroAppStorageEntry | Some old \<Rightarrow> old))
              \<and> TokenMaxTTL (mergedEntry b req data
                  (case found of None \<Rightarrow> zeroAppStorageEntry | Some old \<Rightarrow> old))
                <s TokenTTL (mergedEntry b req data
                  (case found of None \<Rightarrow> zeroAppStorageEntry | Some old \<Rightarrow> old))
      then (Inr (Some (ErrorResponse ''token_ttl should not be greater than token_max_ttl'')),
            Storage req)
      else storeEntry (Storage req) (Get (app_name data) '''')
             (mergedEntry b req data
               (case found of None \<Rightarrow> zeroAppStorageEntry | Some old \<Rightarrow> old)))"
  using assms
  by (simp add: pathAppCreateUpdate_def Let_def mergedEntry_checks)
     (simp add: mergedEntry_def)

lemma appEntry_found:
  "appEntry s n = Inr found \<Longrightarrow> apps s (''app/'' @ ToLower n) = found"
  by (auto simp: appEntry_def split: if_splits option.splits)

lemma pathAppCreateUpdate_accepted:
  assumes "fst (pathAppCreateUpdate b req data) = Inr None"
  shows "\<exists>found. appEntry (Storage req) (Get (app_name data) '''') = Inr found
           \<and> Get (app_name data) '''' \<noteq> ''''
           \<and> snd (pathAppCreateUpdate b req data) =
               (Storage req)\<lparr>apps := (apps (Storage req))
                 (''app/'' @ ToLower (Get (app_name data) '''') \<mapsto>
                    mergedEntry b req data
                      (case found of None \<Rightarrow> zeroAppStorageEntry | Some old \<Rightarrow> old))\<rparr>"
proof (cases "Get (app_name data) '''' = ''''")
  case True
  with assms show ?thesis by (simp add: pathAppCreateUpdate_def)
next
  case False
  show ?thesis
  proof (cases "appEntry (Storage req) (Get (app_name data) '''')")
    case (Inl err)
    with assms False show ?thesis by (simp add: pathAppCreateUpdate_def)
  next
    case (Inr found)
    from assms show ?thesis
      unfolding pathAppCreateUpdate_found [OF False Inr]
      using False Inr
      by (auto simp: storeEntry_def setAppEntry_def split: if_splits option.splits)
  qed
qed

text \<open>
  On an update request for an existing App record, the record stored under the name
  afterwards has, in each field the request does not supply, the value stored before.
  On an accepted create request for an App that has no stored record, the stored record
  has the parsed value of \<open>default\<close> as its policies if none are supplied, and zero in
  each numeric and TTL field that is not supplied.
\<close>

lemma unsupplied_fields_on_update_and_new_app:
  "(Operation req = UpdateOperation
      \<and> Get (app_name data) '''' \<noteq> ''''
      \<and> appEntry (Storage req) (Get (app_name data) '''') = Inr (Some old)
    \<longrightarrow> (\<exists>new. apps (snd (pathAppCreateUpdate b req data))
                  (''app/'' @ ToLower (Get (app_name data) '''')) = Some new
            \<and> (policies data = None \<longrightarrow> Policies new = Policies old)
            \<and> (num_uses data = None \<longrightarrow> NumUses new = NumUses old)
            \<and> (userid_ttl data = None \<longrightarrow> UserIDTTL new = UserIDTTL old)
            \<and> (token_ttl data = None \<longrightarrow> TokenTTL new = TokenTTL old)
            \<and> (token_max_ttl data = None \<longrightarrow> TokenMaxTTL new = TokenMaxTTL old)
            \<and> (wrap_ttl data = None \<longrightarrow> WrapTTL new = WrapTTL old)))
   \<and> (Operation rq = CreateOperation
      \<and> fst (pathAppCreateUpdate b rq dt) = Inr None
      \<and> apps (Storage rq) (''app/'' @ ToLower (Get (app_name dt) '''')) = None
    \<longrightarrow> (\<exists>new. apps (snd (pathAppCreateUpdate b rq dt))
                  (''app/'' @ ToLower (Get (app_name dt) '''')) = Some new
            \<and> (policies dt = None \<longrightarrow> Policies new = ParsePolicies b policiesDefault)
            \<and> (num_uses dt = None \<longrightarrow> NumUses new = 0)
            \<and> (userid_ttl dt = None \<longrightarrow> UserIDTTL new = 0)
            \<and> (token_ttl dt = None \<longrightarrow> TokenTTL new = 0)
            \<and> (token_max_ttl dt = None \<longrightarrow> TokenMaxTTL new = 0)
            \<and> (wrap_ttl dt = None \<longrightarrow> WrapTTL new = 0)))"
proof (intro conjI impI)
  assume h: "Operation req = UpdateOperation
      \<and> Get (app_name data) '''' \<noteq> ''''
      \<and> appEntry (Storage req) (Get (app_name data) '''') = Inr (Some old)"
  then have stored: "apps (Storage req) (''app/'' @ ToLower (Get (app_name data) '''')) = Some old"
    by (auto dest: appEntry_found)
  have eq: "pathAppCreateUpdate b req data =
     (if NumUses (mergedEntry b req data old) <s 0
      then (Inr (Some (ErrorResponse ''num_uses cannot be negative'')), Storage req)
      else if 0 <s TokenMaxTTL (mergedEntry b req data old)
              \<and> TokenMaxTTL (mergedEntry b req data old) <s TokenTTL (mergedEntry b req data old)
      then (Inr (Some (ErrorResponse ''token_ttl should not be greater than token_max_ttl'')),
            Storage req)
      else storeEntry (Storage req) (Get (app_name data) '''') (mergedEntry b req data old))"
    using pathAppCreateUpdate_found [of data req "Some old" b] h by simp
  have kept: "apps (snd (pathAppCreateUpdate b req data))
        (''app/'' @ ToLower (Get (app_name data) '''')) = Some old
      \<or> apps (snd (pathAppCreateUpdate b req data))
        (''app/'' @ ToLower (Get (app_name data) '''')) = Some (mergedEntry b req data old)"
    unfolding eq using stored
    by (simp add: storeEntry_def setAppEntry_def split: option.splits)
  have upd: "Operation req \<noteq> CreateOperation"
    using h by simp
  from kept show "\<exists>new. apps (snd (pathAppCreateUpdate b req data))
                  (''app/'' @ ToLower (Get (app_name data) '''')) = Some new
            \<and> (policies data = None \<longrightarrow> Policies new = Policies old)
            \<and> (num_uses data = None \<longrightarrow> NumUses new = NumUses old)
            \<and> (userid_ttl data = None \<longrightarrow> UserIDTTL new = UserIDTTL old)
            \<and> (token_ttl data = None \<longrightarrow> TokenTTL new = TokenTTL old)
            \<and> (token_max_ttl data = None \<longrightarrow> TokenMaxTTL new = TokenMaxTTL old)
            \<and> (wrap_ttl data = None \<longrightarrow> WrapTTL new = WrapTTL old)"
  proof
    assume "apps (snd (pathAppCreateUpdate b req data))
        (''app/'' @ ToLower (Get (app_name data) '''')) = Some old"
    then show ?thesis by simp
  next
    assume "apps (snd (pathAppCreateUpdate b req data))
        (''app/'' @ ToLower (Get (app_name data) '''')) = Some (mergedEntry b req data old)"
    then show ?thesis using upd by (simp add: mergedEntry_fields)
  qed
next
  assume h: "Operation rq = CreateOperation
      \<and> fst (pathAppCreateUpdate b rq dt) = Inr None
      \<and> apps (Storage rq) (''app/'' @ ToLower (Get (app_name dt) '''')) = None"
  then obtain found where f: "appEntry (Storage rq) (Get (app_name dt) '''') = Inr found"
    and s: "snd (pathAppCreateUpdate b rq dt) =
               (Storage rq)\<lparr>apps := (apps (Storage rq))
                 (''app/'' @ ToLower (Get (app_name dt) '''') \<mapsto>
                    mergedEntry b rq dt
                      (case found of None \<Rightarrow> zeroAppStorageEntry | Some old \<Rightarrow> old))\<rparr>"
    using pathAppCreateUpdate_accepted [of b rq dt] by blast
  have "apps (Storage rq) (''app/'' @ ToLower (Get (app_name dt) '''')) = found"
    using f by (rule appEntry_found)
  with h have none: "found = None"
    by simp
  have cr: "Operation rq = CreateOperation" using h by simp
  show "\<exists>new. apps (snd (pathAppCreateUpdate b rq dt))
                  (''app/'' @ ToLower (Get (app_name dt) '''')) = Some new
            \<and> (policies dt = None \<longrightarrow> Policies new = ParsePolicies b policiesDefault)
            \<and> (num_uses dt = None \<longrightarrow> NumUses new = 0)
            \<and> (userid_ttl dt = None \<longrightarrow> UserIDTTL new = 0)
            \<and> (token_ttl dt = None \<longrightarrow> TokenTTL new = 0)
            \<and> (token_max_ttl dt = None \<longrightarrow> TokenMaxTTL new = 0)
            \<and> (wrap_ttl dt = None \<longrightarrow> WrapTTL new = 0)"
    unfolding s none using cr
    by (simp add: mergedEntry_fields zeroAppStorageEntry_def)
qed


section \<open>Deleting a single field\<close>

lemma appEntry_stored:
  "n \<noteq> '''' \<Longrightarrow> getErr s = None \<Longrightarrow> appEntry s (ToLower n) = Inr (apps s (''app/'' @ ToLower n))"
  by (simp add: appEntry_def ToLower_idem ToLower_Nil_iff)

lemma storeEntry_ok:
  "putErr s = None \<Longrightarrow>
   storeEntry s n app = (Inr None, s\<lparr>apps := (apps s)(''app/'' @ ToLower n \<mapsto> app)\<rparr>)"
  by (simp add: storeEntry_def setAppEntry_def)

text \<open>
  Claim C4. For an App with a stored record, on a working storage, each per-field delete
  handler returns \<open>nil, nil\<close> and replaces the record stored under the lower-cased name
  by the same record with exactly that field set to its zero value (no policies for
  \<open>policies\<close>, zero for the number of uses and for each TTL); every other field of the
  record, and every other entry of the storage, is as before.
\<close>

theorem field_delete_resets_one_field:
  "Get (app_name data) '''' \<noteq> '''' \<Longrightarrow>
   apps (Storage req) (''app/'' @ ToLower (Get (app_name data) '''')) = Some app \<Longrightarrow>
   getErr (Storage req) = None \<Longrightarrow> putErr (Storage req) = None \<Longrightarrow>
   pathAppPoliciesDelete b req data =
     (Inr None, (Storage req)\<lparr>apps := (apps (Storage req))
        (''app/'' @ ToLower (Get (app_name data) '''') \<mapsto> app\<lparr>Policies := []\<rparr>)\<rparr>)
   \<and> pathAppNumUsesDelete b req data =
     (Inr None, (Storage req)\<lparr>apps := (apps (Storage req))
        (''app/'' @ ToLower (Get (app_name data) '''') \<mapsto> app\<lparr>NumUses := 0\<rparr>)\<rparr>)
   \<and> pathAppUserIDTTLDelete b req data =
     (Inr None, (Storage req)\<lparr>apps := (apps (Storage req))
        (''app/'' @ ToLower (Get (app_name data) '''') \<mapsto> app\<lparr>UserIDTTL := 0\<rparr>)\<rparr>)
   \<and> pathAppTokenTTLDelete b req data =
     (Inr None, (Storage req)\<lparr>apps := (apps (Storage req))
        (''app/'' @ ToLower (Get (app_name data) '''') \<mapsto> app\<lparr>TokenTTL := 0\<rparr>)\<rparr>)
   \<and> pathAppTokenMaxTTLDelete b req data =
     (Inr None, (Storage req)\<lparr>apps := (apps (Storage req))
        (''app/'' @ ToLower (Get (app_name data) '''') \<mapsto> app\<lparr>TokenMaxTTL := 0\<rparr>)\<rparr>)
   \<and> pathAppWrapTTLDelete b req data =
     (Inr None, (Storage req)\<lparr>apps := (apps (Storage req))
        (''app/'' @ ToLower (Get (app_name data) '''') \<mapsto> app\<lparr>WrapTTL := 0\<rparr>)\<rparr>)"
  by (simp add: pathAppPoliciesDelete_def pathAppNumUsesDelete_def pathAppUserIDTTLDelete_def
      pathAppTokenTTLDelete_def pathAppTokenMaxTTLDelete_def pathAppWrapTTLDelete_def
      Let_def appEntry_stored storeEntry_ok zeroAppStorageEntry_def)

text \<open>Deleting the policies, and deleting the number of uses, of the App \<open>a\<close>, addressed
  as \<open>A\<close>.\<close>

theorem field_delete_resets_one_field_witness:
  "apps exampleStorage ''app/a'' = Some exampleEntry
   \<and> pathAppPoliciesDelete exampleBackend
        \<lparr>Operation = DeleteOperation, Storage = exampleStorage\<rparr>
        (noFields\<lparr>app_name := Some ''A''\<rparr>) =
       (Inr None, exampleStorage\<lparr>apps := (apps exampleStorage)(''app/a'' \<mapsto>
          \<lparr>Policies = [], NumUses = 3, UserIDTTL = 60 * Second, TokenTTL = 3 * Second,
           TokenMaxTTL = 5 * Second, WrapTTL = 7 * Second\<rparr>)\<rparr>)
   \<and> pathAppNumUsesDelete exampleBackend
        \<lparr>Operation = DeleteOperation, Storage = exampleStorage\<rparr>
        (noFields\<lparr>app_name := Some ''A''\<rparr>) =
       (Inr None, exampleStorage\<lparr>apps := (apps exampleStorage)(''app/a'' \<mapsto>
          \<lparr>Policies = [''p1''], NumUses = 0, UserIDTTL = 60 * Second, TokenTTL = 3 * Second,
           TokenMaxTTL = 5 * Second, WrapTTL = 7 * Second\<rparr>)\<rparr>)"
proof -
  let ?req = "\<lparr>Operation = DeleteOperation, Storage = exampleStorage\<rparr>"
  let ?data = "noFields\<lparr>app_name := Some ''A''\<rparr>"
  have lower: "ToLower ''A'' = ''a''"
    by code_simp
  have name: "Get (app_name ?data) '''' \<noteq> ''''"
    by (simp add: Get_def)
  have stored: "apps (Storage ?req) (''app/'' @ ToLower (Get (app_name ?data) '''')) =
      Some exampleEntry"
    by (simp add: Get_def lower exampleStorage_def)
  have working: "getErr (Storage ?req) = None" "putErr (Storage ?req) = None"
    by (simp_all add: exampleStorage_def)
  show ?thesis
    using field_delete_resets_one_field [OF name stored working, of exampleBackend] stored
    by (simp add: Get_def lower exampleEntry_def)
qed

section \<open>Names that differ in letter case\<close>

lemma sameLetter_lower: "sameLetter c d \<Longrightarrow> toLowerChar c = toLowerChar d"
proof -
  have up: "toLowerChar x = char_of ((of_char x :: nat) + 32)"
    if "isUpper x" for x
    using that by (simp add: toLowerChar_def)
  have low: "toLowerChar y = y" "char_of ((of_char x :: nat) + 32) = y"
    if "isUpper x" "(of_char y :: nat) = of_char x + 32" for x y
  proof -
    from that have "\<not> isUpper y"
      by (simp add: isUpper_def)
    then show "toLowerChar y = y"
      by (simp add: toLowerChar_def)
    from that(2) have "char_of ((of_char x :: nat) + 32) = (char_of (of_char y :: nat) :: char)"
      by simp
    then show "char_of ((of_char x :: nat) + 32) = y"
      by simp
  qed
  assume "sameLetter c d"
  then consider "c = d" | "isUpper c" "(of_char d :: nat) = of_char c + 32"
    | "isUpper d" "(of_char c :: nat) = of_char d + 32"
    unfolding sameLetter_def by blast
  then show ?thesis
  proof cases
    case 1
    then show ?thesis by simp
  next
    case 2
    then show ?thesis using up [of c] low [of c d] by simp
  next
    case 3
    then show ?thesis using up [of d] low [of d c] by simp
  qed
qed

lemma differOnlyInCase_ToLower: "differOnlyInCase m n \<Longrightarrow> ToLower m = ToLower n"
  unfolding differOnlyInCase_def ToLower_def
  by (induction rule: list_all2_induct) (simp_all add: sameLetter_lower)

lemma ToLower_eq_Nil: "ToLower m = ToLower n \<Longrightarrow> (m = []) = (n = [])"
  by (metis ToLower_Nil_iff)

lemma appEntry_lower: "ToLower m = ToLower n \<Longrightarrow> appEntry s m = appEntry s n"
  using ToLower_eq_Nil [of m n] by (simp add: appEntry_def split: option.splits)

lemma storeEntry_lower: "ToLower m = ToLower n \<Longrightarrow> storeEntry s m app = storeEntry s n app"
  by (simp add: storeEntry_def setAppEntry_def split: option.splits)

lemma pathAppCreateUpdate_lower:
  assumes "ToLower m = ToLower n"
  shows "pathAppCreateUpdate b req (data\<lparr>app_name := Some m\<rparr>) =
         pathAppCreateUpdate b req (data\<lparr>app_name := Some n\<rparr>)"
proof -
  have sets: "setPolicies b req (data\<lparr>app_name := Some m\<rparr>) = setPolicies b req (data\<lparr>app_name := Some n\<rparr>)"
    "setNumUses req (data\<lparr>app_name := Some m\<rparr>) = setNumUses req (data\<lparr>app_name := Some n\<rparr>)"
    "setUserIDTTL req (data\<lparr>app_name := Some m\<rparr>) = setUserIDTTL req (data\<lparr>app_name := Some n\<rparr>)"
    "setTokenTTL req (data\<lparr>app_name := Some m\<rparr>) = setTokenTTL req (data\<lparr>app_name := Some n\<rparr>)"
    "setTokenMaxTTL req (data\<lparr>app_name := Some m\<rparr>) = setTokenMaxTTL req (data\<lparr>app_name := Some n\<rparr>)"
    "setWrapTTL (data\<lparr>app_name := Some m\<rparr>) = setWrapTTL (data\<lparr>app_name := Some n\<rparr>)"
    by (simp_all add: fun_eq_iff setPolicies_def setNumUses_def setUserIDTTL_def setTokenTTL_def
          setTokenMaxTTL_def setWrapTTL_def split: option.splits)
  show ?thesis
    unfolding pathAppCreateUpdate_def sets
    using ToLower_eq_Nil [OF assms]
    by (simp add: Get_def appEntry_lower [OF assms] storeEntry_lower [OF assms]
          cong: sum.case_cong option.case_cong if_cong)
qed

lemma pathAppRead_lower:
  assumes "ToLower m = ToLower n"
  shows "pathAppRead b req (data\<lparr>app_name := Some m\<rparr>) =
         pathAppRead b req (data\<lparr>app_name := Some n\<rparr>)"
  unfolding pathAppRead_def
  using ToLower_eq_Nil [OF assms]
  by (simp add: Get_def assms storeEntry_lower [OF assms]
        cong: sum.case_cong option.case_cong if_cong)

lemma pathAppDelete_lower:
  assumes "ToLower m = ToLower n"
  shows "pathAppDelete b req (data\<lparr>app_name := Some m\<rparr>) =
         pathAppDelete b req (data\<lparr>app_name := Some n\<rparr>)"
  unfolding pathAppDelete_def
  using ToLower_eq_Nil [OF assms]
  by (simp add: Get_def assms storeEntry_lower [OF assms]
        cong: sum.case_cong option.case_cong if_cong)

lemma pathAppPoliciesUpdate_lower:
  assumes "ToLower m = ToLower n"
  shows "pathAppPoliciesUpdate b req (data\<lparr>app_name := Some m\<rparr>) =
         pathAppPoliciesUpdate b req (data\<lparr>app_name := Some n\<rparr>)"
  unfolding pathAppPoliciesUpdate_def
  using ToLower_eq_Nil [OF assms]
  by (simp add: Get_def assms storeEntry_lower [OF assms]
        cong: sum.case_cong option.case_cong if_cong)

lemma pathAppPoliciesRead_lower:
  assumes "ToLower m = ToLower n"
  shows "pathAppPoliciesRead b req (data\<lparr>app_name := Some m\<rparr>) =
         pathAppPoliciesRead b req (data\<lparr>app_name := Some n\<rparr>)"
  unfolding pathAppPoliciesRead_def
  using ToLower_eq_Nil [OF assms]
  by (simp add: Get_def assms storeEntry_lower [OF assms]
        cong: sum.case_cong option.case_cong if_cong)

lemma pathAppPoliciesDelete_lower:
  assumes "ToLower m = ToLower n"
  shows "pathAppPoliciesDelete b req (data\<lparr>app_name := Some m\<rparr>) =
         pathAppPoliciesDelete b req (data\<lparr>app_name := Some n\<rparr>)"
  unfolding pathAppPoliciesDelete_def
  using ToLower_eq_Nil [OF assms]
  by (simp add: Get_def assms storeEntry_lower [OF assms]
        cong: sum.case_cong option.case_cong if_cong)

lemma pathAppNumUsesUpdate_lower:
  assumes "ToLower m = ToLower n"
  shows "pathAppNumUsesUpdate b req (data\<lparr>app_name := Some m\<rparr>) =
         pathAppNumUsesUpdate b req (data\<lparr>app_name := Some n\<rparr>)"
  unfolding pathAppNumUsesUpdate_def
  using ToLower_eq_Nil [OF assms]
  by (simp add: Get_def assms storeEntry_lower [OF assms]
        cong: sum.case_cong option.case_cong if_cong)

lemma pathAppNumUsesRead_lower:
  assumes "ToLower m = ToLower n"
  shows "pathAppNumUsesRead b req (data\<lparr>app_name := Some m\<rparr>) =
         pathAppNumUsesRead b req (data\<lparr>app_name := Some n\<rparr>)"
  unfolding pathAppNumUsesRead_def
  using ToLower_eq_Nil [OF assms]
  by (simp add: Get_def assms storeEntry_lower [OF assms]
        cong: sum.case_cong option.case_cong if_cong)

lemma pathAppNumUsesDelete_lower:
  assumes "ToLower m = ToLower n"
  shows "pathAppNumUsesDelete b req (data\<lparr>app_name := Some m\<rparr>) =
         pathAppNumUsesDelete b req (data\<lparr>app_name := Some n\<rparr>)"
  unfolding pathAppNumUsesDelete_def
  using ToLower_eq_Nil [OF assms]
  by (simp add: Get_def assms storeEntry_lower [OF assms]
        cong: sum.case_cong option.case_cong if_cong)

lemma pathAppUserIDTTLUpdate_lower:
  assumes "ToLower m = ToLower n"
  shows "pathAppUserIDTTLUpdate b req (data\<lparr>app_name := Some m\<rparr>) =
         pathAppUserIDTTLUpdate b req (data\<lparr>app_name := Some n\<rparr>)"
  unfolding pathAppUserIDTTLUpdate_def
  using ToLower_eq_Nil [OF assms]
  by (simp add: Get_def assms storeEntry_lower [OF assms]
        cong: sum.case_cong option.case_cong if_cong)

lemma pathAppUserIDTTLRead_lower:
  assumes "ToLower m = ToLower n"
  shows "pathAppUserIDTTLRead b req (data\<lparr>app_name := Some m\<rparr>) =
         pathAppUserIDTTLRead b req (data\<lparr>app_name := Some n\<rparr>)"
  unfolding pathAppUserIDTTLRead_def
  using ToLower_eq_Nil [OF assms]
  by (simp add: Get_def assms storeEntry_lower [OF assms]
        cong: sum.case_cong option.case_cong if_cong)

lemma pathAppUserIDTTLDelete_lower:
  assumes "ToLower m = ToLower n"
  shows "pathAppUserIDTTLDelete b req (data\<lparr>app_name := Some m\<rparr>) =
         pathAppUserIDTTLDelete b req (data\<lparr>app_name := Some n\<rparr>)"
  unfolding pathAppUserIDTTLDelete_def
  using ToLower_eq_Nil [OF assms]
  by (simp add: Get_def assms storeEntry_lower [OF assms]
        cong: sum.case_cong option.case_cong if_cong)

lemma pathAppTokenTTLUpdate_lower:
  assumes "ToLower m = ToLower n"
  shows "pathAppTokenTTLUpdate b req (data\<lparr>app_name := Some m\<rparr>) =
         pathAppTokenTTLUpdate b req (data\<lparr>app_name := Some n\<rparr>)"
  unfolding pathAppTokenTTLUpdate_def
  using ToLower_eq_Nil [OF assms]
  by (simp add: Get_def assms storeEntry_lower [OF assms]
        cong: sum.case_cong option.case_cong if_cong)

lemma pathAppTokenTTLRead_lower:
  assumes "ToLower m = ToLower n"
  shows "pathAppTokenTTLRead b req (data\<lparr>app_name := Some m\<rparr>) =
         pathAppTokenTTLRead b req (data\<lparr>app_name := Some n\<rparr>)"
  unfolding pathAppTokenTTLRead_def
  using ToLower_eq_Nil [OF assms]
  by (simp add: Get_def assms storeEntry_lower [OF assms]
        cong: sum.case_cong option.case_cong if_cong)

lemma pathAppTokenTTLDelete_lower:
  assumes "ToLower m = ToLower n"
  shows "pathAppTokenTTLDelete b req (data\<lparr>app_name := Some m\<rparr>) =
         pathAppTokenTTLDelete b req (data\<lparr>app_name := Some n\<rparr>)"
  unfolding pathAppTokenTTLDelete_def
  using ToLower_eq_Nil [OF assms]
  by (simp add: Get_def assms storeEntry_lower [OF assms]
        cong: sum.case_cong option.case_cong if_cong)

lemma pathAppTokenMaxTTLUpdate_lower:
  assumes "ToLower m = ToLower n"
  shows "pathAppTokenMaxTTLUpdate b req (data\<lparr>app_name := Some m\<rparr>) =
         pathAppTokenMaxTTLUpdate b req (data\<lparr>app_name := Some n\<rparr>)"
  unfolding pathAppTokenMaxTTLUpdate_def
  using ToLower_eq_Nil [OF assms]
  by (simp add: Get_def assms storeEntry_lower [OF assms]
        cong: sum.case_cong option.case_cong if_cong)

lemma pathAppTokenMaxTTLRead_lower:
  assumes "ToLower m = ToLower n"
  shows "pathAppTokenMaxTTLRead b req (data\<lparr>app_name := Some m\<rparr>) =
         pathAppTokenMaxTTLRead b req (data\<lparr>app_name := Some n\<rparr>)"
  unfolding pathAppTokenMaxTTLRead_def
  using ToLower_eq_Nil [OF assms]
  by (simp add: Get_def assms storeEntry_lower [OF assms]
        cong: sum.case_cong option.case_cong if_cong)

lemma pathAppTokenMaxTTLDelete_lower:
  assumes "ToLower m = ToLower n"
  shows "pathAppTokenMaxTTLDelete b req (data\<lparr>app_name := Some m\<rparr>) =
         pathAppTokenMaxTTLDelete b req (data\<lparr>app_name := Some n\<rparr>)"
  unfolding pathAppTokenMaxTTLDelete_def
  using ToLower_eq_Nil [OF assms]
  by (simp add: Get_def assms storeEntry_lower [OF assms]
        cong: sum.case_cong option.case_cong if_cong)

lemma pathAppWrapTTLUpdate_lower:
  assumes "ToLower m = ToLower n"
  shows "pathAppWrapTTLUpdate b req (data\<lparr>app_name := Some m\<rparr>) =
         pathAppWrapTTLUpdate b req (data\<lparr>app_name := Some n\<rparr>)"
  unfolding pathAppWrapTTLUpdate_def
  using ToLower_eq_Nil [OF assms]
  by (simp add: Get_def assms storeEntry_lower [OF assms]
        cong: sum.case_cong option.case_cong if_cong)

lemma pathAppWrapTTLRead_lower:
  assumes "ToLower m = ToLower n"
  shows "pathAppWrapTTLRead b req (data\<lparr>app_name := Some m\<rparr>) =
         pathAppWrapTTLRead b req (data\<lparr>app_name := Some n\<rparr>)"
  unfolding pathAppWrapTTLRead_def
  using ToLower_eq_Nil [OF assms]
  by (simp add: Get_def assms storeEntry_lower [OF assms]
        cong: sum.case_cong option.case_cong if_cong)

lemma pathAppWrapTTLDelete_lower:
  assumes "ToLower m = ToLower n"
  shows "pathAppWrapTTLDelete b req (data\<lparr>app_name := Some m\<rparr>) =
         pathAppWrapTTLDelete b req (data\<lparr>app_name := Some n\<rparr>)"
  unfolding pathAppWrapTTLDelete_def
  using ToLower_eq_Nil [OF assms]
  by (simp add: Get_def assms storeEntry_lower [OF assms]
        cong: sum.case_cong option.case_cong if_cong)

lemmas handlers_lower =
  pathAppCreateUpdate_lower
  pathAppRead_lower
  pathAppDelete_lower
  pathAppPoliciesUpdate_lower
  pathAppPoliciesRead_lower
  pathAppPoliciesDelete_lower
  pathAppNumUsesUpdate_lower
  pathAppNumUsesRead_lower
  pathAppNumUsesDelete_lower
  pathAppUserIDTTLUpdate_lower
  pathAppUserIDTTLRead_lower
  pathAppUserIDTTLDelete_lower
  pathAppTokenTTLUpdate_lower
  pathAppTokenTTLRead_lower
  pathAppTokenTTLDelete_lower
  pathAppTokenMaxTTLUpdate_lower
  pathAppTokenMaxTTLRead_lower
  pathAppTokenMaxTTLDelete_lower
  pathAppWrapTTLUpdate_lower
  pathAppWrapTTLRead_lower
  pathAppWrapTTLDelete_lower

lemma appEntry_Inr_getErr: "appEntry s n = Inr found \<Longrightarrow> getErr s = None \<and> n \<noteq> ''''"
  by (auto simp: appEntry_def split: if_splits option.splits)

lemma HandleRequest_lower:
  assumes "ToLower m = ToLower n" and "configPath p"
  shows "HandleRequest b p req (data\<lparr>app_name := Some m\<rparr>) =
         HandleRequest b p req (data\<lparr>app_name := Some n\<rparr>)"
  using assms(2)
  by (cases p; cases "Operation req")
     (simp_all add: HandleRequest_def configPath_def handlers_lower [OF assms(1)])

lemma read_after_write:
  assumes low: "ToLower m = ToLower n"
    and ok: "fst (pathAppCreateUpdate b req (data\<lparr>app_name := Some m\<rparr>)) = Inr None"
  shows "\<exists>app. apps (snd (pathAppCreateUpdate b req (data\<lparr>app_name := Some m\<rparr>)))
               (''app/'' @ ToLower m) = Some app
           \<and> pathAppRead b
                \<lparr>Operation = ReadOperation,
                 Storage = snd (pathAppCreateUpdate b req (data\<lparr>app_name := Some m\<rparr>))\<rparr>
                (rd\<lparr>app_name := Some n\<rparr>) =
              (Inr (Some (DataResponse
                 [(''policies'', VStrings (Policies app)),
                  (''num_uses'', VInt (NumUses app)),
                  (''userid_ttl'', VDuration (divDuration (UserIDTTL app) Second)),
                  (''token_ttl'', VDuration (divDuration (TokenTTL app) Second)),
                  (''token_max_ttl'', VDuration (divDuration (TokenMaxTTL app) Second)),
                  (''wrap_ttl'', VDuration (divDuration (WrapTTL app) Second))])),
               snd (pathAppCreateUpdate b req (data\<lparr>app_name := Some m\<rparr>)))"
proof -
  let ?data = "data\<lparr>app_name := Some m\<rparr>"
  have name: "Get (app_name ?data) '''' = m"
    by (simp add: Get_def)
  from pathAppCreateUpdate_accepted [OF ok] obtain found
    where f: "appEntry (Storage req) m = Inr found"
      and s: "snd (pathAppCreateUpdate b req ?data) =
               (Storage req)\<lparr>apps := (apps (Storage req))
                 (''app/'' @ ToLower m \<mapsto>
                    mergedEntry b req ?data
                      (case found of None \<Rightarrow> zeroAppStorageEntry | Some old \<Rightarrow> old))\<rparr>"
    unfolding name by blast
  from appEntry_Inr_getErr [OF f] have g: "getErr (Storage req) = None" and m: "m \<noteq> ''''"
    by simp_all
  from m ToLower_eq_Nil [OF low] have n: "n \<noteq> ''''"
    by simp
  show ?thesis
    unfolding s
    by (simp add: pathAppRead_def Get_def n g appEntry_def ToLower_idem ToLower_Nil_iff low)
qed

text \<open>With a record stored under the lower-cased form of \<open>m\<close>, what each handler does
  on a working storage when the request carries the name \<open>n\<close>.\<close>

lemma other_casing_addresses_entry:
  assumes low: "ToLower m = ToLower n" and m: "m \<noteq> ''''"
    and stored: "apps (Storage req) (''app/'' @ ToLower m) = Some app"
    and getOk: "getErr (Storage req) = None" and putOk: "putErr (Storage req) = None"
    and delOk: "deleteErr (Storage req) = None"
  shows
    "pathAppCreateUpdate b req (data\<lparr>app_name := Some n\<rparr>) =
         (if NumUses (mergedEntry b req (data\<lparr>app_name := Some n\<rparr>) app) <s 0
          then (Inr (Some (ErrorResponse ''num_uses cannot be negative'')), Storage req)
          else if 0 <s TokenMaxTTL (mergedEntry b req (data\<lparr>app_name := Some n\<rparr>) app)
                  \<and> TokenMaxTTL (mergedEntry b req (data\<lparr>app_name := Some n\<rparr>) app)
                      <s TokenTTL (mergedEntry b req (data\<lparr>app_name := Some n\<rparr>) app)
          then (Inr (Some (ErrorResponse ''token_ttl should not be greater than token_max_ttl'')), Storage req)
          else (Inr None, (Storage req)\<lparr>apps := (apps (Storage req))(''app/'' @ ToLower m \<mapsto> mergedEntry b req (data\<lparr>app_name := Some n\<rparr>) app)\<rparr>))
     \<and> pathAppRead b req (data\<lparr>app_name := Some n\<rparr>) =
         (Inr (Some (DataResponse
            [(''policies'', VStrings (Policies app)),
             (''num_uses'', VInt (NumUses app)),
             (''userid_ttl'', VDuration (divDuration (UserIDTTL app) Second)),
             (''token_ttl'', VDuration (divDuration (TokenTTL app) Second)),
             (''token_max_ttl'', VDuration (divDuration (TokenMaxTTL app) Second)),
             (''wrap_ttl'', VDuration (divDuration (WrapTTL app) Second))])), Storage req)
     \<and> pathAppDelete b req (data\<lparr>app_name := Some n\<rparr>) =
         (Inr None, (Storage req)\<lparr>apps := (apps (Storage req))(''app/'' @ ToLower m := None)\<rparr>)
     \<and> pathAppPoliciesRead b req (data\<lparr>app_name := Some n\<rparr>) =
         (Inr (Some (DataResponse [(''policies'', VStrings (Policies app))])), Storage req)
     \<and> pathAppNumUsesRead b req (data\<lparr>app_name := Some n\<rparr>) =
         (Inr (Some (DataResponse [(''num_uses'', VInt (NumUses app))])), Storage req)
     \<and> pathAppUserIDTTLRead b req (data\<lparr>app_name := Some n\<rparr>) =
         (Inr (Some (DataResponse [(''userid_ttl'', VDuration (divDuration (UserIDTTL app) Second))])), Storage req)
     \<and> pathAppTokenTTLRead b req (data\<lparr>app_name := Some n\<rparr>) =
         (Inr (Some (DataResponse [(''token_ttl'', VDuration (divDuration (TokenTTL app) Second))])), Storage req)
     \<and> pathAppTokenMaxTTLRead b req (data\<lparr>app_name := Some n\<rparr>) =
         (Inr (Some (DataResponse [(''token_max_ttl'', VDuration (divDuration (TokenMaxTTL app) Second))])), Storage req)
     \<and> pathAppWrapTTLRead b req (data\<lparr>app_name := Some n\<rparr>) =
         (Inr (Some (DataResponse [(''wrap_ttl'', VDuration (divDuration (WrapTTL app) Second))])), Storage req)
     \<and> pathAppPoliciesUpdate b req (data\<lparr>app_name := Some n\<rparr>) =
         (case policies data of
            Some raw \<Rightarrow>
              ((Inr None, (Storage req)\<lparr>apps := (apps (Storage req))(''app/'' @ ToLower m \<mapsto> app\<lparr>Policies := ParsePolicies b raw\<rparr>)\<rparr>))
          | None \<Rightarrow> (Inr (Some (ErrorResponse ''missing policies'')), Storage req))
     \<and> pathAppNumUsesUpdate b req (data\<lparr>app_name := Some n\<rparr>) =
         (case num_uses data of
            Some raw \<Rightarrow>
              (if raw <s 0
                   then (Inr (Some (ErrorResponse ''num_uses cannot be negative'')), Storage req)
                   else (Inr None, (Storage req)\<lparr>apps := (apps (Storage req))(''app/'' @ ToLower m \<mapsto> app\<lparr>NumUses := raw\<rparr>)\<rparr>))
          | None \<Rightarrow> (Inr (Some (ErrorResponse ''missing num_uses'')), Storage req))
     \<and> pathAppUserIDTTLUpdate b req (data\<lparr>app_name := Some n\<rparr>) =
         (case userid_ttl data of
            Some raw \<Rightarrow>
              ((Inr None, (Storage req)\<lparr>apps := (apps (Storage req))(''app/'' @ ToLower m \<mapsto> app\<lparr>UserIDTTL := Second * raw\<rparr>)\<rparr>))
          | None \<Rightarrow> (Inr (Some (ErrorResponse ''missing userid_ttl'')), Storage req))
     \<and> pathAppTokenTTLUpdate b req (data\<lparr>app_name := Some n\<rparr>) =
         (case token_ttl data of
            Some raw \<Rightarrow>
              (if 0 <s TokenMaxTTL app \<and> TokenMaxTTL app <s Second * raw
                   then (Inr (Some (ErrorResponse ''token_ttl should not be greater than token_max_ttl'')), Storage req)
                   else (Inr None, (Storage req)\<lparr>apps := (apps (Storage req))(''app/'' @ ToLower m \<mapsto> app\<lparr>TokenTTL := Second * raw\<rparr>)\<rparr>))
          | None \<Rightarrow> (Inr (Some (ErrorResponse ''missing token_ttl'')), Storage req))
     \<and> pathAppTokenMaxTTLUpdate b req (data\<lparr>app_name := Some n\<rparr>) =
         (case token_max_ttl data of
            Some raw \<Rightarrow>
              (if 0 <s Second * raw \<and> Second * raw <s TokenTTL app
                   then (Inr (Some (ErrorResponse ''token_max_ttl should be greater than or equal to token_ttl'')), Storage req)
                   else (Inr None, (Storage req)\<lparr>apps := (apps (Storage req))(''app/'' @ ToLower m \<mapsto> app\<lparr>TokenMaxTTL := Second * raw\<rparr>)\<rparr>))
          | None \<Rightarrow> (Inr (Some (ErrorResponse ''missing token_max_ttl'')), Storage req))
     \<and> pathAppWrapTTLUpdate b req (data\<lparr>app_name := Some n\<rparr>) =
         (case wrap_ttl data of
            Some raw \<Rightarrow>
              ((Inr None, (Storage req)\<lparr>apps := (apps (Storage req))(''app/'' @ ToLower m \<mapsto> app\<lparr>WrapTTL := raw * Second\<rparr>)\<rparr>))
          | None \<Rightarrow> (Inr (Some (ErrorResponse ''missing wrap_ttl'')), Storage req))
     \<and> pathAppPoliciesDelete b req (data\<lparr>app_name := Some n\<rparr>) =
         (Inr None, (Storage req)\<lparr>apps := (apps (Storage req))(''app/'' @ ToLower m \<mapsto> app\<lparr>Policies := []\<rparr>)\<rparr>)
     \<and> pathAppNumUsesDelete b req (data\<lparr>app_name := Some n\<rparr>) =
         (Inr None, (Storage req)\<lparr>apps := (apps (Storage req))(''app/'' @ ToLower m \<mapsto> app\<lparr>NumUses := 0\<rparr>)\<rparr>)
     \<and> pathAppUserIDTTLDelete b req (data\<lparr>app_name := Some n\<rparr>) =
         (Inr None, (Storage req)\<lparr>apps := (apps (Storage req))(''app/'' @ ToLower m \<mapsto> app\<lparr>UserIDTTL := 0\<rparr>)\<rparr>)
     \<and> pathAppTokenTTLDelete b req (data\<lparr>app_name := Some n\<rparr>) =
         (Inr None, (Storage req)\<lparr>apps := (apps (Storage req))(''app/'' @ ToLower m \<mapsto> app\<lparr>TokenTTL := 0\<rparr>)\<rparr>)
     \<and> pathAppTokenMaxTTLDelete b req (data\<lparr>app_name := Some n\<rparr>) =
         (Inr None, (Storage req)\<lparr>apps := (apps (Storage req))(''app/'' @ ToLower m \<mapsto> app\<lparr>TokenMaxTTL := 0\<rparr>)\<rparr>)
     \<and> pathAppWrapTTLDelete b req (data\<lparr>app_name := Some n\<rparr>) =
         (Inr None, (Storage req)\<lparr>apps := (apps (Storage req))(''app/'' @ ToLower m \<mapsto> app\<lparr>WrapTTL := 0\<rparr>)\<rparr>)"
proof -
  from m ToLower_eq_Nil [OF low] have n: "n \<noteq> ''''"
    by simp
  have key: "ToLower n = ToLower m"
    using low by simp
  have entry: "appEntry (Storage req) (ToLower m) = Inr (Some app)"
    using appEntry_stored [OF m getOk] stored by simp
  have found: "appEntry (Storage req) n = Inr (Some app)"
    using n getOk stored by (simp add: appEntry_def key)
  have name: "Get (app_name (data\<lparr>app_name := Some n\<rparr>)) '''' = n"
    by (simp add: Get_def)
  have whole: "pathAppCreateUpdate b req (data\<lparr>app_name := Some n\<rparr>) =
       (if NumUses (mergedEntry b req (data\<lparr>app_name := Some n\<rparr>) app) <s 0
        then (Inr (Some (ErrorResponse ''num_uses cannot be negative'')), Storage req)
        else if 0 <s TokenMaxTTL (mergedEntry b req (data\<lparr>app_name := Some n\<rparr>) app)
                \<and> TokenMaxTTL (mergedEntry b req (data\<lparr>app_name := Some n\<rparr>) app)
                    <s TokenTTL (mergedEntry b req (data\<lparr>app_name := Some n\<rparr>) app)
        then (Inr (Some (ErrorResponse ''token_ttl should not be greater than token_max_ttl'')),
              Storage req)
        else (Inr None, (Storage req)\<lparr>apps := (apps (Storage req))(''app/'' @ ToLower m \<mapsto>
                mergedEntry b req (data\<lparr>app_name := Some n\<rparr>) app)\<rparr>))"
  proof -
    have h1: "Get (app_name (data\<lparr>app_name := Some n\<rparr>)) '''' \<noteq> ''''"
      using n by (simp add: Get_def)
    have h2: "appEntry (Storage req) (Get (app_name (data\<lparr>app_name := Some n\<rparr>)) '''') =
        Inr (Some app)"
      using found by (simp add: Get_def)
    show ?thesis
      unfolding pathAppCreateUpdate_found [OF h1 h2]
      by (simp add: Get_def storeEntry_ok [OF putOk] key)
  qed
  have c1: "pathAppRead b req (data\<lparr>app_name := Some n\<rparr>) =
          (Inr (Some (DataResponse
             [(''policies'', VStrings (Policies app)),
              (''num_uses'', VInt (NumUses app)),
              (''userid_ttl'', VDuration (divDuration (UserIDTTL app) Second)),
              (''token_ttl'', VDuration (divDuration (TokenTTL app) Second)),
              (''token_max_ttl'', VDuration (divDuration (TokenMaxTTL app) Second)),
              (''wrap_ttl'', VDuration (divDuration (WrapTTL app) Second))])), Storage req)"
    using n
    by (simp add: pathAppRead_def Let_def Get_def key entry storeEntry_ok [OF putOk] delOk
          zeroAppStorageEntry_def split: option.splits)
  have c2: "pathAppDelete b req (data\<lparr>app_name := Some n\<rparr>) =
          (Inr None, (Storage req)\<lparr>apps := (apps (Storage req))(''app/'' @ ToLower m := None)\<rparr>)"
    using n
    by (simp add: pathAppDelete_def Let_def Get_def key entry storeEntry_ok [OF putOk] delOk
          zeroAppStorageEntry_def split: option.splits)
  have c3: "pathAppPoliciesRead b req (data\<lparr>app_name := Some n\<rparr>) =
          (Inr (Some (DataResponse [(''policies'', VStrings (Policies app))])), Storage req)"
    using n
    by (simp add: pathAppPoliciesRead_def Let_def Get_def key entry storeEntry_ok [OF putOk] delOk
          zeroAppStorageEntry_def split: option.splits)
  have c4: "pathAppNumUsesRead b req (data\<lparr>app_name := Some n\<rparr>) =
          (Inr (Some (DataResponse [(''num_uses'', VInt (NumUses app))])), Storage req)"
    using n
    by (simp add: pathAppNumUsesRead_def Let_def Get_def key entry storeEntry_ok [OF putOk] delOk
          zeroAppStorageEntry_def split: option.splits)
  have c5: "pathAppUserIDTTLRead b req (data\<lparr>app_name := Some n\<rparr>) =
          (Inr (Some (DataResponse [(''userid_ttl'', VDuration (divDuration (UserIDTTL app) Second))])), Storage req)"
    using n
    by (simp add: pathAppUserIDTTLRead_def Let_def Get_def key entry storeEntry_ok [OF putOk] delOk
          zeroAppStorageEntry_def split: option.splits)
  have c6: "pathAppTokenTTLRead b req (data\<lparr>app_name := Some n\<rparr>) =
          (Inr (Some (DataResponse [(''token_ttl'', VDuration (divDuration (TokenTTL app) Second))])), Storage req)"
    using n
    by (simp add: pathAppTokenTTLRead_def Let_def Get_def key entry storeEntry_ok [OF putOk] delOk
          zeroAppStorageEntry_def split: option.splits)
  have c7: "pathAppTokenMaxTTLRead b req (data\<lparr>app_name := Some n\<rparr>) =
          (Inr (Some (DataResponse [(''token_max_ttl'', VDuration (divDuration (TokenMaxTTL app) Second))])), Storage req)"
    using n
    by (simp add: pathAppTokenMaxTTLRead_def Let_def Get_def key entry storeEntry_ok [OF putOk] delOk
          zeroAppStorageEntry_def split: option.splits)
  have c8: "pathAppWrapTTLRead b req (data\<lparr>app_name := Some n\<rparr>) =
          (Inr (Some (DataResponse [(''wrap_ttl'', VDuration (divDuration (WrapTTL app) Second))])), Storage req)"
    using n
    by (simp add: pathAppWrapTTLRead_def Let_def Get_def key entry storeEntry_ok [OF putOk] delOk
          zeroAppStorageEntry_def split: option.splits)
  have c9: "pathAppPoliciesUpdate b req (data\<lparr>app_name := Some n\<rparr>) =
          (case policies data of
             Some raw \<Rightarrow>
               ((Inr None, (Storage req)\<lparr>apps := (apps (Storage req))(''app/'' @ ToLower m \<mapsto> app\<lparr>Policies := ParsePolicies b raw\<rparr>)\<rparr>))
           | None \<Rightarrow> (Inr (Some (ErrorResponse ''missing policies'')), Storage req))"
    using n
    by (simp add: pathAppPoliciesUpdate_def Let_def Get_def key entry storeEntry_ok [OF putOk] delOk
          zeroAppStorageEntry_def split: option.splits)
  have c10: "pathAppNumUsesUpdate b req (data\<lparr>app_name := Some n\<rparr>) =
          (case num_uses data of
             Some raw \<Rightarrow>
               (if raw <s 0
                    then (Inr (Some (ErrorResponse ''num_uses cannot be negative'')), Storage req)
                    else (Inr None, (Storage req)\<lparr>apps := (apps (Storage req))(''app/'' @ ToLower m \<mapsto> app\<lparr>NumUses := raw\<rparr>)\<rparr>))
           | None \<Rightarrow> (Inr (Some (ErrorResponse ''missing num_uses'')), Storage req))"
    using n
    by (simp add: pathAppNumUsesUpdate_def Let_def Get_def key entry storeEntry_ok [OF putOk] delOk
          zeroAppStorageEntry_def split: option.splits)
  have c11: "pathAppUserIDTTLUpdate b req (data\<lparr>app_name := Some n\<rparr>) =
          (case userid_ttl data of
             Some raw \<Rightarrow>
               ((Inr None, (Storage req)\<lparr>apps := (apps (Storage req))(''app/'' @ ToLower m \<mapsto> app\<lparr>UserIDTTL := Second * raw\<rparr>)\<rparr>))
           | None \<Rightarrow> (Inr (Some (ErrorResponse ''missing userid_ttl'')), Storage req))"
    using n
    by (simp add: pathAppUserIDTTLUpdate_def Let_def Get_def key entry storeEntry_ok [OF putOk] delOk
          zeroAppStorageEntry_def split: option.splits)
  have c12: "pathAppTokenTTLUpdate b req (data\<lparr>app_name := Some n\<rparr>) =
          (case token_ttl data of
             Some raw \<Rightarrow>
               (if 0 <s TokenMaxTTL app \<and> TokenMaxTTL app <s Second * raw
                    then (Inr (Some (ErrorResponse ''token_ttl should not be greater than token_max_ttl'')), Storage req)
                    else (Inr None, (Storage req)\<lparr>apps := (apps (Storage req))(''app/'' @ ToLower m \<mapsto> app\<lparr>TokenTTL := Second * raw\<rparr>)\<rparr>))
           | None \<Rightarrow> (Inr (Some (ErrorResponse ''missing token_ttl'')), Storage req))"
    using n
    by (simp add: pathAppTokenTTLUpdate_def Let_def Get_def key entry storeEntry_ok [OF putOk] delOk
          zeroAppStorageEntry_def split: option.splits)
  have c13: "pathAppTokenMaxTTLUpdate b req (data\<lparr>app_name := Some n\<rparr>) =
          (case token_max_ttl data of
             Some raw \<Rightarrow>
               (if 0 <s Second * raw \<and> Second * raw <s TokenTTL app
                    then (Inr (Some (ErrorResponse ''token_max_ttl should be greater than or equal to token_ttl'')), Storage req)
                    else (Inr None, (Storage req)\<lparr>apps := (apps (Storage req))(''app/'' @ ToLower m \<mapsto> app\<lparr>TokenMaxTTL := Second * raw\<rparr>)\<rparr>))
           | None \<Rightarrow> (Inr (Some (ErrorResponse ''missing token_max_ttl'')), Storage req))"
    using n
    by (simp add: pathAppTokenMaxTTLUpdate_def Let_def Get_def key entry storeEntry_ok [OF putOk] delOk
          zeroAppStorageEntry_def split: option.splits)
  have c14: "pathAppWrapTTLUpdate b req (data\<lparr>app_name := Some n\<rparr>) =
          (case wrap_ttl data of
             Some raw \<Rightarrow>
               ((Inr None, (Storage req)\<lparr>apps := (apps (Storage req))(''app/'' @ ToLower m \<mapsto> app\<lparr>WrapTTL := raw * Second\<rparr>)\<rparr>))
           | None \<Rightarrow> (Inr (Some (ErrorResponse ''missing wrap_ttl'')), Storage req))"
    using n
    by (simp add: pathAppWrapTTLUpdate_def Let_def Get_def key entry storeEntry_ok [OF putOk] delOk
          zeroAppStorageEntry_def split: option.splits)
  have c15: "pathAppPoliciesDelete b req (data\<lparr>app_name := Some n\<rparr>) =
          (Inr None, (Storage req)\<lparr>apps := (apps (Storage req))(''app/'' @ ToLower m \<mapsto> app\<lparr>Policies := []\<rparr>)\<rparr>)"
    using n
    by (simp add: pathAppPoliciesDelete_def Let_def Get_def key entry storeEntry_ok [OF putOk] delOk
          zeroAppStorageEntry_def split: option.splits)
  have c16: "pathAppNumUsesDelete b req (data\<lparr>app_name := Some n\<rparr>) =
          (Inr None, (Storage req)\<lparr>apps := (apps (Storage req))(''app/'' @ ToLower m \<mapsto> app\<lparr>NumUses := 0\<rparr>)\<rparr>)"
    using n
    by (simp add: pathAppNumUsesDelete_def Let_def Get_def key entry storeEntry_ok [OF putOk] delOk
          zeroAppStorageEntry_def split: option.splits)
  have c17: "pathAppUserIDTTLDelete b req (data\<lparr>app_name := Some n\<rparr>) =
          (Inr None, (Storage req)\<lparr>apps := (apps (Storage req))(''app/'' @ ToLower m \<mapsto> app\<lparr>UserIDTTL := 0\<rparr>)\<rparr>)"
    using n
    by (simp add: pathAppUserIDTTLDelete_def Let_def Get_def key entry storeEntry_ok [OF putOk] delOk
          zeroAppStorageEntry_def split: option.splits)
  have c18: "pathAppTokenTTLDelete b req (data\<lparr>app_name := Some n\<rparr>) =
          (Inr None, (Storage req)\<lparr>apps := (apps (Storage req))(''app/'' @ ToLower m \<mapsto> app\<lparr>TokenTTL := 0\<rparr>)\<rparr>)"
    using n
    by (simp add: pathAppTokenTTLDelete_def Let_def Get_def key entry storeEntry_ok [OF putOk] delOk
          zeroAppStorageEntry_def split: option.splits)
  have c19: "pathAppTokenMaxTTLDelete b req (data\<lparr>app_name := Some n\<rparr>) =
          (Inr None, (Storage req)\<lparr>apps := (apps (Storage req))(''app/'' @ ToLower m \<mapsto> app\<lparr>TokenMaxTTL := 0\<rparr>)\<rparr>)"
    using n
    by (simp add: pathAppTokenMaxTTLDelete_def Let_def Get_def key entry storeEntry_ok [OF putOk] delOk
          zeroAppStorageEntry_def split: option.splits)
  have c20: "pathAppWrapTTLDelete b req (data\<lparr>app_name := Some n\<rparr>) =
          (Inr None, (Storage req)\<lparr>apps := (apps (Storage req))(''app/'' @ ToLower m \<mapsto> app\<lparr>WrapTTL := 0\<rparr>)\<rparr>)"
    using n
    by (simp add: pathAppWrapTTLDelete_def Let_def Get_def key entry storeEntry_ok [OF putOk] delOk
          zeroAppStorageEntry_def split: option.splits)
  from whole c1 c2 c3 c4 c5 c6 c7 c8 c9 c10 c11 c12 c13 c14 c15 c16 c17 c18 c19 c20 show ?thesis
    by (intro conjI)
qed

text \<open>
  Claim C5. For two App names \<open>m\<close> and \<open>n\<close> that differ only in letter case, every
  route that manages the options of an App gives, for every operation, the same
  response and the same storage whichever of the two names the request carries, and a
  record written under \<open>m\<close> by an accepted whole-record request is what a whole-record
  read under \<open>n\<close> returns. With a record stored under the lower-cased form of \<open>m\<close> on
  a working storage, every handler addresses that entry when the request carries
  \<open>n\<close>: the whole-record write stores its merged entry there, the whole-record read
  and each per-field read return its fields, the delete removes it, each per-field
  update stores it there with that field set (or rejects the value and writes
  nothing), and each per-field delete stores it there with that field zeroed.
\<close>

theorem names_differing_in_case_same_entry:
  "differOnlyInCase m n \<Longrightarrow> configPath p \<Longrightarrow>
   HandleRequest b p req (data\<lparr>app_name := Some m\<rparr>) =
     HandleRequest b p req (data\<lparr>app_name := Some n\<rparr>)
   \<and> (fst (pathAppCreateUpdate b req (data\<lparr>app_name := Some m\<rparr>)) = Inr None \<longrightarrow>
        (\<exists>app. apps (snd (pathAppCreateUpdate b req (data\<lparr>app_name := Some m\<rparr>)))
                 (''app/'' @ ToLower m) = Some app
           \<and> pathAppRead b
                \<lparr>Operation = ReadOperation,
                 Storage = snd (pathAppCreateUpdate b req (data\<lparr>app_name := Some m\<rparr>))\<rparr>
                (rd\<lparr>app_name := Some n\<rparr>) =
              (Inr (Some (DataResponse
                 [(''policies'', VStrings (Policies app)),
                  (''num_uses'', VInt (NumUses app)),
                  (''userid_ttl'', VDuration (divDuration (UserIDTTL app) Second)),
                  (''token_ttl'', VDuration (divDuration (TokenTTL app) Second)),
                  (''token_max_ttl'', VDuration (divDuration (TokenMaxTTL app) Second)),
                  (''wrap_ttl'', VDuration (divDuration (WrapTTL app) Second))])),
               snd (pathAppCreateUpdate b req (data\<lparr>app_name := Some m\<rparr>)))))
   \<and> (m \<noteq> ''''
        \<and> apps (Storage req) (''app/'' @ ToLower m) = Some app
        \<and> getErr (Storage req) = None \<and> putErr (Storage req) = None
        \<and> deleteErr (Storage req) = None
      \<longrightarrow>
        pathAppCreateUpdate b req (data\<lparr>app_name := Some n\<rparr>) =
            (if NumUses (mergedEntry b req (data\<lparr>app_name := Some n\<rparr>) app) <s 0
             then (Inr (Some (ErrorResponse ''num_uses cannot be negative'')), Storage req)
             else if 0 <s TokenMaxTTL (mergedEntry b req (data\<lparr>app_name := Some n\<rparr>) app)
                     \<and> TokenMaxTTL (mergedEntry b req (data\<lparr>app_name := Some n\<rparr>) app)
                         <s TokenTTL (mergedEntry b req (data\<lparr>app_name := Some n\<rparr>) app)
             then (Inr (Some (ErrorResponse ''token_ttl should not be greater than token_max_ttl'')), Storage req)
             else (Inr None, (Storage req)\<lparr>apps := (apps (Storage req))(''app/'' @ ToLower m \<mapsto> mergedEntry b req (data\<lparr>app_name := Some n\<rparr>) app)\<rparr>))
        \<and> pathAppRead b req (data\<lparr>app_name := Some n\<rparr>) =
            (Inr (Some (DataResponse
               [(''policies'', VStrings (Policies app)),
                (''num_uses'', VInt (NumUses app)),
                (''userid_ttl'', VDuration (divDuration (UserIDTTL app) Second)),
                (''token_ttl'', VDuration (divDuration (TokenTTL app) Second)),
                (''token_max_ttl'', VDuration (divDuration (TokenMaxTTL app) Second)),
                (''wrap_ttl'', VDuration (divDuration (WrapTTL app) Second))])), Storage req)
        \<and> pathAppDelete b req (data\<lparr>app_name := Some n\<rparr>) =
            (Inr None, (Storage req)\<lparr>apps := (apps (Storage req))(''app/'' @ ToLower m := None)\<rparr>)
        \<and> pathAppPoliciesRead b req (data\<lparr>app_name := Some n\<rparr>) =
            (Inr (Some (DataResponse [(''policies'', VStrings (Policies app))])), Storage req)
        \<and> pathAppNumUsesRead b req (data\<lparr>app_name := Some n\<rparr>) =
            (Inr (Some (DataResponse [(''num_uses'', VInt (NumUses app))])), Storage req)
        \<and> pathAppUserIDTTLRead b req (data\<lparr>app_name := Some n\<rparr>) =
            (Inr (Some (DataResponse [(''userid_ttl'', VDuration (divDuration (UserIDTTL app) Second))])), Storage req)
        \<and> pathAppTokenTTLRead b req (data\<lparr>app_name := Some n\<rparr>) =
            (Inr (Some (DataResponse [(''token_ttl'', VDuration (divDuration (TokenTTL app) Second))])), Storage req)
        \<and> pathAppTokenMaxTTLRead b req (data\<lparr>app_name := Some n\<rparr>) =
            (Inr (Some (DataResponse [(''token_max_ttl'', VDuration (divDuration (TokenMaxTTL app) Second))])), Storage req)
        \<and> pathAppWrapTTLRead b req (data\<lparr>app_name := Some n\<rparr>) =
            (Inr (Some (DataResponse [(''wrap_ttl'', VDuration (divDuration (WrapTTL app) Second))])), Storage req)
        \<and> pathAppPoliciesUpdate b req (data\<lparr>app_name := Some n\<rparr>) =
            (case policies data of
               Some raw \<Rightarrow>
                 ((Inr None, (Storage req)\<lparr>apps := (apps (Storage req))(''app/'' @ ToLower m \<mapsto> app\<lparr>Policies := ParsePolicies b raw\<rparr>)\<rparr>))
             | None \<Rightarrow> (Inr (Some (ErrorResponse ''missing policies'')), Storage req))
        \<and> pathAppNumUsesUpdate b req (data\<lparr>app_name := Some n\<rparr>) =
            (case num_uses data of
               Some raw \<Rightarrow>
                 (if raw <s 0
                      then (Inr (Some (ErrorResponse ''num_uses cannot be negative'')), Storage req)
                      else (Inr None, (Storage req)\<lparr>apps := (apps (Storage req))(''app/'' @ ToLower m \<mapsto> app\<lparr>NumUses := raw\<rparr>)\<rparr>))
             | None \<Rightarrow> (Inr (Some (ErrorResponse ''missing num_uses'')), Storage req))
        \<and> pathAppUserIDTTLUpdate b req (data\<lparr>app_name := Some n\<rparr>) =
            (case userid_ttl data of
               Some raw \<Rightarrow>
                 ((Inr None, (Storage req)\<lparr>apps := (apps (Storage req))(''app/'' @ ToLower m \<mapsto> app\<lparr>UserIDTTL := Second * raw\<rparr>)\<rparr>))
             | None \<Rightarrow> (Inr (Some (ErrorResponse ''missing userid_ttl'')), Storage req))
        \<and> pathAppTokenTTLUpdate b req (data\<lparr>app_name := Some n\<rparr>) =
            (case token_ttl data of
               Some raw \<Rightarrow>
                 (if 0 <s TokenMaxTTL app \<and> TokenMaxTTL app <s Second * raw
                      then (Inr (Some (ErrorResponse ''token_ttl should not be greater than token_max_ttl'')), Storage req)
                      else (Inr None, (Storage req)\<lparr>apps := (apps (Storage req))(''app/'' @ ToLower m \<mapsto> app\<lparr>TokenTTL := Second * raw\<rparr>)\<rparr>))
             | None \<Rightarrow> (Inr (Some (ErrorResponse ''missing token_ttl'')), Storage req))
        \<and> pathAppTokenMaxTTLUpdate b req (data\<lparr>app_name := Some n\<rparr>) =
            (case token_max_ttl data of
               Some raw \<Rightarrow>
                 (if 0 <s Second * raw \<and> Second * raw <s TokenTTL app
                      then (Inr (Some (ErrorResponse ''token_max_ttl should be greater than or equal to token_ttl'')), Storage req)
                      else (Inr None, (Storage req)\<lparr>apps := (apps (Storage req))(''app/'' @ ToLower m \<mapsto> app\<lparr>TokenMaxTTL := Second * raw\<rparr>)\<rparr>))
             | None \<Rightarrow> (Inr (Some (ErrorResponse ''missing token_max_ttl'')), Storage req))
        \<and> pathAppWrapTTLUpdate b req (data\<lparr>app_name := Some n\<rparr>) =
            (case wrap_ttl data of
               Some raw \<Rightarrow>
                 ((Inr None, (Storage req)\<lparr>apps := (apps (Storage req))(''app/'' @ ToLower m \<mapsto> app\<lparr>WrapTTL := raw * Second\<rparr>)\<rparr>))
             | None \<Rightarrow> (Inr (Some (ErrorResponse ''missing wrap_ttl'')), Storage req))
        \<and> pathAppPoliciesDelete b req (data\<lparr>app_name := Some n\<rparr>) =
            (Inr None, (Storage req)\<lparr>apps := (apps (Storage req))(''app/'' @ ToLower m \<mapsto> app\<lparr>Policies := []\<rparr>)\<rparr>)
        \<and> pathAppNumUsesDelete b req (data\<lparr>app_name := Some n\<rparr>) =
            (Inr None, (Storage req)\<lparr>apps := (apps (Storage req))(''app/'' @ ToLower m \<mapsto> app\<lparr>NumUses := 0\<rparr>)\<rparr>)
        \<and> pathAppUserIDTTLDelete b req (data\<lparr>app_name := Some n\<rparr>) =
            (Inr None, (Storage req)\<lparr>apps := (apps (Storage req))(''app/'' @ ToLower m \<mapsto> app\<lparr>UserIDTTL := 0\<rparr>)\<rparr>)
        \<and> pathAppTokenTTLDelete b req (data\<lparr>app_name := Some n\<rparr>) =
            (Inr None, (Storage req)\<lparr>apps := (apps (Storage req))(''app/'' @ ToLower m \<mapsto> app\<lparr>TokenTTL := 0\<rparr>)\<rparr>)
        \<and> pathAppTokenMaxTTLDelete b req (data\<lparr>app_name := Some n\<rparr>) =
            (Inr None, (Storage req)\<lparr>apps := (apps (Storage req))(''app/'' @ ToLower m \<mapsto> app\<lparr>TokenMaxTTL := 0\<rparr>)\<rparr>)
        \<and> pathAppWrapTTLDelete b req (data\<lparr>app_name := Some n\<rparr>) =
            (Inr None, (Storage req)\<lparr>apps := (apps (Storage req))(''app/'' @ ToLower m \<mapsto> app\<lparr>WrapTTL := 0\<rparr>)\<rparr>))"
proof -
  assume d: "differOnlyInCase m n" and p: "configPath p"
  from d have low: "ToLower m = ToLower n"
    by (rule differOnlyInCase_ToLower)
  from HandleRequest_lower [OF low p] read_after_write [OF low]
    other_casing_addresses_entry [OF low]
  show ?thesis
    by blast
qed

text \<open>The App \<open>a\<close> of the example storage, addressed as \<open>A\<close>: a whole-record
  write under \<open>a\<close> is read under \<open>A\<close>; under \<open>A\<close> the delete removes the entry
  \<open>app/a\<close>, the policies read returns its policies and the policies update and the
  \<open>num_uses\<close> delete store it there with that one field changed.\<close>

theorem names_differing_in_case_same_entry_witness:
  "differOnlyInCase ''a'' ''A'' \<and> configPath PathApp
   \<and> apps exampleStorage ''app/a'' = Some exampleEntry
   \<and> HandleRequest exampleBackend PathApp
        \<lparr>Operation = UpdateOperation, Storage = exampleStorage\<rparr>
        (noFields\<lparr>policies := Some ''p2'', app_name := Some ''a''\<rparr>) =
       HandleRequest exampleBackend PathApp
        \<lparr>Operation = UpdateOperation, Storage = exampleStorage\<rparr>
        (noFields\<lparr>policies := Some ''p2'', app_name := Some ''A''\<rparr>)
   \<and> fst (pathAppCreateUpdate exampleBackend
        \<lparr>Operation = UpdateOperation, Storage = exampleStorage\<rparr>
        (noFields\<lparr>policies := Some ''p2'', app_name := Some ''a''\<rparr>)) = Inr None
   \<and> (\<exists>app. apps (snd (pathAppCreateUpdate exampleBackend
                 \<lparr>Operation = UpdateOperation, Storage = exampleStorage\<rparr>
                 (noFields\<lparr>policies := Some ''p2'', app_name := Some ''a''\<rparr>)))
               ''app/a'' = Some app
         \<and> Policies app = [''p2'']
         \<and> fst (pathAppRead exampleBackend
                \<lparr>Operation = ReadOperation,
                 Storage = snd (pathAppCreateUpdate exampleBackend
                   \<lparr>Operation = UpdateOperation, Storage = exampleStorage\<rparr>
                   (noFields\<lparr>policies := Some ''p2'', app_name := Some ''a''\<rparr>))\<rparr>
                (noFields\<lparr>app_name := Some ''A''\<rparr>)) =
              Inr (Some (DataResponse
                 [(''policies'', VStrings (Policies app)),
                  (''num_uses'', VInt (NumUses app)),
                  (''userid_ttl'', VDuration (divDuration (UserIDTTL app) Second)),
                  (''token_ttl'', VDuration (divDuration (TokenTTL app) Second)),
                  (''token_max_ttl'', VDuration (divDuration (TokenMaxTTL app) Second)),
                  (''wrap_ttl'', VDuration (divDuration (WrapTTL app) Second))])))
   \<and> pathAppDelete exampleBackend
        \<lparr>Operation = UpdateOperation, Storage = exampleStorage\<rparr>
        (noFields\<lparr>policies := Some ''p2'', app_name := Some ''A''\<rparr>) =
       (Inr None, exampleStorage\<lparr>apps := (apps exampleStorage)(''app/a'' := None)\<rparr>)
   \<and> pathAppPoliciesRead exampleBackend
        \<lparr>Operation = UpdateOperation, Storage = exampleStorage\<rparr>
        (noFields\<lparr>policies := Some ''p2'', app_name := Some ''A''\<rparr>) =
       (Inr (Some (DataResponse [(''policies'', VStrings [''p1''])])), exampleStorage)
   \<and> pathAppPoliciesUpdate exampleBackend
        \<lparr>Operation = UpdateOperation, Storage = exampleStorage\<rparr>
        (noFields\<lparr>policies := Some ''p2'', app_name := Some ''A''\<rparr>) =
       (Inr None, exampleStorage\<lparr>apps := (apps exampleStorage)(''app/a'' \<mapsto>
          exampleEntry\<lparr>Policies := [''p2'']\<rparr>)\<rparr>)
   \<and> pathAppNumUsesDelete exampleBackend
        \<lparr>Operation = UpdateOperation, Storage = exampleStorage\<rparr>
        (noFields\<lparr>policies := Some ''p2'', app_name := Some ''A''\<rparr>) =
       (Inr None, exampleStorage\<lparr>apps := (apps exampleStorage)(''app/a'' \<mapsto>
          exampleEntry\<lparr>NumUses := 0\<rparr>)\<rparr>)"
proof -
  let ?req = "\<lparr>Operation = UpdateOperation, Storage = exampleStorage\<rparr>"
  let ?data = "noFields\<lparr>policies := Some ''p2''\<rparr>"
  have d: "differOnlyInCase ''a'' ''A''"
    by code_simp
  have p: "configPath PathApp"
    by (simp add: configPath_def)
  have stored: "apps exampleStorage ''app/a'' = Some exampleEntry"
    by (simp add: exampleStorage_def)
  have run: "pathAppCreateUpdate exampleBackend ?req (?data\<lparr>app_name := Some ''a''\<rparr>) =
      (Inr None, exampleStorage\<lparr>apps := (apps exampleStorage)(''app/a'' \<mapsto>
         exampleEntry\<lparr>Policies := [''p2'']\<rparr>)\<rparr>)"
    by (simp add: pathAppCreateUpdate_def Get_def noFields_def appEntry_def ToLower_a
        exampleStorage_def exampleEntry_def exampleBackend_def setPolicies_def setNumUses_def
        setUserIDTTL_def setTokenTTL_def setTokenMaxTTL_def setWrapTTL_def storeEntry_def
        setAppEntry_def Let_def Second_def word_sless_alt)
  note inst = names_differing_in_case_same_entry [OF d p,
      of exampleBackend ?req ?data noFields exampleEntry]
  have accepted: "fst (pathAppCreateUpdate exampleBackend ?req
      (?data\<lparr>app_name := Some ''a''\<rparr>)) = Inr None"
    by (simp add: run)
  have working: "''a'' \<noteq> ''''
        \<and> apps (Storage ?req) (''app/'' @ ToLower ''a'') = Some exampleEntry
        \<and> getErr (Storage ?req) = None \<and> putErr (Storage ?req) = None
        \<and> deleteErr (Storage ?req) = None"
    by (simp add: ToLower_a exampleStorage_def)
  from mp [OF conjunct1 [OF conjunct2 [OF inst]] accepted]
  have roundTrip: "\<exists>app. apps (snd (pathAppCreateUpdate exampleBackend ?req
                 (?data\<lparr>app_name := Some ''a''\<rparr>))) ''app/a'' = Some app
         \<and> Policies app = [''p2'']
         \<and> fst (pathAppRead exampleBackend
                \<lparr>Operation = ReadOperation,
                 Storage = snd (pathAppCreateUpdate exampleBackend ?req
                   (?data\<lparr>app_name := Some ''a''\<rparr>))\<rparr>
                (noFields\<lparr>app_name := Some ''A''\<rparr>)) =
              Inr (Some (DataResponse
                 [(''policies'', VStrings (Policies app)),
                  (''num_uses'', VInt (NumUses app)),
                  (''userid_ttl'', VDuration (divDuration (UserIDTTL app) Second)),
                  (''token_ttl'', VDuration (divDuration (TokenTTL app) Second)),
                  (''token_max_ttl'', VDuration (divDuration (TokenMaxTTL app) Second)),
                  (''wrap_ttl'', VDuration (divDuration (WrapTTL app) Second))]))"
    by (auto simp: run ToLower_a)
  note addressed = mp [OF conjunct2 [OF conjunct2 [OF inst]] working]
  have removed: "pathAppDelete exampleBackend ?req (?data\<lparr>app_name := Some ''A''\<rparr>) =
       (Inr None, exampleStorage\<lparr>apps := (apps exampleStorage)(''app/a'' := None)\<rparr>)"
    using addressed by (simp add: ToLower_a)
  have fieldRead: "pathAppPoliciesRead exampleBackend ?req (?data\<lparr>app_name := Some ''A''\<rparr>) =
       (Inr (Some (DataResponse [(''policies'', VStrings [''p1''])])), exampleStorage)"
    using addressed by (simp add: exampleEntry_def)
  have updated: "pathAppPoliciesUpdate exampleBackend ?req (?data\<lparr>app_name := Some ''A''\<rparr>) =
       (Inr None, exampleStorage\<lparr>apps := (apps exampleStorage)(''app/a'' \<mapsto>
          exampleEntry\<lparr>Policies := [''p2'']\<rparr>)\<rparr>)"
    using addressed by (simp add: ToLower_a exampleBackend_def)
  have reset: "pathAppNumUsesDelete exampleBackend ?req (?data\<lparr>app_name := Some ''A''\<rparr>) =
       (Inr None, exampleStorage\<lparr>apps := (apps exampleStorage)(''app/a'' \<mapsto>
          exampleEntry\<lparr>NumUses := 0\<rparr>)\<rparr>)"
    using addressed by (simp add: ToLower_a)
  from d p stored conjunct1 [OF inst] accepted roundTrip removed fieldRead updated reset show ?thesis
    by (intro conjI)
qed

section \<open>Apps that are not registered\<close>

text \<open>
  Claim C6. For an App name with no stored record, on a storage whose \<open>Get\<close> works, the
  whole-record read and each per-field read return \<open>nil, nil\<close>: no response, no error,
  and the storage as it was.
\<close>

theorem read_of_missing_app_is_empty:
  "Get (app_name data) '''' \<noteq> '''' \<Longrightarrow>
   apps (Storage req) (''app/'' @ ToLower (Get (app_name data) '''')) = None \<Longrightarrow>
   getErr (Storage req) = None \<Longrightarrow>
   pathAppRead b req data = (Inr None, Storage req)
   \<and> pathAppPoliciesRead b req data = (Inr None, Storage req)
   \<and> pathAppNumUsesRead b req data = (Inr None, Storage req)
   \<and> pathAppUserIDTTLRead b req data = (Inr None, Storage req)
   \<and> pathAppTokenTTLRead b req data = (Inr None, Storage req)
   \<and> pathAppTokenMaxTTLRead b req data = (Inr None, Storage req)
   \<and> pathAppWrapTTLRead b req data = (Inr None, Storage req)"
  by (simp add: pathAppRead_def pathAppPoliciesRead_def pathAppNumUsesRead_def
      pathAppUserIDTTLRead_def pathAppTokenTTLRead_def pathAppTokenMaxTTLRead_def
      pathAppWrapTTLRead_def Let_def appEntry_stored)

text \<open>Reading the App \<open>b\<close>, which the example storage does not hold.\<close>

theorem read_of_missing_app_is_empty_witness:
  "apps exampleStorage ''app/b'' = None
   \<and> pathAppRead exampleBackend \<lparr>Operation = ReadOperation, Storage = exampleStorage\<rparr>
        (noFields\<lparr>app_name := Some ''b''\<rparr>) = (Inr None, exampleStorage)
   \<and> pathAppPoliciesRead exampleBackend \<lparr>Operation = ReadOperation, Storage = exampleStorage\<rparr>
        (noFields\<lparr>app_name := Some ''b''\<rparr>) = (Inr None, exampleStorage)
   \<and> pathAppWrapTTLRead exampleBackend \<lparr>Operation = ReadOperation, Storage = exampleStorage\<rparr>
        (noFields\<lparr>app_name := Some ''b''\<rparr>) = (Inr None, exampleStorage)"
proof -
  let ?req = "\<lparr>Operation = ReadOperation, Storage = exampleStorage\<rparr>"
  let ?data = "noFields\<lparr>app_name := Some ''b''\<rparr>"
  have lower: "ToLower ''b'' = ''b''"
    by code_simp
  have name: "Get (app_name ?data) '''' \<noteq> ''''"
    by (simp add: Get_def)
  have absent: "apps (Storage ?req) (''app/'' @ ToLower (Get (app_name ?data) '''')) = None"
    by (simp add: Get_def lower exampleStorage_def)
  have working: "getErr (Storage ?req) = None"
    by (simp add: exampleStorage_def)
  show ?thesis
    using read_of_missing_app_is_empty [OF name absent working, of exampleBackend] absent
    by (simp add: Get_def lower)
qed

section \<open>Per-field updates of an App that is not registered\<close>

text \<open>
  Claim C10. For an App name with no stored record, on a storage whose \<open>Get\<close> works,
  each per-field update handler returns \<open>nil, nil\<close> and leaves the storage as it was,
  whatever fields the request supplies: no record is created.
\<close>

theorem field_update_of_missing_app_writes_nothing:
  "Get (app_name data) '''' \<noteq> '''' \<Longrightarrow>
   apps (Storage req) (''app/'' @ ToLower (Get (app_name data) '''')) = None \<Longrightarrow>
   getErr (Storage req) = None \<Longrightarrow>
   pathAppPoliciesUpdate b req data = (Inr None, Storage req)
   \<and> pathAppNumUsesUpdate b req data = (Inr None, Storage req)
   \<and> pathAppUserIDTTLUpdate b req data = (Inr None, Storage req)
   \<and> pathAppTokenTTLUpdate b req data = (Inr None, Storage req)
   \<and> pathAppTokenMaxTTLUpdate b req data = (Inr None, Storage req)
   \<and> pathAppWrapTTLUpdate b req data = (Inr None, Storage req)"
  by (simp add: pathAppPoliciesUpdate_def pathAppNumUsesUpdate_def pathAppUserIDTTLUpdate_def
      pathAppTokenTTLUpdate_def pathAppTokenMaxTTLUpdate_def pathAppWrapTTLUpdate_def
      Let_def appEntry_stored)

text \<open>Updates of the App \<open>b\<close>, which the example storage does not hold, with a valid
  value for every field.\<close>

theorem field_update_of_missing_app_writes_nothing_witness:
  "apps exampleStorage ''app/b'' = None
   \<and> pathAppPoliciesUpdate exampleBackend
        \<lparr>Operation = UpdateOperation, Storage = exampleStorage\<rparr>
        (noFields\<lparr>app_name := Some ''b'', policies := Some ''p2'', num_uses := Some 1,
                  userid_ttl := Some 1, token_ttl := Some 1, token_max_ttl := Some 1,
                  wrap_ttl := Some 1\<rparr>) = (Inr None, exampleStorage)
   \<and> pathAppNumUsesUpdate exampleBackend
        \<lparr>Operation = UpdateOperation, Storage = exampleStorage\<rparr>
        (noFields\<lparr>app_name := Some ''b'', policies := Some ''p2'', num_uses := Some 1,
                  userid_ttl := Some 1, token_ttl := Some 1, token_max_ttl := Some 1,
                  wrap_ttl := Some 1\<rparr>) = (Inr None, exampleStorage)
   \<and> pathAppTokenTTLUpdate exampleBackend
        \<lparr>Operation = UpdateOperation, Storage = exampleStorage\<rparr>
        (noFields\<lparr>app_name := Some ''b'', policies := Some ''p2'', num_uses := Some 1,
                  userid_ttl := Some 1, token_ttl := Some 1, token_max_ttl := Some 1,
                  wrap_ttl := Some 1\<rparr>) = (Inr None, exampleStorage)"
proof -
  let ?req = "\<lparr>Operation = UpdateOperation, Storage = exampleStorage\<rparr>"
  let ?data = "noFields\<lparr>app_name := Some ''b'', policies := Some ''p2'', num_uses := Some 1,
                  userid_ttl := Some 1, token_ttl := Some 1, token_max_ttl := Some 1,
                  wrap_ttl := Some 1\<rparr>"
  have lower: "ToLower ''b'' = ''b''"
    by code_simp
  have name: "Get (app_name ?data) '''' \<noteq> ''''"
    by (simp add: Get_def)
  have absent: "apps (Storage ?req) (''app/'' @ ToLower (Get (app_name ?data) '''')) = None"
    by (simp add: Get_def lower exampleStorage_def)
  have working: "getErr (Storage ?req) = None"
    by (simp add: exampleStorage_def)
  show ?thesis
    using field_update_of_missing_app_writes_nothing [OF name absent working, of exampleBackend]
      absent
    by (simp add: Get_def lower)
qed

section \<open>Issuing a UserID against an App\<close>

lemma registerUserIDEntry_ok:
  assumes "getErr s = None" and "putErr s = None"
    and "case userids s (saltID b userID) of None \<Rightarrow> True | Some old \<Rightarrow> \<not> live (now b) old"
  shows "registerUserIDEntry b s kind name userID entry =
     (None, s\<lparr>userids := (userids s)(saltID b userID \<mapsto>
        \<lparr>selectorKind = kind, selectorName = name, issued = entry,
         expirationTime = (if uidUserIDTTL entry = 0 then None
                           else Some (now b + uidUserIDTTL entry))\<rparr>)\<rparr>)"
  using assms
  by (simp add: registerUserIDEntry_def Let_def split: option.splits)

lemma handleAppCredsCommon_ok:
  assumes "Get (app_name data) '''' \<noteq> ''''"
    and "apps (Storage req) (''app/'' @ ToLower (Get (app_name data) '''')) = Some app"
    and "getErr (Storage req) = None" and "putErr (Storage req) = None"
    and "Get (user_id data) '''' \<noteq> ''''"
    and "case userids (Storage req) (saltID b (Get (user_id data) '''')) of
           None \<Rightarrow> True | Some old \<Rightarrow> \<not> live (now b) old"
  shows "handleAppCredsCommon b req data specified =
     ((if specified then Inr None
       else Inr (Some (DataResponse [(''user_id'', VString (Get (user_id data) ''''))]))),
      (Storage req)\<lparr>userids := (userids (Storage req))(saltID b (Get (user_id data) '''') \<mapsto>
        \<lparr>selectorKind = selectorTypeApp, selectorName = Get (app_name data) '''',
         issued = \<lparr>uidNumUses = NumUses app, uidUserIDTTL = UserIDTTL app\<rparr>,
         expirationTime = (if UserIDTTL app = 0 then None
                           else Some (now b + UserIDTTL app))\<rparr>)\<rparr>)"
  using assms(1,2,3,5)
  by (simp add: handleAppCredsCommon_def Let_def appEntry_stored
        registerUserIDEntry_ok [OF assms(3,4,6)])

text \<open>
  Claim C7. For a registered App, on a working storage: a read request on the \<open>creds\<close>
  route returns the generated UserID as \<open>user_id\<close> in the response data, and an update
  request on the \<open>creds-specific\<close> route with a UserID supplied by the client returns no
  response data; each registers, under the salted hash of that UserID, an entry that
  refers to the App (selector kind App, the App's name as the request gives it). The
  UserID is not empty and no live entry is registered for it yet.
\<close>

theorem creds_endpoints_register_userid:
  "Get (app_name data) '''' \<noteq> '''' \<Longrightarrow>
   apps s (''app/'' @ ToLower (Get (app_name data) '''')) = Some app \<Longrightarrow>
   getErr s = None \<Longrightarrow> putErr s = None \<Longrightarrow>
   (GenerateUUID b = Inr uid \<and> uid \<noteq> ''''
      \<and> (case userids s (saltID b uid) of None \<Rightarrow> True | Some old \<Rightarrow> \<not> live (now b) old)
    \<longrightarrow> fst (HandleRequest b PathCreds \<lparr>Operation = ReadOperation, Storage = s\<rparr> data) =
            Inr (Some (DataResponse [(''user_id'', VString uid)]))
        \<and> (\<exists>e. userids (snd (HandleRequest b PathCreds
                    \<lparr>Operation = ReadOperation, Storage = s\<rparr> data)) (saltID b uid) = Some e
               \<and> selectorKind e = selectorTypeApp
               \<and> selectorName e = Get (app_name data) ''''))
   \<and> (user_id data = Some cid \<and> cid \<noteq> ''''
      \<and> (case userids s (saltID b cid) of None \<Rightarrow> True | Some old \<Rightarrow> \<not> live (now b) old)
    \<longrightarrow> fst (HandleRequest b PathCredsSpecific
              \<lparr>Operation = UpdateOperation, Storage = s\<rparr> data) = Inr None
        \<and> (\<exists>e. userids (snd (HandleRequest b PathCredsSpecific
                    \<lparr>Operation = UpdateOperation, Storage = s\<rparr> data)) (saltID b cid) = Some e
               \<and> selectorKind e = selectorTypeApp
               \<and> selectorName e = Get (app_name data) ''''))"
proof -
  assume name: "Get (app_name data) '''' \<noteq> ''''"
    and stored: "apps s (''app/'' @ ToLower (Get (app_name data) '''')) = Some app"
    and working: "getErr s = None" "putErr s = None"
  let ?read = "\<lparr>Operation = ReadOperation, Storage = s\<rparr>"
  let ?update = "\<lparr>Operation = UpdateOperation, Storage = s\<rparr>"
  have generated: "HandleRequest b PathCreds ?read data =
       (Inr (Some (DataResponse [(''user_id'', VString uid)])),
        s\<lparr>userids := (userids s)(saltID b uid \<mapsto>
          \<lparr>selectorKind = selectorTypeApp, selectorName = Get (app_name data) '''',
           issued = \<lparr>uidNumUses = NumUses app, uidUserIDTTL = UserIDTTL app\<rparr>,
           expirationTime = (if UserIDTTL app = 0 then None
                             else Some (now b + UserIDTTL app))\<rparr>)\<rparr>)"
    if g: "GenerateUUID b = Inr uid \<and> uid \<noteq> ''''
      \<and> (case userids s (saltID b uid) of None \<Rightarrow> True | Some old \<Rightarrow> \<not> live (now b) old)"
  proof -
    have "HandleRequest b PathCreds ?read data =
        handleAppCredsCommon b ?read (data\<lparr>user_id := Some uid\<rparr>) False"
      using g by (simp add: HandleRequest_def pathAppCredsRead_def)
    then show ?thesis
      using handleAppCredsCommon_ok [of "data\<lparr>user_id := Some uid\<rparr>" ?read app b False]
        name stored working g
      by (simp add: Get_def)
  qed
  have supplied: "HandleRequest b PathCredsSpecific ?update data =
       (Inr None,
        s\<lparr>userids := (userids s)(saltID b cid \<mapsto>
          \<lparr>selectorKind = selectorTypeApp, selectorName = Get (app_name data) '''',
           issued = \<lparr>uidNumUses = NumUses app, uidUserIDTTL = UserIDTTL app\<rparr>,
           expirationTime = (if UserIDTTL app = 0 then None
                             else Some (now b + UserIDTTL app))\<rparr>)\<rparr>)"
    if c: "user_id data = Some cid \<and> cid \<noteq> ''''
      \<and> (case userids s (saltID b cid) of None \<Rightarrow> True | Some old \<Rightarrow> \<not> live (now b) old)"
  proof -
    have "HandleRequest b PathCredsSpecific ?update data =
        handleAppCredsCommon b ?update data True"
      by (simp add: HandleRequest_def pathAppCredsSpecificUpdate_def)
    then show ?thesis
      using handleAppCredsCommon_ok [of data ?update app b True] name stored working c
      by (simp add: Get_def)
  qed
  show ?thesis
  proof (intro conjI impI)
    assume g: "GenerateUUID b = Inr uid \<and> uid \<noteq> ''''
      \<and> (case userids s (saltID b uid) of None \<Rightarrow> True | Some old \<Rightarrow> \<not> live (now b) old)"
    show "fst (HandleRequest b PathCreds ?read data) =
            Inr (Some (DataResponse [(''user_id'', VString uid)]))"
      by (simp add: generated [OF g])
    show "\<exists>e. userids (snd (HandleRequest b PathCreds ?read data)) (saltID b uid) = Some e
               \<and> selectorKind e = selectorTypeApp
               \<and> selectorName e = Get (app_name data) ''''"
      by (simp add: generated [OF g])
  next
    assume c: "user_id data = Some cid \<and> cid \<noteq> ''''
      \<and> (case userids s (saltID b cid) of None \<Rightarrow> True | Some old \<Rightarrow> \<not> live (now b) old)"
    show "fst (HandleRequest b PathCredsSpecific ?update data) = Inr None"
      by (simp add: supplied [OF c])
    show "\<exists>e. userids (snd (HandleRequest b PathCredsSpecific ?update data)) (saltID b cid) = Some e
               \<and> selectorKind e = selectorTypeApp
               \<and> selectorName e = Get (app_name data) ''''"
      by (simp add: supplied [OF c])
  qed
qed

text \<open>Both requests on the App \<open>a\<close>, with the generated UserID \<open>generated-id\<close> and
  the client's UserID \<open>my-id\<close>.\<close>

theorem creds_endpoints_register_userid_witness:
  "apps exampleStorage ''app/a'' = Some exampleEntry
   \<and> fst (HandleRequest exampleBackend PathCreds
        \<lparr>Operation = ReadOperation, Storage = exampleStorage\<rparr>
        (noFields\<lparr>app_name := Some ''a'', user_id := Some ''my-id''\<rparr>)) =
       Inr (Some (DataResponse [(''user_id'', VString ''generated-id'')]))
   \<and> (\<exists>e. userids (snd (HandleRequest exampleBackend PathCreds
               \<lparr>Operation = ReadOperation, Storage = exampleStorage\<rparr>
               (noFields\<lparr>app_name := Some ''a'', user_id := Some ''my-id''\<rparr>)))
             ''salted:generated-id'' = Some e
          \<and> selectorKind e = selectorTypeApp \<and> selectorName e = ''a'')
   \<and> fst (HandleRequest exampleBackend PathCredsSpecific
        \<lparr>Operation = UpdateOperation, Storage = exampleStorage\<rparr>
        (noFields\<lparr>app_name := Some ''a'', user_id := Some ''my-id''\<rparr>)) = Inr None
   \<and> (\<exists>e. userids (snd (HandleRequest exampleBackend PathCredsSpecific
               \<lparr>Operation = UpdateOperation, Storage = exampleStorage\<rparr>
               (noFields\<lparr>app_name := Some ''a'', user_id := Some ''my-id''\<rparr>)))
             ''salted:my-id'' = Some e
          \<and> selectorKind e = selectorTypeApp \<and> selectorName e = ''a'')"
proof -
  let ?data = "noFields\<lparr>app_name := Some ''a'', user_id := Some ''my-id''\<rparr>"
  have name: "Get (app_name ?data) '''' \<noteq> ''''"
    by (simp add: Get_def)
  have stored: "apps exampleStorage (''app/'' @ ToLower (Get (app_name ?data) '''')) =
      Some exampleEntry"
    by (simp add: Get_def ToLower_a exampleStorage_def)
  have working: "getErr exampleStorage = None" "putErr exampleStorage = None"
    by (simp_all add: exampleStorage_def)
  have gen: "GenerateUUID exampleBackend = Inr ''generated-id'' \<and> ''generated-id'' \<noteq> ''''
      \<and> (case userids exampleStorage (saltID exampleBackend ''generated-id'') of
            None \<Rightarrow> True | Some old \<Rightarrow> \<not> live (now exampleBackend) old)"
    by (simp add: exampleBackend_def exampleStorage_def)
  have cli: "user_id ?data = Some ''my-id'' \<and> ''my-id'' \<noteq> ''''
      \<and> (case userids exampleStorage (saltID exampleBackend ''my-id'') of
            None \<Rightarrow> True | Some old \<Rightarrow> \<not> live (now exampleBackend) old)"
    by (simp add: exampleBackend_def exampleStorage_def)
  have salt: "saltID exampleBackend ''generated-id'' = ''salted:generated-id''"
    "saltID exampleBackend ''my-id'' = ''salted:my-id''"
    by (simp_all add: exampleBackend_def)
  have a: "Get (app_name ?data) '''' = ''a''"
    by (simp add: Get_def)
  note inst = creds_endpoints_register_userid [OF name stored working,
      of exampleBackend "''generated-id''" "''my-id''"]
  from mp [OF conjunct1 [OF inst] gen] mp [OF conjunct2 [OF inst] cli] stored
  show ?thesis
    unfolding salt a by (simp add: ToLower_a)
qed

section \<open>The options an issued UserID carries\<close>

lemma storeEntry_userids: "userids (snd (storeEntry s n app)) = userids s"
  by (simp add: storeEntry_def setAppEntry_def split: option.splits)

lemma pathAppCreateUpdate_userids:
  "userids (snd (pathAppCreateUpdate b req data)) = userids (Storage req)"
proof (cases "fst (pathAppCreateUpdate b req data) = Inr None")
  case True
  from pathAppCreateUpdate_accepted [OF True] show ?thesis
    by auto
next
  case False
  then show ?thesis
    by (simp add: failed_writes_nothing)
qed

lemma pathAppRead_userids:
  "userids (snd (pathAppRead b req data)) = userids (Storage req)"
  by (simp add: pathAppRead_def Let_def storeEntry_userids split: sum.splits option.splits)

lemma pathAppDelete_userids:
  "userids (snd (pathAppDelete b req data)) = userids (Storage req)"
  by (simp add: pathAppDelete_def Let_def storeEntry_userids split: sum.splits option.splits)

lemma pathAppPoliciesUpdate_userids:
  "userids (snd (pathAppPoliciesUpdate b req data)) = userids (Storage req)"
  by (simp add: pathAppPoliciesUpdate_def Let_def storeEntry_userids split: sum.splits option.splits)

lemma pathAppPoliciesRead_userids:
  "userids (snd (pathAppPoliciesRead b req data)) = userids (Storage req)"
  by (simp add: pathAppPoliciesRead_def Let_def storeEntry_userids split: sum.splits option.splits)

lemma pathAppPoliciesDelete_userids:
  "userids (snd (pathAppPoliciesDelete b req data)) = userids (Storage req)"
  by (simp add: pathAppPoliciesDelete_def Let_def storeEntry_userids split: sum.splits option.splits)

lemma pathAppNumUsesUpdate_userids:
  "userids (snd (pathAppNumUsesUpdate b req data)) = userids (Storage req)"
  by (simp add: pathAppNumUsesUpdate_def Let_def storeEntry_userids split: sum.splits option.splits)

lemma pathAppNumUsesRead_userids:
  "userids (snd (pathAppNumUsesRead b req data)) = userids (Storage req)"
  by (simp add: pathAppNumUsesRead_def Let_def storeEntry_userids split: sum.splits option.splits)

lemma pathAppNumUsesDelete_userids:
  "userids (snd (pathAppNumUsesDelete b req data)) = userids (Storage req)"
  by (simp add: pathAppNumUsesDelete_def Let_def storeEntry_userids split: sum.splits option.splits)

lemma pathAppUserIDTTLUpdate_userids:
  "userids (snd (pathAppUserIDTTLUpdate b req data)) = userids (Storage req)"
  by (simp add: pathAppUserIDTTLUpdate_def Let_def storeEntry_userids split: sum.splits option.splits)

lemma pathAppUserIDTTLRead_userids:
  "userids (snd (pathAppUserIDTTLRead b req data)) = userids (Storage req)"
  by (simp add: pathAppUserIDTTLRead_def Let_def storeEntry_userids split: sum.splits option.splits)

lemma pathAppUserIDTTLDelete_userids:
  "userids (snd (pathAppUserIDTTLDelete b req data)) = userids (Storage req)"
  by (simp add: pathAppUserIDTTLDelete_def Let_def storeEntry_userids split: sum.splits option.splits)

lemma pathAppTokenTTLUpdate_userids:
  "userids (snd (pathAppTokenTTLUpdate b req data)) = userids (Storage req)"
  by (simp add: pathAppTokenTTLUpdate_def Let_def storeEntry_userids split: sum.splits option.splits)

lemma pathAppTokenTTLRead_userids:
  "userids (snd (pathAppTokenTTLRead b req data)) = userids (Storage req)"
  by (simp add: pathAppTokenTTLRead_def Let_def storeEntry_userids split: sum.splits option.splits)

lemma pathAppTokenTTLDelete_userids:
  "userids (snd (pathAppTokenTTLDelete b req data)) = userids (Storage req)"
  by (simp add: pathAppTokenTTLDelete_def Let_def storeEntry_userids split: sum.splits option.splits)

lemma pathAppTokenMaxTTLUpdate_userids:
  "userids (snd (pathAppTokenMaxTTLUpdate b req data)) = userids (Storage req)"
  by (simp add: pathAppTokenMaxTTLUpdate_def Let_def storeEntry_userids split: sum.splits option.splits)

lemma pathAppTokenMaxTTLRead_userids:
  "userids (snd (pathAppTokenMaxTTLRead b req data)) = userids (Storage req)"
  by (simp add: pathAppTokenMaxTTLRead_def Let_def storeEntry_userids split: sum.splits option.splits)

lemma pathAppTokenMaxTTLDelete_userids:
  "userids (snd (pathAppTokenMaxTTLDelete b req data)) = userids (Storage req)"
  by (simp add: pathAppTokenMaxTTLDelete_def Let_def storeEntry_userids split: sum.splits option.splits)

lemma pathAppWrapTTLUpdate_userids:
  "userids (snd (pathAppWrapTTLUpdate b req data)) = userids (Storage req)"
  by (simp add: pathAppWrapTTLUpdate_def Let_def storeEntry_userids split: sum.splits option.splits)

lemma pathAppWrapTTLRead_userids:
  "userids (snd (pathAppWrapTTLRead b req data)) = userids (Storage req)"
  by (simp add: pathAppWrapTTLRead_def Let_def storeEntry_userids split: sum.splits option.splits)

lemma pathAppWrapTTLDelete_userids:
  "userids (snd (pathAppWrapTTLDelete b req data)) = userids (Storage req)"
  by (simp add: pathAppWrapTTLDelete_def Let_def storeEntry_userids split: sum.splits option.splits)

lemmas handlers_userids =
  pathAppCreateUpdate_userids
  pathAppRead_userids
  pathAppDelete_userids
  pathAppPoliciesUpdate_userids
  pathAppPoliciesRead_userids
  pathAppPoliciesDelete_userids
  pathAppNumUsesUpdate_userids
  pathAppNumUsesRead_userids
  pathAppNumUsesDelete_userids
  pathAppUserIDTTLUpdate_userids
  pathAppUserIDTTLRead_userids
  pathAppUserIDTTLDelete_userids
  pathAppTokenTTLUpdate_userids
  pathAppTokenTTLRead_userids
  pathAppTokenTTLDelete_userids
  pathAppTokenMaxTTLUpdate_userids
  pathAppTokenMaxTTLRead_userids
  pathAppTokenMaxTTLDelete_userids
  pathAppWrapTTLUpdate_userids
  pathAppWrapTTLRead_userids
  pathAppWrapTTLDelete_userids

lemma HandleRequest_userids:
  "configPath p \<Longrightarrow> userids (snd (HandleRequest b p req data)) = userids (Storage req)"
  by (cases p; cases "Operation req")
     (simp_all add: HandleRequest_def configPath_def handlers_userids)

lemma applyAll_userids:
  "\<forall>step \<in> set steps. configPath (fst step) \<Longrightarrow> userids (applyAll b s steps) = userids s"
proof (induction steps arbitrary: s)
  case Nil
  then show ?case by simp
next
  case (Cons step steps)
  obtain p op data where step: "step = (p, op, data)"
    by (cases step)
  from Cons.prems have "configPath p" and rest: "\<forall>x \<in> set steps. configPath (fst x)"
    by (simp_all add: step)
  then show ?case
    by (simp add: step Cons.IH [OF rest] HandleRequest_userids)
qed

lemma registerUserIDEntry_None:
  "registerUserIDEntry b s kind name userID entry = (None, s') \<Longrightarrow>
   s' = s\<lparr>userids := (userids s)(saltID b userID \<mapsto>
        \<lparr>selectorKind = kind, selectorName = name, issued = entry,
         expirationTime = (if uidUserIDTTL entry = 0 then None
                           else Some (now b + uidUserIDTTL entry))\<rparr>)\<rparr>"
  by (auto simp: registerUserIDEntry_def Let_def split: option.splits if_splits)

lemma handleAppCredsCommon_issued:
  assumes "fst (handleAppCredsCommon b req data specified) = Inr resp" and "\<not> IsError resp"
  shows "\<exists>app. apps (Storage req) (''app/'' @ ToLower (Get (app_name data) '''')) = Some app
           \<and> userids (snd (handleAppCredsCommon b req data specified))
                (saltID b (Get (user_id data) '''')) =
              Some \<lparr>selectorKind = selectorTypeApp, selectorName = Get (app_name data) '''',
                    issued = \<lparr>uidNumUses = NumUses app, uidUserIDTTL = UserIDTTL app\<rparr>,
                    expirationTime = (if UserIDTTL app = 0 then None
                                      else Some (now b + UserIDTTL app))\<rparr>"
proof -
  from assms have name: "Get (app_name data) '''' \<noteq> ''''"
    and uid: "Get (user_id data) '''' \<noteq> ''''"
    by (auto simp: handleAppCredsCommon_def Let_def split: if_splits)
  show ?thesis
  proof (cases "appEntry (Storage req) (ToLower (Get (app_name data) ''''))")
    case (Inl err)
    with assms name uid show ?thesis
      by (simp add: handleAppCredsCommon_def Let_def)
  next
    case (Inr found)
    show ?thesis
    proof (cases found)
      case None
      with assms name uid Inr show ?thesis
        by (auto simp: handleAppCredsCommon_def Let_def)
    next
      case (Some app)
      from Inr Some have stored:
        "apps (Storage req) (''app/'' @ ToLower (Get (app_name data) '''')) = Some app"
        using appEntry_found [of "Storage req" "ToLower (Get (app_name data) '''')" found]
        by (simp add: ToLower_idem)
      obtain r s' where reg: "registerUserIDEntry b (Storage req) selectorTypeApp
          (Get (app_name data) '''') (Get (user_id data) '''')
          \<lparr>uidNumUses = NumUses app, uidUserIDTTL = UserIDTTL app\<rparr> = (r, s')"
        by (cases "registerUserIDEntry b (Storage req) selectorTypeApp
          (Get (app_name data) '''') (Get (user_id data) '''')
          \<lparr>uidNumUses = NumUses app, uidUserIDTTL = UserIDTTL app\<rparr>")
      from assms name uid Inr Some reg have r: "r = None"
        and s: "snd (handleAppCredsCommon b req data specified) = s'"
        by (auto simp: handleAppCredsCommon_def Let_def split: option.splits if_splits)
      from registerUserIDEntry_None [OF reg [unfolded r]] stored show ?thesis
        unfolding s by simp
    qed
  qed
qed

text \<open>
  Claim C8. Whenever \<open>handleAppCredsCommon\<close> (behind both credential routes) issues a
  UserID, that is, answers without an error, the App has a stored record and the entry
  registered under the salted hash of the UserID carries that record's \<open>NumUses\<close> and
  \<open>UserIDTTL\<close> as they are stored at that moment. Whatever requests on the routes
  that manage App options follow, the registered entry stays as it is.
\<close>

theorem issued_userid_copies_app_options:
  "fst (handleAppCredsCommon b req data specified) = Inr resp \<Longrightarrow> \<not> IsError resp \<Longrightarrow>
   (\<exists>app e.
      apps (Storage req) (''app/'' @ ToLower (Get (app_name data) '''')) = Some app
      \<and> userids (snd (handleAppCredsCommon b req data specified))
           (saltID b (Get (user_id data) '''')) = Some e
      \<and> uidNumUses (issued e) = NumUses app
      \<and> uidUserIDTTL (issued e) = UserIDTTL app
      \<and> (\<forall>c steps. (\<forall>step \<in> set steps. configPath (fst step)) \<longrightarrow>
            userids (applyAll c (snd (handleAppCredsCommon b req data specified)) steps)
              (saltID b (Get (user_id data) '''')) = Some e))"
proof -
  assume ok: "fst (handleAppCredsCommon b req data specified) = Inr resp" "\<not> IsError resp"
  from handleAppCredsCommon_issued [OF ok] obtain app
    where stored: "apps (Storage req) (''app/'' @ ToLower (Get (app_name data) '''')) = Some app"
      and reg: "userids (snd (handleAppCredsCommon b req data specified))
                (saltID b (Get (user_id data) '''')) =
              Some \<lparr>selectorKind = selectorTypeApp, selectorName = Get (app_name data) '''',
                    issued = \<lparr>uidNumUses = NumUses app, uidUserIDTTL = UserIDTTL app\<rparr>,
                    expirationTime = (if UserIDTTL app = 0 then None
                                      else Some (now b + UserIDTTL app))\<rparr>"
    by blast
  let ?e = "\<lparr>selectorKind = selectorTypeApp, selectorName = Get (app_name data) '''',
             issued = \<lparr>uidNumUses = NumUses app, uidUserIDTTL = UserIDTTL app\<rparr>,
             expirationTime = (if UserIDTTL app = 0 then None
                               else Some (now b + UserIDTTL app))\<rparr>"
  have later: "\<forall>c steps. (\<forall>step \<in> set steps. configPath (fst step)) \<longrightarrow>
            userids (applyAll c (snd (handleAppCredsCommon b req data specified)) steps)
              (saltID b (Get (user_id data) '''')) = Some ?e"
    using reg by (simp add: applyAll_userids)
  have fields: "uidNumUses (issued ?e) = NumUses app" "uidUserIDTTL (issued ?e) = UserIDTTL app"
    by simp_all
  from stored reg fields later show ?thesis
    by blast
qed

text \<open>The client's UserID \<open>my-id\<close> is issued against the App \<open>a\<close> (3 uses, UserID TTL
  60 s); then the App's number of uses is set to 9 and its UserID TTL is deleted. The
  registered entry still carries 3 uses and 60 s.\<close>

theorem issued_userid_copies_app_options_witness:
  "fst (handleAppCredsCommon exampleBackend
          \<lparr>Operation = UpdateOperation, Storage = exampleStorage\<rparr>
          (noFields\<lparr>app_name := Some ''a'', user_id := Some ''my-id''\<rparr>) True) = Inr None
   \<and> \<not> IsError None
   \<and> configPath PathNumUses \<and> configPath PathUserIDTTL
   \<and> (\<exists>e. userids (applyAll exampleBackend
               (snd (handleAppCredsCommon exampleBackend
                  \<lparr>Operation = UpdateOperation, Storage = exampleStorage\<rparr>
                  (noFields\<lparr>app_name := Some ''a'', user_id := Some ''my-id''\<rparr>) True))
               [(PathNumUses, UpdateOperation,
                   noFields\<lparr>app_name := Some ''a'', num_uses := Some 9\<rparr>),
                (PathUserIDTTL, DeleteOperation, noFields\<lparr>app_name := Some ''a''\<rparr>)])
             ''salted:my-id'' = Some e
          \<and> uidNumUses (issued e) = 3 \<and> uidUserIDTTL (issued e) = 60 * Second)
   \<and> apps (applyAll exampleBackend
               (snd (handleAppCredsCommon exampleBackend
                  \<lparr>Operation = UpdateOperation, Storage = exampleStorage\<rparr>
                  (noFields\<lparr>app_name := Some ''a'', user_id := Some ''my-id''\<rparr>) True))
               [(PathNumUses, UpdateOperation,
                   noFields\<lparr>app_name := Some ''a'', num_uses := Some 9\<rparr>),
                (PathUserIDTTL, DeleteOperation, noFields\<lparr>app_name := Some ''a''\<rparr>)])
        ''app/a'' = Some (exampleEntry\<lparr>NumUses := 9, UserIDTTL := 0\<rparr>)"
proof -
  let ?req = "\<lparr>Operation = UpdateOperation, Storage = exampleStorage\<rparr>"
  let ?data = "noFields\<lparr>app_name := Some ''a'', user_id := Some ''my-id''\<rparr>"
  let ?steps = "[(PathNumUses, UpdateOperation,
                   noFields\<lparr>app_name := Some ''a'', num_uses := Some 9\<rparr>),
                 (PathUserIDTTL, DeleteOperation, noFields\<lparr>app_name := Some ''a''\<rparr>)]"
  have name: "Get (app_name ?data) '''' \<noteq> ''''" "Get (user_id ?data) '''' \<noteq> ''''"
    by (simp_all add: Get_def)
  have stored: "apps (Storage ?req) (''app/'' @ ToLower (Get (app_name ?data) '''')) =
      Some exampleEntry"
    by (simp add: Get_def ToLower_a exampleStorage_def)
  have working: "getErr (Storage ?req) = None" "putErr (Storage ?req) = None"
    by (simp_all add: exampleStorage_def)
  have fresh: "case userids (Storage ?req) (saltID exampleBackend (Get (user_id ?data) '''')) of
           None \<Rightarrow> True | Some old \<Rightarrow> \<not> live (now exampleBackend) old"
    by (simp add: exampleStorage_def)
  have issuedNow: "fst (handleAppCredsCommon exampleBackend ?req ?data True) = Inr None"
    by (simp add: handleAppCredsCommon_ok [OF name(1) stored working name(2) fresh])
  have noError: "\<not> IsError None"
    by simp
  have paths: "configPath PathNumUses" "configPath PathUserIDTTL"
    by (simp_all add: configPath_def)
  have steps: "\<forall>step \<in> set ?steps. configPath (fst step)"
    by (simp add: configPath_def)
  from issued_userid_copies_app_options [OF issuedNow noError] obtain app e
    where a: "apps (Storage ?req) (''app/'' @ ToLower (Get (app_name ?data) '''')) = Some app"
      and n: "uidNumUses (issued e) = NumUses app" "uidUserIDTTL (issued e) = UserIDTTL app"
      and l: "\<forall>c steps. (\<forall>step \<in> set steps. configPath (fst step)) \<longrightarrow>
            userids (applyAll c (snd (handleAppCredsCommon exampleBackend ?req ?data True)) steps)
              (saltID exampleBackend (Get (user_id ?data) '''')) = Some e"
    by blast
  from a stored have app: "app = exampleEntry"
    by simp
  have salt: "saltID exampleBackend (Get (user_id ?data) '''') = ''salted:my-id''"
    by (simp add: exampleBackend_def Get_def)
  from l steps have "userids (applyAll exampleBackend
      (snd (handleAppCredsCommon exampleBackend ?req ?data True)) ?steps)
        (saltID exampleBackend (Get (user_id ?data) '''')) = Some e"
    by blast
  then have kept: "userids (applyAll exampleBackend
      (snd (handleAppCredsCommon exampleBackend ?req ?data True)) ?steps) ''salted:my-id'' = Some e"
    unfolding salt .
  from n have vals: "uidNumUses (issued e) = 3" "uidUserIDTTL (issued e) = 60 * Second"
    by (simp_all add: app exampleEntry_def)
  have res: "handleAppCredsCommon exampleBackend ?req ?data True =
     (Inr None,
      (Storage ?req)\<lparr>userids := (userids (Storage ?req))
        (saltID exampleBackend (Get (user_id ?data) '''') \<mapsto>
          \<lparr>selectorKind = selectorTypeApp, selectorName = Get (app_name ?data) '''',
           issued = \<lparr>uidNumUses = NumUses exampleEntry, uidUserIDTTL = UserIDTTL exampleEntry\<rparr>,
           expirationTime = (if UserIDTTL exampleEntry = 0 then None
                             else Some (now exampleBackend + UserIDTTL exampleEntry))\<rparr>)\<rparr>)"
    using handleAppCredsCommon_ok [OF name(1) stored working name(2) fresh, of True]
    by (simp only: if_True)
  have s1: "apps (snd (handleAppCredsCommon exampleBackend ?req ?data True)) =
        [''app/a'' \<mapsto> exampleEntry]"
      "getErr (snd (handleAppCredsCommon exampleBackend ?req ?data True)) = None"
      "putErr (snd (handleAppCredsCommon exampleBackend ?req ?data True)) = None"
    unfolding res by (simp_all add: exampleStorage_def)
  have changed: "apps (applyAll exampleBackend
      (snd (handleAppCredsCommon exampleBackend ?req ?data True)) ?steps) ''app/a'' =
        Some (exampleEntry\<lparr>NumUses := 9, UserIDTTL := 0\<rparr>)"
    by (simp add: HandleRequest_def pathAppNumUsesUpdate_def pathAppUserIDTTLDelete_def Get_def
        appEntry_def ToLower_a s1 storeEntry_def
        setAppEntry_def zeroAppStorageEntry_def word_sless_alt Let_def)
  from issuedNow noError paths kept vals changed show ?thesis
    by blast
qed

section \<open>Concurrent updates of one App\<close>

text \<open>Each per-field update handler is its first section followed by the call of
  \<open>setAppEntry\<close>, if the section ends with one.\<close>

lemma pathAppPoliciesUpdate_sections:
  "pathAppPoliciesUpdate b req data =
     (case pathAppPoliciesUpdate_read b data (Storage req) of
        Done r \<Rightarrow> (r, Storage req)
      | Put appName app \<Rightarrow> storeEntry (Storage req) appName app)"
  by (simp add: pathAppPoliciesUpdate_def pathAppPoliciesUpdate_read_def Let_def
        split: sum.splits option.splits)

lemma pathAppNumUsesUpdate_sections:
  "pathAppNumUsesUpdate b req data =
     (case pathAppNumUsesUpdate_read b data (Storage req) of
        Done r \<Rightarrow> (r, Storage req)
      | Put appName app \<Rightarrow> storeEntry (Storage req) appName app)"
  by (simp add: pathAppNumUsesUpdate_def pathAppNumUsesUpdate_read_def Let_def
        split: sum.splits option.splits)

lemma pathAppUserIDTTLUpdate_sections:
  "pathAppUserIDTTLUpdate b req data =
     (case pathAppUserIDTTLUpdate_read b data (Storage req) of
        Done r \<Rightarrow> (r, Storage req)
      | Put appName app \<Rightarrow> storeEntry (Storage req) appName app)"
  by (simp add: pathAppUserIDTTLUpdate_def pathAppUserIDTTLUpdate_read_def Let_def
        split: sum.splits option.splits)

lemma pathAppTokenTTLUpdate_sections:
  "pathAppTokenTTLUpdate b req data =
     (case pathAppTokenTTLUpdate_read b data (Storage req) of
        Done r \<Rightarrow> (r, Storage req)
      | Put appName app \<Rightarrow> storeEntry (Storage req) appName app)"
  by (simp add: pathAppTokenTTLUpdate_def pathAppTokenTTLUpdate_read_def Let_def
        split: sum.splits option.splits)

lemma pathAppTokenMaxTTLUpdate_sections:
  "pathAppTokenMaxTTLUpdate b req data =
     (case pathAppTokenMaxTTLUpdate_read b data (Storage req) of
        Done r \<Rightarrow> (r, Storage req)
      | Put appName app \<Rightarrow> storeEntry (Storage req) appName app)"
  by (simp add: pathAppTokenMaxTTLUpdate_def pathAppTokenMaxTTLUpdate_read_def Let_def
        split: sum.splits option.splits)

lemma pathAppWrapTTLUpdate_sections:
  "pathAppWrapTTLUpdate b req data =
     (case pathAppWrapTTLUpdate_read b data (Storage req) of
        Done r \<Rightarrow> (r, Storage req)
      | Put appName app \<Rightarrow> storeEntry (Storage req) appName app)"
  by (simp add: pathAppWrapTTLUpdate_def pathAppWrapTTLUpdate_read_def Let_def
        split: sum.splits option.splits)

lemmas update_sections =
  pathAppPoliciesUpdate_sections
  pathAppNumUsesUpdate_sections
  pathAppUserIDTTLUpdate_sections
  pathAppTokenTTLUpdate_sections
  pathAppTokenMaxTTLUpdate_sections
  pathAppWrapTTLUpdate_sections

lemma HandleRequest_sections:
  assumes "updateSection b p = Some section"
  shows "HandleRequest b p \<lparr>Operation = UpdateOperation, Storage = s\<rparr> data =
     (case section data s of
        Done r \<Rightarrow> (r, s)
      | Put appName app \<Rightarrow> storeEntry s appName app)"
  using assms
  by (cases p) (auto simp: HandleRequest_def update_sections split: pending.splits)

text \<open>A handler whose two sections run back to back does what the handler does.\<close>

lemma uninterrupted_update:
  assumes "updateSection b p = Some section"
  shows "interleave [TurnA, TurnA] (Ready (section data)) other s =
     (Finished (fst (HandleRequest b p \<lparr>Operation = UpdateOperation, Storage = s\<rparr> data)),
      other,
      snd (HandleRequest b p \<lparr>Operation = UpdateOperation, Storage = s\<rparr> data))"
  unfolding HandleRequest_sections [OF assms]
  by (simp add: storeEntry_def split: pending.splits prod.splits option.splits)

text \<open>Two updates of one App that both read before either writes: both return
  \<open>nil, nil\<close>, and the storage is the one the second writer alone would have left.
  The first writer's update is lost.\<close>

lemma interleaved_updates_lose_first:
  assumes a: "updateSection b p = Some sectionA" and b: "updateSection b q = Some sectionB"
    and pa: "sectionA dataA s = Put nameA appA" and pb: "sectionB dataB s = Put nameB appB"
    and same: "ToLower nameA = ToLower nameB" and put: "putErr s = None"
  shows "interleave [TurnA, TurnB, TurnA, TurnB]
           (Ready (sectionA dataA)) (Ready (sectionB dataB)) s =
         (Finished (Inr None), Finished (Inr None),
          snd (HandleRequest b q \<lparr>Operation = UpdateOperation, Storage = s\<rparr> dataB))"
  unfolding HandleRequest_sections [OF b]
  using pa pb same put
  by (simp add: storeEntry_def setAppEntry_def)

text \<open>
  Claim C9, where the code breaks it. Two requests on the App \<open>a\<close> (3 uses, token TTL
  3 s) are in flight: one sets \<open>num_uses\<close> to 9, the other sets \<open>token_ttl\<close> to 4 s.
  Neither holds a lock between its read and its write, so the schedule read, read,
  write, write is possible. Both requests then return \<open>nil, nil\<close>, but the stored
  record has the new token TTL and still 3 uses: the update of \<open>num_uses\<close> is lost.
  When the two handlers run one after the other, the stored record has both.
\<close>

theorem concurrent_field_updates_lose_update:
  "interleave [TurnA, TurnB, TurnA, TurnB]
     (Ready (pathAppNumUsesUpdate_read exampleBackend
        (noFields\<lparr>app_name := Some ''a'', num_uses := Some 9\<rparr>)))
     (Ready (pathAppTokenTTLUpdate_read exampleBackend
        (noFields\<lparr>app_name := Some ''a'', token_ttl := Some 4\<rparr>)))
     exampleStorage =
   (Finished (Inr None), Finished (Inr None),
    exampleStorage\<lparr>apps := [''app/a'' \<mapsto>
      \<lparr>Policies = [''p1''], NumUses = 3, UserIDTTL = 60 * Second, TokenTTL = 4 * Second,
       TokenMaxTTL = 5 * Second, WrapTTL = 7 * Second\<rparr>]\<rparr>)
   \<and> interleave [TurnA, TurnA, TurnB, TurnB]
     (Ready (pathAppNumUsesUpdate_read exampleBackend
        (noFields\<lparr>app_name := Some ''a'', num_uses := Some 9\<rparr>)))
     (Ready (pathAppTokenTTLUpdate_read exampleBackend
        (noFields\<lparr>app_name := Some ''a'', token_ttl := Some 4\<rparr>)))
     exampleStorage =
   (Finished (Inr None), Finished (Inr None),
    exampleStorage\<lparr>apps := [''app/a'' \<mapsto>
      \<lparr>Policies = [''p1''], NumUses = 9, UserIDTTL = 60 * Second, TokenTTL = 4 * Second,
       TokenMaxTTL = 5 * Second, WrapTTL = 7 * Second\<rparr>]\<rparr>)"
  by (simp add: pathAppNumUsesUpdate_read_def pathAppTokenTTLUpdate_read_def Get_def
      noFields_def appEntry_def ToLower_a exampleStorage_def exampleEntry_def setAppEntry_def
      Let_def Second_def word_sless_alt)

end
